theory Spec2Isabelle
  imports Complex_Main
begin

section \<open>Values of the source language\<close>

text \<open>
  A TypeScript \<^verbatim>\<open>number\<close> is a finite value or NaN. Finite values are idealised as
  reals; the canvas code copies coordinates, adds and subtracts deltas and tests
  \<^verbatim>\<open>isNaN\<close> and truthiness, nothing else.
\<close>

datatype number = Num real | NaN

fun isNaN :: "number \<Rightarrow> bool" where
  "isNaN NaN = True"
| "isNaN (Num _) = False"

fun num_add :: "number \<Rightarrow> number \<Rightarrow> number" where
  "num_add (Num a) (Num b) = Num (a + b)"
| "num_add _ _ = NaN"

fun num_sub :: "number \<Rightarrow> number \<Rightarrow> number" where
  "num_sub (Num a) (Num b) = Num (a - b)"
| "num_sub _ _ = NaN"

text \<open>Truthiness of a number (\<^verbatim>\<open>0\<close> and NaN are falsy) and of a string (the empty string is falsy).\<close>

fun truthy_num :: "number \<Rightarrow> bool" where
  "truthy_num NaN = False"
| "truthy_num (Num r) = (r \<noteq> 0)"

definition truthy_str :: "string \<Rightarrow> bool" where
  "truthy_str s = (s \<noteq> [])"

text \<open>
  An optional property that is read with \<^verbatim>\<open>?? false\<close>, or only tested for truthiness:
  \<^verbatim>\<open>undefined\<close> reads as \<^verbatim>\<open>false\<close>.
\<close>

fun flag :: "bool option \<Rightarrow> bool" where
  "flag None = False"
| "flag (Some b) = b"

section \<open>Domain entities\<close>

record DataType =
  type_id :: string
  type_name :: string

record DBField =
  field_id :: string
  field_type :: DataType

record DBTable =
  table_id :: string
  table_schema :: "string option"
  table_x :: number
  table_y :: number
  table_width :: "number option"
  table_fields :: "DBField list"
  isView :: bool
  parentAreaId :: "string option"

record DBRelationship =
  rel_id :: string
  sourceTableId :: string
  sourceFieldId :: string
  targetTableId :: string
  targetFieldId :: string

record DBDependency =
  dep_id :: string
  dep_tableId :: string
  dependentTableId :: string

record Area =
  area_id :: string
  area_x :: number
  area_y :: number
  area_width :: number
  area_height :: number

record Note =
  note_id :: string
  note_x :: number
  note_y :: number
  note_width :: number
  note_height :: number

section \<open>Visual nodes\<close>

datatype node_type = table_node | area_node | note_node | temp_cursor_node | create_relationship_node

record XYPosition =
  pos_x :: number
  pos_y :: number

record Measured =
  measured_width :: "number option"
  measured_height :: "number option"

record TableNodeData =
  data_table :: DBTable
  isOverlapping :: bool
  isRelationshipCreatingTarget :: bool
  highlightOverlappingTables :: "bool option"
  hasHighlightedCustomType :: "bool option"

text \<open>
  The node types form a discriminated union: the \<^verbatim>\<open>type\<close> tag of a node fixes the
  shape of its \<^verbatim>\<open>data\<close>. The tag is therefore read off the data.
\<close>

datatype node_data =
  TableData TableNodeData
| AreaData Area
| NoteData Note
| TempCursorData
| CreateRelationshipData

record Node =
  node_id :: string
  position :: XYPosition
  node_data :: node_data
  node_width :: "number option"
  node_height :: "number option"
  node_zIndex :: "int option"
  hidden :: "bool option"
  node_selected :: "bool option"
  measured :: "Measured option"

definition node_type :: "Node \<Rightarrow> node_type" where
  "node_type n =
     (case node_data n of
        TableData _ \<Rightarrow> table_node
      | AreaData _ \<Rightarrow> area_node
      | NoteData _ \<Rightarrow> note_node
      | TempCursorData \<Rightarrow> temp_cursor_node
      | CreateRelationshipData \<Rightarrow> create_relationship_node)"

text \<open>The overlap graph: the entries of a \<^verbatim>\<open>Map\<close> from a table id to the ids of the
  tables that overlap it, in insertion order.\<close>

record Graph =
  graph :: "(string \<times> string list) list"
  lastUpdated :: nat

text \<open>
  The modules the canvas imports and this development does not have the source of: the
  filter predicate, the table of default schemas, the minimal table width, the
  type-compatibility predicate, the handle-id prefixes, the member tables of an area,
  the height of a table, the two overlap computations and the conversion of screen
  coordinates. They are parameters of
  every function that uses them. \<^typ>\<open>'f\<close> is the type of a diagram filter and
  \<^typ>\<open>'d\<close> the type of a database dialect.
\<close>

record ('f, 'd) imported =
  filterTable :: "string \<Rightarrow> string option \<Rightarrow> 'f option \<Rightarrow> string option \<Rightarrow> bool"
  defaultSchemas :: "'d \<Rightarrow> string option"
  MIN_TABLE_SIZE :: number
  areFieldTypesCompatible :: "DataType \<Rightarrow> DataType \<Rightarrow> 'd \<Rightarrow> bool"
  LEFT_HANDLE_ID_PREFIX :: string
  TARGET_ID_PREFIX :: string
  TOP_SOURCE_HANDLE_ID_PREFIX :: string
  BOTTOM_SOURCE_HANDLE_ID_PREFIX :: string
  TARGET_DEP_PREFIX :: string
  getTablesInArea :: "string \<Rightarrow> DBTable list \<Rightarrow> DBTable list"
  calcTableHeight :: "DBTable \<Rightarrow> number"
  findTableOverlapping :: "Node \<Rightarrow> Node list \<Rightarrow> Graph \<Rightarrow> Graph"
  findOverlappingTables :: "DBTable list \<Rightarrow> Graph"
  screenToFlowPosition :: "XYPosition \<Rightarrow> XYPosition"

subsection \<open>tableToTableNode\<close>

record ('f, 'd) tableNodeOptions =
  opt_filter :: "'f option"
  opt_databaseType :: 'd
  opt_filterLoading :: bool
  opt_showDBViews :: "bool option"
  opt_forceShow :: "bool option"
  opt_isRelationshipCreatingTarget :: "bool option"

definition tableToTableNode ::
  "('f, 'd) imported \<Rightarrow> DBTable \<Rightarrow> ('f, 'd) tableNodeOptions \<Rightarrow> Node" where
  "tableToTableNode im t opts =
     (let hidden0 =
            (if flag (opt_forceShow opts) then False
             else (\<not> filterTable im (table_id t) (table_schema t) (opt_filter opts)
                        (defaultSchemas im (opt_databaseType opts))
                   \<or> opt_filterLoading opts
                   \<or> (\<not> flag (opt_showDBViews opts) \<and> isView t)))
      in \<lparr> node_id = table_id t,
           position = \<lparr> pos_x = table_x t, pos_y = table_y t \<rparr>,
           node_data = TableData
             \<lparr> data_table = t,
               isOverlapping = False,
               isRelationshipCreatingTarget =
                 (case opt_isRelationshipCreatingTarget opts of None \<Rightarrow> False | Some b \<Rightarrow> b),
               highlightOverlappingTables = None,
               hasHighlightedCustomType = None \<rparr>,
           node_width = Some (case table_width t of None \<Rightarrow> MIN_TABLE_SIZE im | Some w \<Rightarrow> w),
           node_height = None,
           node_zIndex = None,
           hidden = Some hidden0,
           node_selected = None,
           measured = None \<rparr>)"

section \<open>Visual edges\<close>

datatype edge_type = relationship_edge | dependency_edge | temp_floating_edge

datatype edge_payload = RelationshipPayload DBRelationship | DependencyPayload DBDependency

record EdgeData =
  payload :: "edge_payload option"
  highlighted :: "bool option"

record Edge =
  edge_id :: string
  source :: string
  target :: string
  sourceHandle :: "string option"
  targetHandle :: "string option"
  edge_type :: edge_type
  edge_data :: "EdgeData option"
  edge_hidden :: "bool option"
  selected :: "bool option"
  animated :: "bool option"
  zIndex :: "int option"

definition HIGHLIGHTED_EDGE_Z_INDEX :: int where
  "HIGHLIGHTED_EDGE_Z_INDEX = 1"

definition DEFAULT_EDGE_Z_INDEX :: int where
  "DEFAULT_EDGE_Z_INDEX = 0"

text \<open>
  The state setter of a React hook is given an updater. An updater that returns its
  argument keeps the array that the observers already hold; any other result is a new
  array. The two outcomes are kept apart, since equality of lists cannot tell them apart.
\<close>

datatype 'a next_state = SameReference | NewValue 'a

fun resulting :: "'a \<Rightarrow> 'a next_state \<Rightarrow> 'a" where
  "resulting prev SameReference = prev"
| "resulting prev (NewValue v) = v"

subsection \<open>Decimal rendering of an index inside a template string\<close>

definition digit :: "nat \<Rightarrow> char" where
  "digit n = ''0123456789'' ! (n mod 10)"

function show_nat :: "nat \<Rightarrow> string" where
  "show_nat n = (if n < 10 then [digit n] else show_nat (n div 10) @ [digit n])"
  by pat_completeness auto
termination
  by (relation "measure (\<lambda>n. n)") auto

declare show_nat.simps [simp del]

text \<open>A counter read from a record of counters: a missing key reads \<^verbatim>\<open>undefined\<close>, and
  \<^verbatim>\<open>undefined++\<close> renders as \<^verbatim>\<open>NaN\<close> in a template string.\<close>

fun show_index :: "nat option \<Rightarrow> string" where
  "show_index None = ''NaN''"
| "show_index (Some n) = show_nat n"

fun post_increment :: "(string \<rightharpoonup> nat) \<Rightarrow> string \<Rightarrow> (string \<rightharpoonup> nat)" where
  "post_increment m k = (case m k of None \<Rightarrow> m | Some n \<Rightarrow> m(k \<mapsto> Suc n))"

subsection \<open>Regeneration of the edge list\<close>

record EdgeState =
  st_selected :: "bool option"
  st_animated :: "bool option"

text \<open>\<^verbatim>\<open>new Map(prevEdges.map(edge => [edge.id, {selected, animated}]))\<close>: entries are
  inserted in list order, a later entry replaces an earlier one with the same key.\<close>

definition prevEdgeStates :: "Edge list \<Rightarrow> (string \<rightharpoonup> EdgeState)" where
  "prevEdgeStates prevEdges =
     fold (\<lambda>e m. m(edge_id e \<mapsto> \<lparr> st_selected = selected e, st_animated = animated e \<rparr>))
          prevEdges Map.empty"

text \<open>The two records of counters, every key set to 0. They are plain objects used as
  dictionaries and are made once per run of the effect; a key that names a property
  of the object prototype, and a second call of the same updater (which would go on
  from the counters the first call left), are outside this model. The counters only
  number the target handles.\<close>

definition targetIndexes :: "DBRelationship list \<Rightarrow> (string \<rightharpoonup> nat)" where
  "targetIndexes relationships =
     fold (\<lambda>r acc. acc(targetTableId r @ targetFieldId r \<mapsto> 0)) relationships Map.empty"

definition targetDepIndexes :: "DBDependency list \<Rightarrow> (string \<rightharpoonup> nat)" where
  "targetDepIndexes dependencies =
     fold (\<lambda>d acc. acc(dep_tableId d \<mapsto> 0)) dependencies Map.empty"

text \<open>\<^verbatim>\<open>prevState?.selected ?? false\<close>\<close>

definition carried :: "EdgeState option \<Rightarrow> (EdgeState \<Rightarrow> bool option) \<Rightarrow> bool" where
  "carried prevState sel =
     (case prevState of None \<Rightarrow> False
      | Some st \<Rightarrow> (case sel st of None \<Rightarrow> False | Some b \<Rightarrow> b))"

fun relationshipEdges ::
  "('f, 'd) imported \<Rightarrow> (string \<rightharpoonup> EdgeState) \<Rightarrow> (string \<rightharpoonup> nat) \<Rightarrow> DBRelationship list
   \<Rightarrow> Edge list" where
  "relationshipEdges im states idx [] = []"
| "relationshipEdges im states idx (r # rs) =
     (let prevState = states (rel_id r);
          key = targetTableId r @ targetFieldId r
      in \<lparr> edge_id = rel_id r,
           source = sourceTableId r,
           target = targetTableId r,
           sourceHandle = Some (LEFT_HANDLE_ID_PREFIX im @ sourceFieldId r),
           targetHandle = Some (TARGET_ID_PREFIX im @ show_index (idx key) @ ''_'' @ targetFieldId r),
           edge_type = relationship_edge,
           edge_data = Some \<lparr> payload = Some (RelationshipPayload r), highlighted = None \<rparr>,
           edge_hidden = None,
           selected = Some (carried prevState st_selected),
           animated = Some (carried prevState st_animated),
           zIndex = None \<rparr>
         # relationshipEdges im states (post_increment idx key) rs)"

fun dependencyEdges ::
  "('f, 'd) imported \<Rightarrow> bool \<Rightarrow> (string \<rightharpoonup> EdgeState) \<Rightarrow> (string \<rightharpoonup> nat) \<Rightarrow> DBDependency list
   \<Rightarrow> Edge list" where
  "dependencyEdges im showDBViews states idx [] = []"
| "dependencyEdges im showDBViews states idx (d # ds) =
     (let prevState = states (dep_id d);
          key = dep_tableId d
      in \<lparr> edge_id = dep_id d,
           source = dependentTableId d,
           target = dep_tableId d,
           sourceHandle = Some (TOP_SOURCE_HANDLE_ID_PREFIX im @ dependentTableId d),
           targetHandle = Some (TARGET_DEP_PREFIX im @ show_index (idx key) @ ''_'' @ dep_tableId d),
           edge_type = dependency_edge,
           edge_data = Some \<lparr> payload = Some (DependencyPayload d), highlighted = None \<rparr>,
           edge_hidden = Some (\<not> showDBViews),
           selected = Some (carried prevState st_selected),
           animated = Some (carried prevState st_animated),
           zIndex = None \<rparr>
         # dependencyEdges im showDBViews states (post_increment idx key) ds)"

text \<open>The updater of the effect that depends on the relationships, the dependencies and
  the show-views flag. Its result is always a new array.\<close>

definition setEdges_regenerate ::
  "('f, 'd) imported \<Rightarrow> DBRelationship list \<Rightarrow> DBDependency list \<Rightarrow> bool \<Rightarrow> Edge list
   \<Rightarrow> Edge list next_state" where
  "setEdges_regenerate im relationships dependencies showDBViews prevEdges =
     (let states = prevEdgeStates prevEdges
      in NewValue
           (relationshipEdges im states (targetIndexes relationships) relationships
            @ dependencyEdges im showDBViews states (targetDepIndexes dependencies) dependencies))"

subsection \<open>Highlight propagation\<close>

definition currentHighlighted :: "Edge \<Rightarrow> bool" where
  "currentHighlighted e =
     (case edge_data e of None \<Rightarrow> False | Some d \<Rightarrow> flag (highlighted d))"

definition currentAnimated :: "Edge \<Rightarrow> bool" where
  "currentAnimated e = flag (animated e)"

definition currentZIndex :: "Edge \<Rightarrow> int" where
  "currentZIndex e = (case zIndex e of None \<Rightarrow> 0 | Some z \<Rightarrow> z)"

definition shouldBeHighlighted :: "string list \<Rightarrow> string list \<Rightarrow> Edge \<Rightarrow> bool" where
  "shouldBeHighlighted selectedTableIds selectedRelationshipIds e =
     (edge_id e \<in> set selectedRelationshipIds
      \<or> source e \<in> set selectedTableIds
      \<or> target e \<in> set selectedTableIds)"

text \<open>\<^verbatim>\<open>{...edge.data!, highlighted}\<close>: spreading \<^verbatim>\<open>undefined\<close> contributes no property.\<close>

definition spread_data :: "EdgeData option \<Rightarrow> EdgeData" where
  "spread_data d = (case d of None \<Rightarrow> \<lparr> payload = None, highlighted = None \<rparr> | Some x \<Rightarrow> x)"

text \<open>The body of the \<^verbatim>\<open>map\<close> callback; the first component is whether the callback
  sets \<^verbatim>\<open>hasChanges\<close>.\<close>

definition highlightEdge :: "string list \<Rightarrow> string list \<Rightarrow> Edge \<Rightarrow> bool \<times> Edge" where
  "highlightEdge selectedTableIds selectedRelationshipIds e =
     (let should = shouldBeHighlighted selectedTableIds selectedRelationshipIds e
      in if currentHighlighted e = should \<and> currentAnimated e = should
            \<and> currentZIndex e = (if should then HIGHLIGHTED_EDGE_Z_INDEX else DEFAULT_EDGE_Z_INDEX)
         then (False, e)
         else if edge_type e = dependency_edge
         then (True, e\<lparr> edge_data := Some ((spread_data (edge_data e))\<lparr> highlighted := Some should \<rparr>),
                        animated := Some should,
                        zIndex := Some (if should then HIGHLIGHTED_EDGE_Z_INDEX
                                        else DEFAULT_EDGE_Z_INDEX) \<rparr>)
         else (True, e\<lparr> edge_data := Some ((spread_data (edge_data e))\<lparr> highlighted := Some should \<rparr>),
                        animated := Some should,
                        zIndex := Some (if should then HIGHLIGHTED_EDGE_Z_INDEX
                                        else DEFAULT_EDGE_Z_INDEX) \<rparr>))"

definition setEdges_highlight ::
  "string list \<Rightarrow> string list \<Rightarrow> Edge list \<Rightarrow> Edge list next_state" where
  "setEdges_highlight selectedTableIds selectedRelationshipIds prevEdges =
     (let results = map (highlightEdge selectedTableIds selectedRelationshipIds)
                        (filter (\<lambda>e. edge_type e \<noteq> temp_floating_edge) prevEdges);
          hasChanges = list_ex fst results;
          newEdges = map snd results
      in if hasChanges then NewValue newEdges else SameReference)"

section \<open>The diagram context and the calls the canvas makes\<close>

record 'e Diagram =
  databaseEdition :: "'e option"
  createdAt :: "nat option"

text \<open>The value of \<^verbatim>\<open>useChartDB()\<close>, as far as the canvas reads it. The creation date
  of a diagram is a \<^verbatim>\<open>Date\<close>: an instant in milliseconds, or the invalid date.\<close>

record ('d, 'c, 'e) ChartDB =
  tables :: "DBTable list"
  areas :: "Area list"
  diagram_notes :: "Note list"
  relationships :: "DBRelationship list"
  dependencies :: "DBDependency list"
  customTypes :: "'c list"
  getField :: "string \<Rightarrow> string \<Rightarrow> DBField option"
  databaseType :: 'd
  readonly :: bool
  diagramId :: string
  diagramName :: string
  currentDiagram :: "'e Diagram option"

record update_options =
  updateHistory :: "bool option"
  skipPersist :: "bool option"

text \<open>What an updater handed to \<^verbatim>\<open>updateTablesState\<close> returns for one table: the table
  itself, or an object that has the id and some of the other properties.\<close>

record TablePatch =
  patch_id :: string
  patch_x :: "number option"
  patch_y :: "number option"
  patch_width :: "number option"
  patch_parentAreaId :: "string option option"

datatype table_update = WholeTable DBTable | Patch TablePatch

fun update_id :: "table_update \<Rightarrow> string" where
  "update_id (WholeTable t) = table_id t"
| "update_id (Patch p) = patch_id p"

record Dimensions =
  dim_width :: number
  dim_height :: number

datatype NodeChange =
  NodePositionChange string "XYPosition option" "bool option"
| NodeDimensionChange string "Dimensions option" "bool option"
| NodeRemoveChange string
| NodeSelectionChange string bool
| NodeAddChange Node
| NodeReplaceChange string Node

datatype EdgeChange =
  EdgeRemoveChange string
| EdgeSelectionChange string bool
| EdgeAddChange Edge
| EdgeReplaceChange string Edge

fun is_node_remove :: "NodeChange \<Rightarrow> bool" where
  "is_node_remove (NodeRemoveChange _) = True"
| "is_node_remove _ = False"

fun is_edge_remove :: "EdgeChange \<Rightarrow> bool" where
  "is_edge_remove (EdgeRemoveChange _) = True"
| "is_edge_remove _ = False"

text \<open>The calls a handler makes into the diagram context, the toast service and React
  Flow, in the order it makes them. A toast has a title, a variant and a description.\<close>

datatype action =
  CreateDependency string string
| CreateRelationship string string string string
| Toast string string string
| RemoveRelationships "string option list"
| RemoveDependencies "string option list"
| RemoveArea string
| RemoveNote string
| UpdateTablesState "DBTable list \<Rightarrow> table_update list" update_options
| SetSaveTrigger
| UpdateOverlappingGraphOnChangesDebounced "NodeChange list" "NodeChange list"
| OnNodesChange "NodeChange list"
| OnEdgesChange "EdgeChange list"

section \<open>The connect gesture\<close>

record Connection =
  conn_source :: string
  conn_target :: string
  conn_sourceHandle :: "string option"
  conn_targetHandle :: "string option"

definition startsWith :: "string \<Rightarrow> string \<Rightarrow> bool" where
  "startsWith s p = (take (length p) s = p)"

fun split :: "char \<Rightarrow> string \<Rightarrow> string list" where
  "split c [] = [[]]"
| "split c (x # xs) =
     (if x = c then [] # split c xs
      else (case split c xs of [] \<Rightarrow> [[x]] | y # ys \<Rightarrow> (x # y) # ys))"

text \<open>\<^verbatim>\<open>handle?.split('_')?.pop() ?? ''\<close>\<close>

definition handleFieldId :: "string option \<Rightarrow> string" where
  "handleFieldId h = (case h of None \<Rightarrow> [] | Some s \<Rightarrow> last (split (CHR ''_'') s))"

definition onConnectHandler ::
  "('f, 'd) imported \<Rightarrow> ('d, 'c, 'e) ChartDB \<Rightarrow> Connection \<Rightarrow> action list" where
  "onConnectHandler im ctx params =
     (if (case conn_sourceHandle params of None \<Rightarrow> False
          | Some h \<Rightarrow> startsWith h (TOP_SOURCE_HANDLE_ID_PREFIX im)
                      \<or> startsWith h (BOTTOM_SOURCE_HANDLE_ID_PREFIX im))
      then [CreateDependency (conn_target params) (conn_source params)]
      else
        (let sourceTableId' = conn_source params;
             targetTableId' = conn_target params;
             sourceFieldId' = handleFieldId (conn_sourceHandle params);
             targetFieldId' = handleFieldId (conn_targetHandle params)
         in case (getField ctx sourceTableId' sourceFieldId',
                  getField ctx targetTableId' targetFieldId') of
              (Some sourceField, Some targetField) \<Rightarrow>
                (if \<not> areFieldTypesCompatible im (field_type sourceField) (field_type targetField)
                         (databaseType ctx)
                 then [Toast ''Field types are not compatible'' ''destructive''
                         ''Relationships can only be created between compatible field types'']
                 else [CreateRelationship sourceTableId' targetTableId'
                         sourceFieldId' targetFieldId'])
            | _ \<Rightarrow> []))"

section \<open>Change handlers\<close>

subsection \<open>onEdgesChangeHandler\<close>

definition edge_change_id :: "EdgeChange \<Rightarrow> string" where
  "edge_change_id c = (case c of EdgeRemoveChange i \<Rightarrow> i | EdgeSelectionChange i _ \<Rightarrow> i
                       | EdgeAddChange e \<Rightarrow> edge_id e | EdgeReplaceChange i _ \<Rightarrow> i)"

definition relationship_id_of :: "Edge \<Rightarrow> string option" where
  "relationship_id_of e =
     (case edge_data e of None \<Rightarrow> None
      | Some d \<Rightarrow> (case payload d of Some (RelationshipPayload r) \<Rightarrow> Some (rel_id r) | _ \<Rightarrow> None))"

definition dependency_id_of :: "Edge \<Rightarrow> string option" where
  "dependency_id_of e =
     (case edge_data e of None \<Rightarrow> None
      | Some d \<Rightarrow> (case payload d of Some (DependencyPayload x) \<Rightarrow> Some (dep_id x) | _ \<Rightarrow> None))"

definition onEdgesChangeHandler ::
  "('d, 'c, 'e) ChartDB \<Rightarrow> (string \<Rightarrow> Edge option) \<Rightarrow> EdgeChange list \<Rightarrow> action list" where
  "onEdgesChangeHandler ctx getEdge changes =
     (let changesToApply = (if readonly ctx then filter (\<lambda>c. \<not> is_edge_remove c) changes
                            else changes);
          removeChanges = filter is_edge_remove changesToApply;
          edgesToRemove = List.map_filter (\<lambda>c. getEdge (edge_change_id c)) removeChanges;
          relationshipsToRemove =
            map relationship_id_of (filter (\<lambda>e. edge_type e = relationship_edge) edgesToRemove);
          dependenciesToRemove =
            map dependency_id_of (filter (\<lambda>e. edge_type e = dependency_edge) edgesToRemove)
      in (if relationshipsToRemove \<noteq> [] then [RemoveRelationships relationshipsToRemove] else [])
         @ (if dependenciesToRemove \<noteq> [] then [RemoveDependencies dependenciesToRemove] else [])
         @ [OnEdgesChange changesToApply])"

subsection \<open>findRelevantNodesChanges\<close>

record RelevantChanges =
  positionChanges :: "NodeChange list"
  removeChanges :: "NodeChange list"
  sizeChanges :: "NodeChange list"

fun is_settled_position :: "NodeChange \<Rightarrow> bool" where
  "is_settled_position (NodePositionChange i p d) =
     (\<not> flag d \<and> (case p of None \<Rightarrow> False
                  | Some q \<Rightarrow> \<not> isNaN (pos_x q) \<and> \<not> isNaN (pos_y q)))"
| "is_settled_position _ = False"

fun is_resizing :: "NodeChange \<Rightarrow> bool" where
  "is_resizing (NodeDimensionChange i dm r) = flag r"
| "is_resizing _ = False"

fun node_change_id :: "NodeChange \<Rightarrow> string" where
  "node_change_id (NodePositionChange i _ _) = i"
| "node_change_id (NodeDimensionChange i _ _) = i"
| "node_change_id (NodeRemoveChange i) = i"
| "node_change_id (NodeSelectionChange i _) = i"
| "node_change_id (NodeAddChange n) = node_id n"
| "node_change_id (NodeReplaceChange i _) = i"

definition findRelevantNodesChanges ::
  "(string \<Rightarrow> Node option) \<Rightarrow> NodeChange list \<Rightarrow> node_type \<Rightarrow> RelevantChanges" where
  "findRelevantNodesChanges getNode changes ty =
     (let relevantChanges =
            filter (\<lambda>c. if is_settled_position c \<or> is_resizing c \<or> is_node_remove c
                        then (case getNode (node_change_id c) of
                                None \<Rightarrow> False
                              | Some n \<Rightarrow> if node_type n \<noteq> ty then False else True)
                        else False) changes
      in \<lparr> positionChanges = filter is_settled_position relevantChanges,
           removeChanges = filter is_node_remove relevantChanges,
           sizeChanges = filter is_resizing relevantChanges \<rparr>)"

subsection \<open>onNodesChangeHandler\<close>

definition measuredWidth :: "Node \<Rightarrow> number option" where
  "measuredWidth n =
     (case measured n of None \<Rightarrow> None
      | Some m \<Rightarrow> (case measured_width m of None \<Rightarrow> None
                   | Some w \<Rightarrow> if truthy_num w then Some w else None))"

definition measuredHeight :: "Node \<Rightarrow> number option" where
  "measuredHeight n =
     (case measured n of None \<Rightarrow> None
      | Some m \<Rightarrow> (case measured_height m of None \<Rightarrow> None
                   | Some h \<Rightarrow> if truthy_num h then Some h else None))"

text \<open>The visual position changes of the member tables of a dragged area.\<close>

definition areaDragAdditionalChanges ::
  "('d, 'c, 'e) ChartDB \<Rightarrow> NodeChange \<Rightarrow> NodeChange list" where
  "areaDragAdditionalChanges ctx areaChange =
     (case areaChange of
        NodePositionChange i (Some p) d \<Rightarrow>
          (case find (\<lambda>a. area_id a = i) (areas ctx) of
             None \<Rightarrow> []
           | Some currentArea \<Rightarrow>
               (let deltaX = num_sub (pos_x p) (area_x currentArea);
                    deltaY = num_sub (pos_y p) (area_y currentArea);
                    childTables = filter (\<lambda>t. parentAreaId t = Some i) (tables ctx)
                in map (\<lambda>t. NodePositionChange (table_id t)
                               (Some \<lparr> pos_x = num_add (table_x t) deltaX,
                                       pos_y = num_add (table_y t) deltaY \<rparr>)
                               (Some True)) childTables))
      | _ \<Rightarrow> [])"

text \<open>The entries set in the map of child-table movements, in the order they are set.\<close>

definition childTableMovements ::
  "('f, 'd) imported \<Rightarrow> ('d, 'c, 'e) ChartDB \<Rightarrow> NodeChange list \<Rightarrow> (string \<times> number \<times> number) list" where
  "childTableMovements im ctx areaPositionChanges =
     concat (map (\<lambda>c. case c of
                NodePositionChange i (Some p) d \<Rightarrow>
                  (case find (\<lambda>a. area_id a = i) (areas ctx) of
                     None \<Rightarrow> []
                   | Some currentArea \<Rightarrow>
                       map (\<lambda>t. (table_id t, num_sub (pos_x p) (area_x currentArea),
                                             num_sub (pos_y p) (area_y currentArea)))
                           (getTablesInArea im i (tables ctx)))
              | _ \<Rightarrow> []) areaPositionChanges)"

definition syncTablePositions :: "(string \<Rightarrow> Node option) \<Rightarrow> DBTable list \<Rightarrow> table_update list" where
  "syncTablePositions getNode currentTables =
     map (\<lambda>t. case getNode (table_id t) of
                 Some n \<Rightarrow> Patch \<lparr> patch_id = table_id t,
                                   patch_x = Some (pos_x (position n)),
                                   patch_y = Some (pos_y (position n)),
                                   patch_width = measuredWidth n,
                                   patch_parentAreaId = None \<rparr>
               | None \<Rightarrow> Patch \<lparr> patch_id = table_id t, patch_x = None, patch_y = None,
                                 patch_width = None, patch_parentAreaId = None \<rparr>)
         currentTables"

definition removeTables :: "NodeChange list \<Rightarrow> NodeChange list \<Rightarrow> DBTable list \<Rightarrow> table_update list" where
  "removeTables removeChanges' areaRemoveChanges currentTables =
     map WholeTable
       (filter (\<lambda>t. \<not> list_ex (\<lambda>c. node_change_id c = table_id t) removeChanges')
          (map (\<lambda>currentTable.
                  if list_ex (\<lambda>c. Some (node_change_id c) = parentAreaId currentTable) areaRemoveChanges
                  then currentTable\<lparr> parentAreaId := None \<rparr>
                  else currentTable) currentTables))"

definition onNodesChangeHandler ::
  "('f, 'd) imported \<Rightarrow> ('d, 'c, 'e) ChartDB \<Rightarrow> (string \<Rightarrow> Node option) \<Rightarrow> NodeChange list
   \<Rightarrow> action list" where
  "onNodesChangeHandler im ctx getNode changes =
     (let changesToApply0 = (if readonly ctx then filter (\<lambda>c. \<not> is_node_remove c) changes
                             else changes);
          areaDragChanges =
            filter (\<lambda>c. case c of
                      NodePositionChange i p d \<Rightarrow>
                        (case getNode i of None \<Rightarrow> False
                         | Some n \<Rightarrow> node_type n = area_node \<and> flag d)
                    | _ \<Rightarrow> False) changesToApply0;
          changesToApply =
            (if areaDragChanges \<noteq> []
             then changesToApply0 @ concat (map (areaDragAdditionalChanges ctx) areaDragChanges)
             else changesToApply0);
          areaChanges = findRelevantNodesChanges getNode changesToApply area_node;
          noteChanges = findRelevantNodesChanges getNode changesToApply note_node;
          tableChanges = findRelevantNodesChanges getNode changesToApply table_node;
          movements =
            (if positionChanges areaChanges \<noteq> [] \<and> sizeChanges areaChanges = []
             then childTableMovements im ctx (positionChanges areaChanges) else [])
      in (if positionChanges tableChanges \<noteq> [] \<or> sizeChanges tableChanges \<noteq> [] \<or> movements \<noteq> []
          then [UpdateTablesState (syncTablePositions getNode)
                  \<lparr> updateHistory = Some False, skipPersist = Some True \<rparr>,
                SetSaveTrigger]
          else [])
         @ (if positionChanges areaChanges \<noteq> [] \<or> sizeChanges areaChanges \<noteq> []
               \<or> positionChanges noteChanges \<noteq> [] \<or> sizeChanges noteChanges \<noteq> []
            then [SetSaveTrigger] else [])
         @ (if removeChanges tableChanges \<noteq> [] \<or> removeChanges areaChanges \<noteq> []
            then [UpdateTablesState
                    (removeTables (removeChanges tableChanges) (removeChanges areaChanges))
                    \<lparr> updateHistory = Some (removeChanges tableChanges \<noteq> []), skipPersist = None \<rparr>]
            else [])
         @ map (\<lambda>c. RemoveArea (node_change_id c)) (removeChanges areaChanges)
         @ map (\<lambda>c. RemoveNote (node_change_id c)) (removeChanges noteChanges)
         @ [UpdateOverlappingGraphOnChangesDebounced
              (positionChanges tableChanges) (sizeChanges tableChanges),
            OnNodesChange changesToApply])"

text \<open>The changes that the node handler hands on to React Flow, as a function of its own.\<close>

definition changesToApply_of ::
  "('d, 'c, 'e) ChartDB \<Rightarrow> (string \<Rightarrow> Node option) \<Rightarrow> NodeChange list \<Rightarrow> NodeChange list" where
  "changesToApply_of ctx getNode changes =
    (let changesToApply0 = (if readonly ctx then filter (\<lambda>c. \<not> is_node_remove c) changes
                             else changes);
          areaDragChanges =
            filter (\<lambda>c. case c of
                      NodePositionChange i p d \<Rightarrow>
                        (case getNode i of None \<Rightarrow> False
                         | Some n \<Rightarrow> node_type n = area_node \<and> flag d)
                    | _ \<Rightarrow> False) changesToApply0
     in (if areaDragChanges \<noteq> []
             then changesToApply0 @ concat (map (areaDragAdditionalChanges ctx) areaDragChanges)
             else changesToApply0))"

text \<open>An action that takes an entity out of the diagram.\<close>

fun is_removal :: "action \<Rightarrow> bool" where
  "is_removal (RemoveRelationships _) = True"
| "is_removal (RemoveDependencies _) = True"
| "is_removal (RemoveArea _) = True"
| "is_removal (RemoveNote _) = True"
| "is_removal _ = False"

section \<open>Parent-area reassignment\<close>

fun num_le :: "number \<Rightarrow> number \<Rightarrow> bool" where
  "num_le (Num a) (Num b) = (a \<le> b)"
| "num_le _ _ = False"

text \<open>
  Modelled from the spec: \<^verbatim>\<open>updateTablesParentAreas\<close> of \<^verbatim>\<open>lib/utils/area-utils\<close> is
  not among the sources. The spec says: ``A table's parentAreaId is the id of the Area
  whose bounds fully contain the table's bounds, or null if none does''. The bounds of
  a table are its position, its width (the minimal table width when it has none) and
  the height that \<^verbatim>\<open>calcTableHeight\<close> gives; of several containing areas the first
  in list order is taken.
\<close>

definition tableInsideArea :: "('f, 'd) imported \<Rightarrow> DBTable \<Rightarrow> Area \<Rightarrow> bool" where
  "tableInsideArea im t a =
     (let w = (case table_width t of None \<Rightarrow> MIN_TABLE_SIZE im | Some w \<Rightarrow> w);
          h = calcTableHeight im t
      in num_le (area_x a) (table_x t)
         \<and> num_le (area_y a) (table_y t)
         \<and> num_le (num_add (table_x t) w) (num_add (area_x a) (area_width a))
         \<and> num_le (num_add (table_y t) h) (num_add (area_y a) (area_height a)))"

definition resolveParentArea :: "('f, 'd) imported \<Rightarrow> Area list \<Rightarrow> DBTable \<Rightarrow> string option" where
  "resolveParentArea im as t = map_option area_id (find (tableInsideArea im t) as)"

definition updateTablesParentAreas ::
  "('f, 'd) imported \<Rightarrow> DBTable list \<Rightarrow> Area list \<Rightarrow> DBTable list" where
  "updateTablesParentAreas im ts as =
     map (\<lambda>t. t\<lparr> parentAreaId := resolveParentArea im as t \<rparr>) ts"

text \<open>The part of the source that is there: the body of the debounced function of the
  effect on the node list.\<close>

definition visibleTables :: "Node list \<Rightarrow> DBTable list" where
  "visibleTables nodes =
     List.map_filter (\<lambda>n. case node_data n of
                             TableData d \<Rightarrow> if \<not> flag (hidden n) then Some (data_table d) else None
                           | _ \<Rightarrow> None) nodes"

definition visibleAreas :: "Node list \<Rightarrow> Area list" where
  "visibleAreas nodes =
     List.map_filter (\<lambda>n. case node_data n of
                             AreaData a \<Rightarrow> if \<not> flag (hidden n) then Some a else None
                           | _ \<Rightarrow> None) nodes"

definition truthy_opt :: "string option \<Rightarrow> bool" where
  "truthy_opt x = (case x of None \<Rightarrow> False | Some s \<Rightarrow> truthy_str s)"

definition needsUpdate :: "DBTable list \<Rightarrow> DBTable list \<Rightarrow> (string \<times> string option) list" where
  "needsUpdate updatedTables oldTables =
     List.map_filter
       (\<lambda>(newTable, oldTable).
          if (truthy_opt (parentAreaId newTable) \<or> truthy_opt (parentAreaId oldTable))
             \<and> parentAreaId newTable \<noteq> parentAreaId oldTable
          then Some (table_id newTable,
                     if truthy_opt (parentAreaId newTable) then parentAreaId newTable else None)
          else None)
       (zip updatedTables oldTables)"

definition applyParentUpdates ::
  "(string \<times> string option) list \<Rightarrow> DBTable list \<Rightarrow> table_update list" where
  "applyParentUpdates ups currentTables =
     map (\<lambda>t. case find (\<lambda>u. fst u = table_id t) ups of
                 Some u \<Rightarrow> Patch \<lparr> patch_id = table_id t, patch_x = None, patch_y = None,
                                   patch_width = None, patch_parentAreaId = Some (snd u) \<rparr>
               | None \<Rightarrow> WholeTable t) currentTables"

definition checkParentAreas :: "('f, 'd) imported \<Rightarrow> Node list \<Rightarrow> action list" where
  "checkParentAreas im nodes =
     (let vts = visibleTables nodes;
          vas = visibleAreas nodes;
          updatedTables = updateTablesParentAreas im vts vas;
          ups = needsUpdate updatedTables vts
      in if ups \<noteq> []
         then [UpdateTablesState (applyParentUpdates ups)
                 \<lparr> updateHistory = Some False, skipPersist = None \<rparr>]
         else [])"

text \<open>What the updaters handed to \<^verbatim>\<open>updateTablesState\<close> return for the given tables.\<close>

definition table_updates :: "action list \<Rightarrow> DBTable list \<Rightarrow> table_update list list" where
  "table_updates acts currentTables =
     List.map_filter (\<lambda>a. case a of UpdateTablesState f opts \<Rightarrow> Some (f currentTables)
                              | _ \<Rightarrow> None) acts"

text \<open>The updates that the spec asks for: the visible tables whose resolved parent
  differs from the one they have, with the resolved parent.\<close>

definition changed_parents ::
  "('f, 'd) imported \<Rightarrow> Node list \<Rightarrow> (string \<times> string option) list" where
  "changed_parents im nodes =
     List.map_filter
       (\<lambda>t. if resolveParentArea im (visibleAreas nodes) t \<noteq> parentAreaId t
            then Some (table_id t, resolveParentArea im (visibleAreas nodes) t) else None)
       (visibleTables nodes)"

section \<open>The overlap query\<close>

definition hasOverlappingTables :: "Graph \<Rightarrow> bool" where
  "hasOverlappingTables g = list_ex (\<lambda>(k, v). length v > 0) (graph g)"

section \<open>Timers, animation frames and the tasks of the canvas\<close>

record ('d, 'c, 'e) DiagramContent =
  content_tables :: "DBTable list"
  content_relationships :: "DBRelationship list"
  content_dependencies :: "DBDependency list"
  content_areas :: "Area list"
  content_notes :: "Note list"
  content_customTypes :: "'c list"
  content_databaseType :: 'd
  content_databaseEdition :: "'e option"

text \<open>The argument of \<^verbatim>\<open>vertexApi.saveDiagram\<close>. The two dates are kept as instants;
  their rendering as ISO strings is one-to-one on valid dates.\<close>

record ('d, 'c, 'e) VertexDiagram =
  vd_id :: string
  vd_name :: string
  vd_content :: "('d, 'c, 'e) DiagramContent"
  created_at :: nat
  updated_at :: nat

text \<open>What a pending timer runs when it fires, with the values its closure holds.\<close>

datatype ('f, 'd, 'c, 'e) callback =
  SaveDiagram "('d, 'c, 'e) ChartDB"
| ClearHighlight
| CheckParentAreas "Node list"
| FitView
| RebuildOverlapGraph "DBTable list" "'f option" 'd bool
| UpdateOverlappingGraphOnChanges "NodeChange list" "NodeChange list" "Node list" Graph

fun is_save :: "('f, 'd, 'c, 'e) callback \<Rightarrow> bool" where
  "is_save (SaveDiagram _) = True"
| "is_save _ = False"

record ('f, 'd, 'c, 'e) Canvas =
  now :: nat
  next_handle :: nat
  timeouts :: "(nat \<times> nat \<times> ('f, 'd, 'c, 'e) callback) list"
  animation_frames :: "(nat \<times> XYPosition) list"
  saveDiagramTimeoutRef :: "nat option"
  saveEffectCleanup :: bool
  rafIdRef :: "nat option"
  overlapDebounceTimeout :: "nat option"
  highlightOverlapping :: bool
  overlapGraph :: Graph
  cursorPosition :: "XYPosition option"
  flow_nodes :: "Node list"
  saved :: "('d, 'c, 'e) VertexDiagram list"
  issued :: "action list"
  fitViews :: nat
  mounted :: bool

text \<open>\<^verbatim>\<open>getNode\<close> of React Flow reads the store at the time it is called.\<close>

definition getNode_of :: "Node list \<Rightarrow> string \<Rightarrow> Node option" where
  "getNode_of nodes i = find (\<lambda>n. node_id n = i) nodes"

definition setTimeout ::
  "('f, 'd, 'c, 'e) callback \<Rightarrow> nat \<Rightarrow> ('f, 'd, 'c, 'e) Canvas \<Rightarrow> nat \<times> ('f, 'd, 'c, 'e) Canvas" where
  "setTimeout cb delay s =
     (next_handle s,
      s\<lparr> timeouts := timeouts s @ [(next_handle s, now s + delay, cb)],
         next_handle := Suc (next_handle s) \<rparr>)"

definition clearTimeout :: "nat \<Rightarrow> ('f, 'd, 'c, 'e) Canvas \<Rightarrow> ('f, 'd, 'c, 'e) Canvas" where
  "clearTimeout h s = s\<lparr> timeouts := filter (\<lambda>t. fst t \<noteq> h) (timeouts s) \<rparr>"

definition requestAnimationFrame ::
  "XYPosition \<Rightarrow> ('f, 'd, 'c, 'e) Canvas \<Rightarrow> nat \<times> ('f, 'd, 'c, 'e) Canvas" where
  "requestAnimationFrame ev s =
     (next_handle s,
      s\<lparr> animation_frames := animation_frames s @ [(next_handle s, ev)],
         next_handle := Suc (next_handle s) \<rparr>)"

definition cancelAnimationFrame :: "nat \<Rightarrow> ('f, 'd, 'c, 'e) Canvas \<Rightarrow> ('f, 'd, 'c, 'e) Canvas" where
  "cancelAnimationFrame h s =
     s\<lparr> animation_frames := filter (\<lambda>t. fst t \<noteq> h) (animation_frames s) \<rparr>"

text \<open>A handle kept in a ref is tested for truthiness before it is cleared.\<close>

definition truthy_handle :: "nat option \<Rightarrow> bool" where
  "truthy_handle r = (case r of None \<Rightarrow> False | Some h \<Rightarrow> h \<noteq> 0)"

text \<open>
  Modelled from the spec: \<^verbatim>\<open>debounce\<close> of \<^verbatim>\<open>lib/utils\<close> is not among the sources. The
  spec says: ``delaying an action until a quiet period has elapsed since the last
  triggering event, coalescing bursts into one action''. A call of a debounced function
  clears the timer its previous call left, if any, and sets a new one; the first
  argument is that timer of the debounced function that is called.
\<close>

definition debounce ::
  "nat option \<Rightarrow> ('f, 'd, 'c, 'e) callback \<Rightarrow> nat \<Rightarrow> ('f, 'd, 'c, 'e) Canvas
   \<Rightarrow> nat \<times> ('f, 'd, 'c, 'e) Canvas" where
  "debounce own cb waitFor s =
     setTimeout cb waitFor (case own of None \<Rightarrow> s | Some h \<Rightarrow> clearTimeout h s)"

subsection \<open>The save effect\<close>

definition pullTable :: "(string \<Rightarrow> Node option) \<Rightarrow> DBTable \<Rightarrow> DBTable" where
  "pullTable getNode t =
     (case getNode (table_id t) of
        Some n \<Rightarrow> t\<lparr> table_x := pos_x (position n), table_y := pos_y (position n),
                     table_width := (case measuredWidth n of Some w \<Rightarrow> Some w
                                     | None \<Rightarrow> table_width t) \<rparr>
      | None \<Rightarrow> t)"

definition pullArea :: "(string \<Rightarrow> Node option) \<Rightarrow> Area \<Rightarrow> Area" where
  "pullArea getNode a =
     (case getNode (area_id a) of
        Some n \<Rightarrow>
          (case (measuredWidth n, measuredHeight n) of
             (Some w, Some h) \<Rightarrow> a\<lparr> area_x := pos_x (position n), area_y := pos_y (position n),
                                     area_width := w, area_height := h \<rparr>
           | _ \<Rightarrow> a\<lparr> area_x := pos_x (position n), area_y := pos_y (position n) \<rparr>)
      | None \<Rightarrow> a)"

definition pullNote :: "(string \<Rightarrow> Node option) \<Rightarrow> Note \<Rightarrow> Note" where
  "pullNote getNode x =
     (case getNode (note_id x) of
        Some n \<Rightarrow>
          (case (measuredWidth n, measuredHeight n) of
             (Some w, Some h) \<Rightarrow> x\<lparr> note_x := pos_x (position n), note_y := pos_y (position n),
                                     note_width := w, note_height := h \<rparr>
           | _ \<Rightarrow> x\<lparr> note_x := pos_x (position n), note_y := pos_y (position n) \<rparr>)
      | None \<Rightarrow> x)"

text \<open>The body of the \<^verbatim>\<open>try\<close> block of the timer callback up to the call of the API:
  \<^verbatim>\<open>None\<close> when it throws before the call (\<^verbatim>\<open>toISOString\<close> of an invalid date).\<close>

definition diagramToSave ::
  "('d, 'c, 'e) ChartDB \<Rightarrow> (string \<Rightarrow> Node option) \<Rightarrow> nat \<Rightarrow> ('d, 'c, 'e) VertexDiagram option" where
  "diagramToSave ctx getNode clock =
     (let updatedTables = map (pullTable getNode) (tables ctx);
          updatedAreas = map (pullArea getNode) (areas ctx);
          updatedNotes = map (pullNote getNode) (diagram_notes ctx)
      in case currentDiagram ctx of
           None \<Rightarrow> None
         | Some cd \<Rightarrow>
             (case createdAt cd of
                None \<Rightarrow> None
              | Some c \<Rightarrow>
                  Some \<lparr> vd_id = diagramId ctx,
                         vd_name = diagramName ctx,
                         vd_content =
                           \<lparr> content_tables = updatedTables,
                             content_relationships = relationships ctx,
                             content_dependencies = dependencies ctx,
                             content_areas = updatedAreas,
                             content_notes = updatedNotes,
                             content_customTypes = customTypes ctx,
                             content_databaseType = databaseType ctx,
                             content_databaseEdition = databaseEdition cd \<rparr>,
                         created_at = c,
                         updated_at = clock \<rparr>))"

definition saveEffect_cleanup :: "('f, 'd, 'c, 'e) Canvas \<Rightarrow> ('f, 'd, 'c, 'e) Canvas" where
  "saveEffect_cleanup s =
     (if truthy_handle (saveDiagramTimeoutRef s)
      then clearTimeout (the (saveDiagramTimeoutRef s)) s else s)"

definition saveEffect_body ::
  "('d, 'c, 'e) ChartDB \<Rightarrow> ('f, 'd, 'c, 'e) Canvas \<Rightarrow> ('f, 'd, 'c, 'e) Canvas" where
  "saveEffect_body ctx s =
     (if \<not> truthy_str (diagramId ctx) \<or> currentDiagram ctx = None
      then s\<lparr> saveEffectCleanup := False \<rparr>
      else (let s1 = (if truthy_handle (saveDiagramTimeoutRef s)
                      then clearTimeout (the (saveDiagramTimeoutRef s)) s else s);
                (h, s2) = setTimeout (SaveDiagram ctx) 500 s1
            in s2\<lparr> saveDiagramTimeoutRef := Some h, saveEffectCleanup := True \<rparr>))"

text \<open>A change of a dependency of the effect: React runs the cleanup that the previous
  run returned, if it returned one, and then the body.\<close>

definition saveEffect ::
  "('d, 'c, 'e) ChartDB \<Rightarrow> ('f, 'd, 'c, 'e) Canvas \<Rightarrow> ('f, 'd, 'c, 'e) Canvas" where
  "saveEffect ctx s =
     saveEffect_body ctx (if saveEffectCleanup s then saveEffect_cleanup s else s)"

subsection \<open>The other scheduled tasks\<close>

definition pulseOverlappingTables :: "('f, 'd, 'c, 'e) Canvas \<Rightarrow> ('f, 'd, 'c, 'e) Canvas" where
  "pulseOverlappingTables s =
     snd (setTimeout ClearHighlight 600 (s\<lparr> highlightOverlapping := True \<rparr>))"

definition checkParentAreasEffect ::
  "Node list \<Rightarrow> ('f, 'd, 'c, 'e) Canvas \<Rightarrow> ('f, 'd, 'c, 'e) Canvas" where
  "checkParentAreasEffect nodes s = snd (debounce None (CheckParentAreas nodes) 300 s)"

definition fitViewEffect :: "bool \<Rightarrow> ('f, 'd, 'c, 'e) Canvas \<Rightarrow> ('f, 'd, 'c, 'e) Canvas" where
  "fitViewEffect isInitialLoadingNodes s =
     (if \<not> isInitialLoadingNodes then snd (debounce None FitView 500 s) else s)"

text \<open>The effect on the filter and the show-views flag, in a run in which one of the two
  differs from the value kept in its ref.\<close>

definition filterEffect ::
  "DBTable list \<Rightarrow> 'f option \<Rightarrow> 'd \<Rightarrow> bool \<Rightarrow> ('f, 'd, 'c, 'e) Canvas \<Rightarrow> ('f, 'd, 'c, 'e) Canvas" where
  "filterEffect ts fl db showDBViews s =
     snd (debounce None (RebuildOverlapGraph ts fl db showDBViews) 500 s)"

text \<open>Every render makes a new debounced \<^verbatim>\<open>updateOverlappingGraphOnChanges\<close>; the node
  handler of that render calls it.\<close>

definition render :: "('f, 'd, 'c, 'e) Canvas \<Rightarrow> ('f, 'd, 'c, 'e) Canvas" where
  "render s = s\<lparr> overlapDebounceTimeout := None \<rparr>"

definition updateOverlappingGraphOnChangesDebounced ::
  "NodeChange list \<Rightarrow> NodeChange list \<Rightarrow> Node list \<Rightarrow> ('f, 'd, 'c, 'e) Canvas
   \<Rightarrow> ('f, 'd, 'c, 'e) Canvas" where
  "updateOverlappingGraphOnChangesDebounced pcs scs nodes s =
     (let (h, s1) = debounce (overlapDebounceTimeout s)
                      (UpdateOverlappingGraphOnChanges pcs scs nodes (overlapGraph s)) 200 s
      in s1\<lparr> overlapDebounceTimeout := Some h \<rparr>)"

definition updateOverlappingGraphOnChanges ::
  "('f, 'd) imported \<Rightarrow> (string \<Rightarrow> Node option) \<Rightarrow> Node list \<Rightarrow> Graph
   \<Rightarrow> NodeChange list \<Rightarrow> NodeChange list \<Rightarrow> Graph option" where
  "updateOverlappingGraphOnChanges im getNode nodes g pcs scs =
     (if pcs \<noteq> [] \<or> scs \<noteq> []
      then Some (fold (\<lambda>c newOverlappingGraph.
                   case getNode (node_change_id c) of
                     None \<Rightarrow> newOverlappingGraph
                   | Some n \<Rightarrow>
                       if node_type n \<noteq> table_node then newOverlappingGraph
                       else findTableOverlapping im n
                              (filter (\<lambda>m. \<not> flag (hidden m) \<and> node_type m = table_node) nodes)
                              newOverlappingGraph)
                 (pcs @ scs) g)
      else None)"

definition handleMouseMove ::
  "bool \<Rightarrow> XYPosition \<Rightarrow> ('f, 'd, 'c, 'e) Canvas \<Rightarrow> ('f, 'd, 'c, 'e) Canvas" where
  "handleMouseMove tempFloatingEdge ev s =
     (if tempFloatingEdge
      then (if truthy_handle (rafIdRef s) then s
            else (let (h, s1) = requestAnimationFrame ev s in s1\<lparr> rafIdRef := Some h \<rparr>))
      else s)"

definition rafCleanup :: "('f, 'd, 'c, 'e) Canvas \<Rightarrow> ('f, 'd, 'c, 'e) Canvas" where
  "rafCleanup s =
     (if truthy_handle (rafIdRef s) then cancelAnimationFrame (the (rafIdRef s)) s else s)"

text \<open>Unmount: React runs the cleanups that the effects returned. Only the save effect
  and the effect for the animation frame return one that touches a scheduled task.\<close>

definition unmount :: "('f, 'd, 'c, 'e) Canvas \<Rightarrow> ('f, 'd, 'c, 'e) Canvas" where
  "unmount s =
     (rafCleanup (if saveEffectCleanup s then saveEffect_cleanup s else s))\<lparr> mounted := False \<rparr>"

subsection \<open>Firing\<close>

definition run_callback ::
  "('f, 'd) imported \<Rightarrow> ('f, 'd, 'c, 'e) callback \<Rightarrow> ('f, 'd, 'c, 'e) Canvas \<Rightarrow> ('f, 'd, 'c, 'e) Canvas" where
  "run_callback im cb s =
     (case cb of
        SaveDiagram ctx \<Rightarrow>
          (case diagramToSave ctx (getNode_of (flow_nodes s)) (now s) of
             None \<Rightarrow> s
           | Some d \<Rightarrow> s\<lparr> saved := saved s @ [d] \<rparr>)
      | ClearHighlight \<Rightarrow> s\<lparr> highlightOverlapping := False \<rparr>
      | CheckParentAreas nodes \<Rightarrow> s\<lparr> issued := issued s @ checkParentAreas im nodes \<rparr>
      | FitView \<Rightarrow> s\<lparr> fitViews := Suc (fitViews s) \<rparr>
      | RebuildOverlapGraph ts fl db showDBViews \<Rightarrow>
          s\<lparr> overlapGraph :=
               findOverlappingTables im
                 (filter (\<lambda>t. filterTable im (table_id t) (table_schema t) fl (defaultSchemas im db)
                               \<and> (if showDBViews then True else \<not> isView t)) ts),
             fitViews := Suc (fitViews s) \<rparr>
      | UpdateOverlappingGraphOnChanges pcs scs nodes g \<Rightarrow>
          (case updateOverlappingGraphOnChanges im (getNode_of (flow_nodes s)) nodes g pcs scs of
             None \<Rightarrow> s
           | Some g' \<Rightarrow> s\<lparr> overlapGraph := g' \<rparr>))"

text \<open>Time passes: the timers that are due fire, the earliest first.\<close>

definition elapse ::
  "('f, 'd) imported \<Rightarrow> nat \<Rightarrow> ('f, 'd, 'c, 'e) Canvas \<Rightarrow> ('f, 'd, 'c, 'e) Canvas" where
  "elapse im dt s =
     (let t = now s + dt;
          due = filter (\<lambda>x. fst (snd x) \<le> t) (timeouts s);
          rest = filter (\<lambda>x. \<not> fst (snd x) \<le> t) (timeouts s)
      in fold (\<lambda>x. run_callback im (snd (snd x))) (sort_key (\<lambda>x. fst (snd x)) due)
              (s\<lparr> now := t, timeouts := rest \<rparr>))"

text \<open>The browser paints: the pending animation-frame callbacks run.\<close>

definition animationFrame ::
  "('f, 'd) imported \<Rightarrow> ('f, 'd, 'c, 'e) Canvas \<Rightarrow> ('f, 'd, 'c, 'e) Canvas" where
  "animationFrame im s =
     fold (\<lambda>x s'. s'\<lparr> cursorPosition := Some (screenToFlowPosition im (snd x)), rafIdRef := None \<rparr>)
          (animation_frames s) (s\<lparr> animation_frames := [] \<rparr>)"

datatype ('f, 'd, 'c, 'e) event =
  SaveEffect "('d, 'c, 'e) ChartDB"
| NodesEffect "Node list"
| LoadedEffect bool
| FilterEffect "DBTable list" "'f option" 'd bool
| Render
| NodesChange "NodeChange list" "NodeChange list" "Node list"
| MouseMove bool XYPosition
| Pulse
| StoreUpdate "Node list"
| Elapse nat
| AnimationFrame
| Unmount

text \<open>The component reacts to an event while it is mounted; timers and animation frames
  fire whether it is or not.\<close>

definition step ::
  "('f, 'd) imported \<Rightarrow> ('f, 'd, 'c, 'e) event \<Rightarrow> ('f, 'd, 'c, 'e) Canvas \<Rightarrow> ('f, 'd, 'c, 'e) Canvas" where
  "step im ev s =
     (case ev of
        Elapse dt \<Rightarrow> elapse im dt s
      | AnimationFrame \<Rightarrow> animationFrame im s
      | _ \<Rightarrow>
        if \<not> mounted s then s
        else (case ev of
                SaveEffect ctx \<Rightarrow> saveEffect ctx s
              | NodesEffect nodes \<Rightarrow> checkParentAreasEffect nodes s
              | LoadedEffect b \<Rightarrow> fitViewEffect b s
              | FilterEffect ts fl db sv \<Rightarrow> filterEffect ts fl db sv s
              | Render \<Rightarrow> render s
              | NodesChange pcs scs nodes \<Rightarrow> updateOverlappingGraphOnChangesDebounced pcs scs nodes s
              | MouseMove b ev' \<Rightarrow> handleMouseMove b ev' s
              | Pulse \<Rightarrow> pulseOverlappingTables s
              | StoreUpdate nodes \<Rightarrow> s\<lparr> flow_nodes := nodes \<rparr>
              | Unmount \<Rightarrow> unmount s
              | _ \<Rightarrow> s))"

definition run ::
  "('f, 'd) imported \<Rightarrow> ('f, 'd, 'c, 'e) event list \<Rightarrow> ('f, 'd, 'c, 'e) Canvas \<Rightarrow> ('f, 'd, 'c, 'e) Canvas" where
  "run im evs s = fold (step im) evs s"

text \<open>The canvas as it is mounted: nothing is scheduled.\<close>

definition initial :: "Graph \<Rightarrow> Node list \<Rightarrow> ('f, 'd, 'c, 'e) Canvas" where
  "initial g nodes =
     \<lparr> now = 0, next_handle = 1, timeouts = [], animation_frames = [],
       saveDiagramTimeoutRef = None, saveEffectCleanup = False, rafIdRef = None,
       overlapDebounceTimeout = None, highlightOverlapping = False, overlapGraph = g,
       cursorPosition = None, flow_nodes = nodes, saved = [], issued = [], fitViews = 0,
       mounted = True \<rparr>"

text \<open>The pending timers that would write the diagram, and the invariant that ties them
  to the ref of the save effect: handles are fresh, a pending write is the timer the ref
  holds and is not yet due, a pending animation frame is the one its ref holds, and the
  timer the ref of the save effect holds is a write.\<close>

definition pending_saves ::
  "('f, 'd, 'c, 'e) Canvas \<Rightarrow> (nat \<times> nat \<times> ('f, 'd, 'c, 'e) callback) list" where
  "pending_saves s = filter (\<lambda>x. is_save (snd (snd x))) (timeouts s)"

fun below :: "nat option \<Rightarrow> nat \<Rightarrow> bool" where
  "below None n = True"
| "below (Some h) n = (h < n)"

definition single_save :: "('f, 'd, 'c, 'e) Canvas \<Rightarrow> bool" where
  "single_save s =
     (0 < next_handle s
      \<and> list_all (\<lambda>x. fst x < next_handle s) (timeouts s)
      \<and> below (saveDiagramTimeoutRef s) (next_handle s)
      \<and> below (overlapDebounceTimeout s) (next_handle s)
      \<and> list_all (\<lambda>x. saveDiagramTimeoutRef s = Some (fst x) \<and> fst x \<noteq> 0 \<and> saveEffectCleanup s
                       \<and> now s < fst (snd x) \<and> overlapDebounceTimeout s \<noteq> Some (fst x)
                       \<and> mounted s)
                 (pending_saves s)
      \<and> list_all (\<lambda>x. rafIdRef s = Some (fst x) \<and> fst x \<noteq> 0 \<and> mounted s) (animation_frames s)
      \<and> list_all (\<lambda>x. saveDiagramTimeoutRef s = Some (fst x) \<longrightarrow> is_save (snd (snd x)))
                 (timeouts s))"

text \<open>What a timer writes when it fires with the given store and clock.\<close>

definition writes_of ::
  "Node list \<Rightarrow> nat \<Rightarrow> (nat \<times> nat \<times> ('f, 'd, 'c, 'e) callback) \<Rightarrow> ('d, 'c, 'e) VertexDiagram list" where
  "writes_of nodes clock x =
     (case snd (snd x) of
        SaveDiagram ctx \<Rightarrow>
          (case diagramToSave ctx (getNode_of nodes) clock of None \<Rightarrow> [] | Some d \<Rightarrow> [d])
      | _ \<Rightarrow> [])"

text \<open>The state in which the body of the save effect runs.\<close>

definition cleaned :: "('f, 'd, 'c, 'e) Canvas \<Rightarrow> ('f, 'd, 'c, 'e) Canvas" where
  "cleaned s = (if saveEffectCleanup s then saveEffect_cleanup s else s)"

text \<open>A window of mutations: each mutation is a run of the save effect with the values
  of that render, followed by events that neither run the save effect again nor
  unmount the canvas.\<close>

fun quiet_event :: "('f, 'd, 'c, 'e) event \<Rightarrow> bool" where
  "quiet_event (SaveEffect _) = False"
| "quiet_event Unmount = False"
| "quiet_event _ = True"

fun elapsed :: "('f, 'd, 'c, 'e) event list \<Rightarrow> nat" where
  "elapsed [] = 0"
| "elapsed (Elapse dt # evs) = dt + elapsed evs"
| "elapsed (_ # evs) = elapsed evs"

fun window ::
  "('f, 'd) imported \<Rightarrow> (('d, 'c, 'e) ChartDB \<times> ('f, 'd, 'c, 'e) event list) list
   \<Rightarrow> ('f, 'd, 'c, 'e) Canvas \<Rightarrow> ('f, 'd, 'c, 'e) Canvas" where
  "window im [] s = s"
| "window im (m # ms) s = window im ms (run im (snd m) (saveEffect (fst m) s))"

text \<open>The guard of the save effect, and a diagram whose creation date is a valid date.\<close>

definition loaded :: "('d, 'c, 'e) ChartDB \<Rightarrow> bool" where
  "loaded ctx = (truthy_str (diagramId ctx) \<and> currentDiagram ctx \<noteq> None)"

definition dated :: "('d, 'c, 'e) ChartDB \<Rightarrow> bool" where
  "dated ctx = (case currentDiagram ctx of None \<Rightarrow> False | Some cd \<Rightarrow> createdAt cd \<noteq> None)"

section \<open>Migration of the local database to the API\<close>

definition MIGRATION_FLAG :: string where
  "MIGRATION_FLAG = ''migrated_to_api_v1''"

record MigrationResult =
  success :: bool
  message :: string
  diagramsCount :: nat
  errors :: "string list"

text \<open>The rows of the local database. The type of a field is a string, an object, or
  missing. \<^typ>\<open>'x\<close> is the type of the rows that are uploaded as they are read.\<close>

datatype legacy_type = TypeString string | TypeObject DataType | TypeMissing

record LegacyField =
  lf_id :: string
  lf_type :: legacy_type

record LegacyTable =
  lt_id :: string
  lt_fields :: "LegacyField list option"

record LegacyRelationship =
  lr_id :: string
  lr_sourceCardinality :: "string option"
  lr_targetCardinality :: "string option"

record LegacyDiagram =
  ld_id :: "string option"
  ld_name :: string

record ApiField =
  af_id :: string
  af_type :: DataType

record ApiTable =
  at_id :: string
  at_fields :: "ApiField list"

record ApiRelationship =
  ar_id :: string
  ar_sourceCardinality :: string
  ar_targetCardinality :: string

record 'x ApiContent =
  ac_diagram :: LegacyDiagram
  ac_tables :: "ApiTable list"
  ac_relationships :: "ApiRelationship list"
  ac_dependencies :: "'x list"
  ac_areas :: "'x list"
  ac_customTypes :: "'x list"
  ac_notes :: "'x list"
  ac_diagramFilter :: "'x option"

record 'x ApiDiagram =
  api_id :: "string option"
  api_name :: string
  api_content :: "'x ApiContent"

datatype 'x api_call = SaveDiagramCall "'x ApiDiagram" | UpdateConfigCall "string option"

text \<open>
  Everything outside the function: the local storage, the local database and the API.
  A read or a call either gives its value or throws; \<^verbatim>\<open>Inl\<close> and \<^verbatim>\<open>Some\<close> of an
  outcome carry the message of what is thrown.
\<close>

record 'x World =
  localStorage :: "string \<rightharpoonup> string"
  getItem_error :: "string option"
  setItem_error :: "string option"
  open_error :: "string option"
  diagrams_toArray :: "string + LegacyDiagram list"
  tables_of :: "LegacyDiagram \<Rightarrow> string + LegacyTable list"
  relationships_of :: "LegacyDiagram \<Rightarrow> string + LegacyRelationship list"
  dependencies_of :: "LegacyDiagram \<Rightarrow> string + 'x list"
  areas_of :: "LegacyDiagram \<Rightarrow> string + 'x list"
  customTypes_of :: "LegacyDiagram \<Rightarrow> string + 'x list"
  notes_of :: "LegacyDiagram \<Rightarrow> string + 'x list"
  diagramFilters_of :: "LegacyDiagram \<Rightarrow> string + 'x list"
  config_toArray :: "string + string option list"
  saveDiagram_outcome :: "'x ApiDiagram \<Rightarrow> string option"
  updateConfig_outcome :: "string option \<Rightarrow> string option"

definition normalizeField :: "LegacyField \<Rightarrow> ApiField" where
  "normalizeField f =
     \<lparr> af_id = lf_id f,
       af_type = (case lf_type f of
                    TypeString t \<Rightarrow> \<lparr> type_id = t, type_name = t \<rparr>
                  | TypeObject o' \<Rightarrow> o'
                  | TypeMissing \<Rightarrow> \<lparr> type_id = ''string'', type_name = ''string'' \<rparr>) \<rparr>"

definition normalizeTable :: "LegacyTable \<Rightarrow> ApiTable" where
  "normalizeTable t =
     \<lparr> at_id = lt_id t,
       at_fields = map normalizeField (case lt_fields t of None \<Rightarrow> [] | Some fs \<Rightarrow> fs) \<rparr>"

text \<open>\<^verbatim>\<open>rel.sourceCardinality || 'many'\<close>\<close>

definition or_default :: "string option \<Rightarrow> string \<Rightarrow> string" where
  "or_default x d = (case x of None \<Rightarrow> d | Some v \<Rightarrow> if truthy_str v then v else d)"

definition normalizeRelationship :: "LegacyRelationship \<Rightarrow> ApiRelationship" where
  "normalizeRelationship r =
     \<lparr> ar_id = lr_id r,
       ar_sourceCardinality = or_default (lr_sourceCardinality r) ''many'',
       ar_targetCardinality = or_default (lr_targetCardinality r) ''one'' \<rparr>"

text \<open>The \<^verbatim>\<open>try\<close> block for one diagram: the error message if it throws, and the calls
  of the API it makes.\<close>

definition migrateDiagram :: "'x World \<Rightarrow> LegacyDiagram \<Rightarrow> string option \<times> 'x api_call list" where
  "migrateDiagram w d =
     (case tables_of w d of Inl e \<Rightarrow> (Some e, []) | Inr rawTables \<Rightarrow>
     (case relationships_of w d of Inl e \<Rightarrow> (Some e, []) | Inr rawRelationships \<Rightarrow>
     (case dependencies_of w d of Inl e \<Rightarrow> (Some e, []) | Inr deps \<Rightarrow>
     (case areas_of w d of Inl e \<Rightarrow> (Some e, []) | Inr as \<Rightarrow>
     (case customTypes_of w d of Inl e \<Rightarrow> (Some e, []) | Inr cts \<Rightarrow>
     (case notes_of w d of Inl e \<Rightarrow> (Some e, []) | Inr ns \<Rightarrow>
     (case diagramFilters_of w d of Inl e \<Rightarrow> (Some e, []) | Inr diagramFilters \<Rightarrow>
        (let apiDiagram =
               \<lparr> api_id = ld_id d,
                 api_name = ld_name d,
                 api_content =
                   \<lparr> ac_diagram = d,
                     ac_tables = map normalizeTable rawTables,
                     ac_relationships = map normalizeRelationship rawRelationships,
                     ac_dependencies = deps,
                     ac_areas = as,
                     ac_customTypes = cts,
                     ac_notes = ns,
                     ac_diagramFilter = (case diagramFilters of [] \<Rightarrow> None | f # _ \<Rightarrow> Some f) \<rparr> \<rparr>
         in (saveDiagram_outcome w apiDiagram, [SaveDiagramCall apiDiagram])))))))))"

text \<open>The loop over the diagrams: the recorded errors and the calls made, in order.\<close>

fun migrateDiagrams ::
  "'x World \<Rightarrow> LegacyDiagram list \<Rightarrow> string list \<times> 'x api_call list" where
  "migrateDiagrams w [] = ([], [])"
| "migrateDiagrams w (d # ds) =
     (let (err, calls) = migrateDiagram w d;
          (errs, calls') = migrateDiagrams w ds
      in ((case err of
             None \<Rightarrow> []
           | Some errorMsg \<Rightarrow>
               [''Failed to migrate diagram \"'' @ ld_name d @ ''\": '' @ errorMsg]) @ errs,
          calls @ calls'))"

definition migrateConfig :: "'x World \<Rightarrow> string list \<times> 'x api_call list" where
  "migrateConfig w =
     (case config_toArray w of
        Inl e \<Rightarrow> ([''Failed to migrate config: '' @ e], [])
      | Inr [] \<Rightarrow> ([], [])
      | Inr (config # _) \<Rightarrow>
          ((case updateConfig_outcome w config of
              None \<Rightarrow> []
            | Some e \<Rightarrow> [''Failed to migrate config: '' @ e]),
           [UpdateConfigCall config]))"

definition fatal :: "string \<Rightarrow> MigrationResult" where
  "fatal errorMsg =
     \<lparr> success = False, message = ''Migration failed: '' @ errorMsg,
       diagramsCount = 0, errors = [errorMsg] \<rparr>"

text \<open>The result, the local storage after the run, and the calls of the API in order.\<close>

definition migrateIndexedDBToAPI ::
  "'x World \<Rightarrow> MigrationResult \<times> (string \<rightharpoonup> string) \<times> 'x api_call list" where
  "migrateIndexedDBToAPI w =
     (case getItem_error w of
        Some e \<Rightarrow> (fatal e, localStorage w, [])
      | None \<Rightarrow>
        if localStorage w MIGRATION_FLAG = Some ''true''
        then (\<lparr> success = True, message = ''Already migrated'', diagramsCount = 0, errors = [] \<rparr>,
              localStorage w, [])
        else (case open_error w of
           Some e \<Rightarrow> (fatal e, localStorage w, [])
         | None \<Rightarrow>
           (case diagrams_toArray w of
              Inl e \<Rightarrow> (fatal e, localStorage w, [])
            | Inr diagrams \<Rightarrow>
              if diagrams = []
              then (case setItem_error w of
                      Some e \<Rightarrow> (fatal e, localStorage w, [])
                    | None \<Rightarrow>
                        (\<lparr> success = True, message = ''No diagrams to migrate'',
                           diagramsCount = 0, errors = [] \<rparr>,
                         (localStorage w)(MIGRATION_FLAG \<mapsto> ''true''), []))
              else
                (let (errs1, calls1) = migrateDiagrams w diagrams;
                     (errs2, calls2) = migrateConfig w;
                     errors' = errs1 @ errs2;
                     calls = calls1 @ calls2
                 in case setItem_error w of
                      Some e \<Rightarrow> (fatal e, localStorage w, calls)
                    | None \<Rightarrow>
                        (\<lparr> success = (errors' = []),
                           message =
                             (if errors' = []
                              then ''Successfully migrated '' @ show_nat (length diagrams)
                                   @ '' diagrams''
                              else ''Migrated '' @ show_nat (length diagrams) @ '' diagrams with ''
                                   @ show_nat (length errors') @ '' errors''),
                           diagramsCount = length diagrams,
                           errors = errors' \<rparr>,
                         (localStorage w)(MIGRATION_FLAG \<mapsto> ''true''), calls)))))"

definition isMigrationComplete :: "'x World \<Rightarrow> bool" where
  "isMigrationComplete w = (localStorage w MIGRATION_FLAG = Some ''true'')"

section \<open>Concrete inputs\<close>

definition example_imported :: "(unit, unit) imported" where
  "example_imported =
     \<lparr> filterTable = (\<lambda>i sch fl dflt. True),
       defaultSchemas = (\<lambda>d. Some ''public''),
       MIN_TABLE_SIZE = Num 224,
       areFieldTypesCompatible = (\<lambda>a b d. type_id a = type_id b),
       LEFT_HANDLE_ID_PREFIX = ''left_rel_'',
       TARGET_ID_PREFIX = ''target_rel_'',
       TOP_SOURCE_HANDLE_ID_PREFIX = ''top_dep_'',
       BOTTOM_SOURCE_HANDLE_ID_PREFIX = ''bottom_dep_'',
       TARGET_DEP_PREFIX = ''target_dep_'',
       getTablesInArea = (\<lambda>i ts. filter (\<lambda>t. parentAreaId t = Some i) ts),
       calcTableHeight = (\<lambda>t. Num 100),
       findTableOverlapping = (\<lambda>n ns g. g),
       findOverlappingTables = (\<lambda>ts. \<lparr> graph = [], lastUpdated = 0 \<rparr>),
       screenToFlowPosition = (\<lambda>p. p) \<rparr>"

definition example_field :: "string \<Rightarrow> string \<Rightarrow> DBField" where
  "example_field i ty = \<lparr> field_id = i, field_type = \<lparr> type_id = ty, type_name = ty \<rparr> \<rparr>"

definition example_view :: DBTable where
  "example_view =
     \<lparr> table_id = ''t1'', table_schema = Some ''public'', table_x = Num 10, table_y = Num 20,
       table_width = None, table_fields = [example_field ''f1'' ''int''], isView = True,
       parentAreaId = None \<rparr>"

definition example_forced :: "(unit, unit) tableNodeOptions" where
  "example_forced =
     \<lparr> opt_filter = None, opt_databaseType = (), opt_filterLoading = True,
       opt_showDBViews = Some False, opt_forceShow = Some True,
       opt_isRelationshipCreatingTarget = None \<rparr>"

definition example_relationship :: DBRelationship where
  "example_relationship =
     \<lparr> rel_id = ''r1'', sourceTableId = ''t1'', sourceFieldId = ''f1'',
       targetTableId = ''t2'', targetFieldId = ''f2'' \<rparr>"

definition example_prevEdge :: Edge where
  "example_prevEdge =
     \<lparr> edge_id = ''r1'', source = ''t1'', target = ''t2'',
       sourceHandle = Some ''left_rel_f1'', targetHandle = Some ''target_rel_0_f2'',
       edge_type = relationship_edge,
       edge_data = Some \<lparr> payload = Some (RelationshipPayload example_relationship),
                          highlighted = None \<rparr>,
       edge_hidden = None, selected = Some True, animated = None, zIndex = None \<rparr>"

definition example_chartdb :: "(unit, unit, unit) ChartDB" where
  "example_chartdb =
     \<lparr> tables = [example_view],
       areas = [],
       diagram_notes = [],
       relationships = [example_relationship],
       dependencies = [],
       customTypes = [],
       getField = (\<lambda>t f. if t = ''t1'' \<and> f = ''f1'' then Some (example_field ''f1'' ''int'')
                          else if t = ''t2'' \<and> f = ''f2'' then Some (example_field ''f2'' ''int'')
                          else if t = ''t2'' \<and> f = ''f3'' then Some (example_field ''f3'' ''text'')
                          else None),
       databaseType = (),
       readonly = True,
       diagramId = ''diagram1'',
       diagramName = ''Shop'',
       currentDiagram = Some \<lparr> databaseEdition = None, createdAt = Some 1000 \<rparr> \<rparr>"

definition example_connection :: "string \<Rightarrow> string \<Rightarrow> Connection" where
  "example_connection sh th =
     \<lparr> conn_source = ''t1'', conn_target = ''t2'',
       conn_sourceHandle = Some sh, conn_targetHandle = Some th \<rparr>"

definition example_getEdge :: "string \<Rightarrow> Edge option" where
  "example_getEdge i = (if i = ''r1'' then Some example_prevEdge else None)"

definition example_area :: Area where
  "example_area =
     \<lparr> area_id = ''a1'', area_x = Num 0, area_y = Num 0,
       area_width = Num 500, area_height = Num 400 \<rparr>"

definition example_tableNode :: Node where
  "example_tableNode =
     \<lparr> node_id = ''t1'', position = \<lparr> pos_x = Num 30, pos_y = Num 40 \<rparr>,
       node_data = TableData \<lparr> data_table = example_view, isOverlapping = False,
                               isRelationshipCreatingTarget = False,
                               highlightOverlappingTables = None,
                               hasHighlightedCustomType = None \<rparr>,
       node_width = Some (Num 224), node_height = None, node_zIndex = None,
       hidden = Some False, node_selected = None,
       measured = Some \<lparr> measured_width = Some (Num 300), measured_height = Some (Num 100) \<rparr> \<rparr>"

text \<open>The same table as a member of the area \<^verbatim>\<open>a1\<close>.\<close>

definition example_member :: DBTable where
  "example_member = example_view\<lparr> parentAreaId := Some ''a1'' \<rparr>"

definition example_memberNode :: Node where
  "example_memberNode =
     example_tableNode\<lparr> node_data :=
       TableData \<lparr> data_table = example_member, isOverlapping = False,
                   isRelationshipCreatingTarget = False,
                   highlightOverlappingTables = None,
                   hasHighlightedCustomType = None \<rparr> \<rparr>"

definition example_areaNode :: Node where
  "example_areaNode =
     \<lparr> node_id = ''a1'', position = \<lparr> pos_x = Num 0, pos_y = Num 0 \<rparr>,
       node_data = AreaData example_area,
       node_width = Some (Num 500), node_height = Some (Num 400), node_zIndex = Some (- 10),
       hidden = Some False, node_selected = None, measured = None \<rparr>"

definition example_getNode :: "string \<Rightarrow> Node option" where
  "example_getNode = getNode_of [example_tableNode, example_areaNode]"

definition example_dependency :: DBDependency where
  "example_dependency = \<lparr> dep_id = ''d1'', dep_tableId = ''t2'', dependentTableId = ''t1'' \<rparr>"

definition example_otherEdge :: Edge where
  "example_otherEdge =
     \<lparr> edge_id = ''r2'', source = ''t3'', target = ''t4'',
       sourceHandle = Some ''left_rel_f5'', targetHandle = Some ''target_rel_0_f6'',
       edge_type = relationship_edge,
       edge_data = Some \<lparr> payload = None, highlighted = Some True \<rparr>,
       edge_hidden = None, selected = None, animated = Some True, zIndex = Some 1 \<rparr>"

definition example_depEdge :: Edge where
  "example_depEdge =
     \<lparr> edge_id = ''d1'', source = ''t1'', target = ''t2'',
       sourceHandle = Some ''top_dep_t1'', targetHandle = Some ''target_dep_0_t2'',
       edge_type = dependency_edge,
       edge_data = Some \<lparr> payload = Some (DependencyPayload example_dependency),
                          highlighted = None \<rparr>,
       edge_hidden = Some False, selected = None, animated = None, zIndex = None \<rparr>"

text \<open>The edge that follows the cursor while a relationship is drawn from the table
  \<^verbatim>\<open>t1\<close>; its id and handles stand for the constants of the floating-edge module.\<close>

definition example_tempEdge :: Edge where
  "example_tempEdge =
     \<lparr> edge_id = ''temp_floating_edge'', source = ''t1'', target = ''temp_cursor_node'',
       sourceHandle = Some ''source_rel_t1'', targetHandle = Some ''temp_cursor_handle'',
       edge_type = temp_floating_edge,
       edge_data = None,
       edge_hidden = None, selected = None, animated = None, zIndex = None \<rparr>"

definition example_nodeChanges :: "NodeChange list" where
  "example_nodeChanges =
     [NodeRemoveChange ''t1'',
      NodePositionChange ''t1'' (Some \<lparr> pos_x = Num 30, pos_y = Num 40 \<rparr>) (Some False),
      NodeRemoveChange ''a1'']"

definition example_edgeChanges :: "EdgeChange list" where
  "example_edgeChanges = [EdgeRemoveChange ''r1'', EdgeSelectionChange ''r1'' True]"

definition example_legacy :: LegacyDiagram where
  "example_legacy = \<lparr> ld_id = Some ''diagram1'', ld_name = ''Shop'' \<rparr>"

definition example_world :: "unit World" where
  "example_world =
     \<lparr> localStorage = Map.empty,
       getItem_error = None,
       setItem_error = None,
       open_error = None,
       diagrams_toArray = Inr [example_legacy],
       tables_of = (\<lambda>d. Inr [\<lparr> lt_id = ''t1'', lt_fields = None \<rparr>]),
       relationships_of = (\<lambda>d. Inr []),
       dependencies_of = (\<lambda>d. Inr []),
       areas_of = (\<lambda>d. Inr []),
       customTypes_of = (\<lambda>d. Inr []),
       notes_of = (\<lambda>d. Inr []),
       diagramFilters_of = (\<lambda>d. Inr []),
       config_toArray = Inr [],
       saveDiagram_outcome = (\<lambda>d. Some ''Failed to save diagram: 503 - unavailable''),
       updateConfig_outcome = (\<lambda>c. None) \<rparr>"

text \<open>The same machine at the next start of the application, with the local storage
  that the first run left.\<close>

definition example_world_later :: "unit World" where
  "example_world_later =
     example_world\<lparr> localStorage := fst (snd (migrateIndexedDBToAPI example_world)) \<rparr>"

definition example_graph :: Graph where
  "example_graph = \<lparr> graph = [(''t1'', [''t2'']), (''t2'', [''t1'']), (''t3'', [])], lastUpdated = 7 \<rparr>"

definition example_canvas :: "(unit, unit, unit, unit) Canvas" where
  "example_canvas = initial example_graph [example_tableNode, example_areaNode]"

definition example_note :: Note where
  "example_note =
     \<lparr> note_id = ''n1'', note_x = Num 1, note_y = Num 2,
       note_width = Num 150, note_height = Num 90 \<rparr>"

text \<open>The store after a drag: the table, the area and the note have moved; the area has
  a measured width and height, the note only a measured width.\<close>

definition example_store :: "Node list" where
  "example_store =
     [example_tableNode\<lparr> position := \<lparr> pos_x = Num 70, pos_y = Num 80 \<rparr> \<rparr>,
      example_areaNode\<lparr> position := \<lparr> pos_x = Num 5, pos_y = Num 6 \<rparr>,
                        measured := Some \<lparr> measured_width = Some (Num 520),
                                           measured_height = Some (Num 410) \<rparr> \<rparr>,
      \<lparr> node_id = ''n1'', position = \<lparr> pos_x = Num 11, pos_y = Num 12 \<rparr>,
        node_data = NoteData example_note,
        node_width = Some (Num 150), node_height = Some (Num 90), node_zIndex = None,
        hidden = None, node_selected = None,
        measured = Some \<lparr> measured_width = Some (Num 200), measured_height = None \<rparr> \<rparr>]"

text \<open>Two mutations 100ms apart; after the second one a pulse, a drag and 200ms.\<close>

definition example_mutations ::
  "((unit, unit, unit) ChartDB \<times> (unit, unit, unit, unit) event list) list" where
  "example_mutations =
     [(example_chartdb, [Elapse 100]),
      (example_chartdb\<lparr> diagramName := ''Shop 2'', areas := [example_area],
                        diagram_notes := [example_note] \<rparr>,
       [Pulse, StoreUpdate example_store, Elapse 200])]"

text \<open>A diagram whose creation date is the invalid date.\<close>

definition example_undated :: "(unit, unit, unit) ChartDB" where
  "example_undated =
     example_chartdb\<lparr> currentDiagram := Some \<lparr> databaseEdition = None, createdAt = None \<rparr> \<rparr>"

definition example_session :: "(unit, unit, unit, unit) event list" where
  "example_session =
     [SaveEffect example_chartdb,
      MouseMove True \<lparr> pos_x = Num 5, pos_y = Num 6 \<rparr>,
      NodesEffect [example_tableNode, example_areaNode]]"
section \<open>View projection of a table\<close>

text \<open>
  C1. The node projected from a table is hidden exactly when the table is not
  forced visible and it fails the filter predicate, or the filter is still loading, or
  it is a view while views are not shown. With the force-show flag set the node is
  not hidden, whatever the other inputs are.
\<close>

theorem tableToTableNode_hidden:
  "hidden (tableToTableNode im t opts) =
     Some (\<not> flag (opt_forceShow opts) \<and>
           (\<not> filterTable im (table_id t) (table_schema t) (opt_filter opts)
                 (defaultSchemas im (opt_databaseType opts))
            \<or> opt_filterLoading opts
            \<or> (isView t \<and> \<not> flag (opt_showDBViews opts))))
   \<and> (opt_forceShow opts = Some True \<longrightarrow> hidden (tableToTableNode im t opts) = Some False)"
  by (auto simp: tableToTableNode_def)

theorem tableToTableNode_hidden_witness:
  "opt_forceShow example_forced = Some True
   \<and> hidden (tableToTableNode example_imported example_view example_forced) = Some False"
  using tableToTableNode_hidden[of example_imported example_view example_forced]
  by (simp add: example_forced_def)

section \<open>Edge reconciliation\<close>

lemma prevEdgeStates_find:
  "prevEdgeStates prev i =
     map_option (\<lambda>e. \<lparr> st_selected = selected e, st_animated = animated e \<rparr>)
       (find (\<lambda>e. edge_id e = i) (rev prev))"
  unfolding prevEdgeStates_def
  by (induction prev rule: rev_induct) auto

lemma find_distinct_ids:
  assumes "distinct (map edge_id prev)" and "p \<in> set prev"
  shows "find (\<lambda>e. edge_id e = edge_id p) (rev prev) = Some p"
proof -
  from assms have "find (\<lambda>e. edge_id e = edge_id p) xs = Some p"
    if "set xs = set prev" and "distinct (map edge_id xs)" for xs
    using that
  proof (induction xs arbitrary: prev)
    case Nil then show ?case by simp
  next
    case (Cons x xs)
    show ?case
    proof (cases "x = p")
      case True then show ?thesis by simp
    next
      case False
      with Cons.prems have pin: "p \<in> set xs" by auto
      with Cons.prems have "edge_id x \<noteq> edge_id p" by (auto simp: image_iff)
      moreover have "find (\<lambda>e. edge_id e = edge_id p) xs = Some p"
        using Cons.IH[of xs] pin Cons.prems by simp
      ultimately show ?thesis by simp
    qed
  qed
  from this[of "rev prev"] assms show ?thesis
    by (simp add: distinct_rev rev_map[symmetric])
qed

lemma find_no_id:
  "(\<forall>p \<in> set prev. edge_id p \<noteq> i) \<Longrightarrow> find (\<lambda>e. edge_id e = i) (rev prev) = None"
  by (simp add: find_None_iff)

lemma relationshipEdges_flags:
  "e \<in> set (relationshipEdges im states idx rs) \<Longrightarrow>
     selected e = Some (carried (states (edge_id e)) st_selected)
     \<and> animated e = Some (carried (states (edge_id e)) st_animated)"
  by (induction rs arbitrary: idx) (auto simp: Let_def)

lemma dependencyEdges_flags:
  "e \<in> set (dependencyEdges im sv states idx ds) \<Longrightarrow>
     selected e = Some (carried (states (edge_id e)) st_selected)
     \<and> animated e = Some (carried (states (edge_id e)) st_animated)"
  by (induction ds arbitrary: idx) (auto simp: Let_def)

lemma relationshipEdges_ids:
  "map edge_id (relationshipEdges im states idx rs) = map rel_id rs"
  by (induction rs arbitrary: idx) (auto simp: Let_def)

lemma dependencyEdges_ids:
  "map edge_id (dependencyEdges im sv states idx ds) = map dep_id ds"
  by (induction ds arbitrary: idx) (auto simp: Let_def)

lemma regenerated_flags:
  assumes "e \<in> set (resulting prevEdges (setEdges_regenerate im rels deps sv prevEdges))"
  shows "selected e = Some (carried (prevEdgeStates prevEdges (edge_id e)) st_selected)
       \<and> animated e = Some (carried (prevEdgeStates prevEdges (edge_id e)) st_animated)"
  using assms relationshipEdges_flags dependencyEdges_flags
  by (fastforce simp: setEdges_regenerate_def Let_def)

text \<open>
  C2. When the edge list is regenerated from the relationships and the dependencies,
  every regenerated edge whose id is the id of an edge of the previous list has the
  \<^verbatim>\<open>selected\<close> and \<^verbatim>\<open>animated\<close> flags of that previous edge (a flag that was
  \<^verbatim>\<open>undefined\<close> reads as false), and every edge whose id has no previous entry has both
  flags false. Edge ids are unique in the previous list.
\<close>

theorem setEdges_regenerate_carries_flags:
  assumes "distinct (map edge_id prevEdges)"
    and "e \<in> set (resulting prevEdges (setEdges_regenerate im rels deps sv prevEdges))"
  shows "(\<forall>p \<in> set prevEdges. edge_id p = edge_id e \<longrightarrow>
            selected e = Some (flag (selected p)) \<and> animated e = Some (flag (animated p)))
       \<and> ((\<forall>p \<in> set prevEdges. edge_id p \<noteq> edge_id e) \<longrightarrow>
            selected e = Some False \<and> animated e = Some False)"
proof (intro conjI ballI impI)
  fix p assume p: "p \<in> set prevEdges" "edge_id p = edge_id e"
  have "prevEdgeStates prevEdges (edge_id e)
          = Some \<lparr> st_selected = selected p, st_animated = animated p \<rparr>"
    using find_distinct_ids[OF assms(1) p(1)] p(2) by (simp add: prevEdgeStates_find)
  with regenerated_flags[OF assms(2)]
  show "selected e = Some (flag (selected p))" "animated e = Some (flag (animated p))"
    by (auto simp: carried_def split: option.splits)
next
  assume "\<forall>p \<in> set prevEdges. edge_id p \<noteq> edge_id e"
  then have "prevEdgeStates prevEdges (edge_id e) = None"
    by (simp add: prevEdgeStates_find find_no_id)
  with regenerated_flags[OF assms(2)]
  show "selected e = Some False" "animated e = Some False"
    by (auto simp: carried_def)
qed

lemma highlightEdge_keys:
  "edge_id (snd (highlightEdge ts rs e)) = edge_id e"
  "source (snd (highlightEdge ts rs e)) = source e"
  "target (snd (highlightEdge ts rs e)) = target e"
  "edge_type (snd (highlightEdge ts rs e)) = edge_type e"
  by (auto simp: highlightEdge_def Let_def)

lemma highlightEdge_result:
  "currentHighlighted (snd (highlightEdge ts rs e)) = shouldBeHighlighted ts rs e"
  "currentAnimated (snd (highlightEdge ts rs e)) = shouldBeHighlighted ts rs e"
  "currentZIndex (snd (highlightEdge ts rs e)) =
     (if shouldBeHighlighted ts rs e then HIGHLIGHTED_EDGE_Z_INDEX else DEFAULT_EDGE_Z_INDEX)"
  by (auto simp: highlightEdge_def Let_def currentHighlighted_def currentAnimated_def
        currentZIndex_def spread_data_def)

lemma highlightEdge_changed_iff:
  "fst (highlightEdge ts rs e) \<longleftrightarrow>
     \<not> (currentHighlighted e = shouldBeHighlighted ts rs e
        \<and> currentAnimated e = shouldBeHighlighted ts rs e
        \<and> currentZIndex e = (if shouldBeHighlighted ts rs e then HIGHLIGHTED_EDGE_Z_INDEX
                               else DEFAULT_EDGE_Z_INDEX))"
  by (auto simp: highlightEdge_def Let_def)

lemma highlightEdge_relates:
  "(snd (highlightEdge ts rs p))\<lparr> edge_data := None, animated := None, zIndex := None \<rparr>
      = p\<lparr> edge_data := None, animated := None, zIndex := None \<rparr>
   \<and> Option.bind (edge_data (snd (highlightEdge ts rs p))) payload = Option.bind (edge_data p) payload"
  by (auto simp: highlightEdge_def Let_def spread_data_def split: option.splits)

lemma highlightEdge_raw:
  "(shouldBeHighlighted ts rs p \<longrightarrow>
      animated (snd (highlightEdge ts rs p)) = Some True
      \<and> zIndex (snd (highlightEdge ts rs p)) = Some HIGHLIGHTED_EDGE_Z_INDEX)
   \<and> (\<not> shouldBeHighlighted ts rs p \<longrightarrow>
      animated (snd (highlightEdge ts rs p)) \<noteq> Some True
      \<and> zIndex (snd (highlightEdge ts rs p)) \<in> {None, Some DEFAULT_EDGE_Z_INDEX})"
proof -
  have f: "flag x \<longleftrightarrow> x = Some True" for x by (cases x) auto
  show ?thesis
    by (auto simp: highlightEdge_def Let_def currentAnimated_def currentZIndex_def f
        HIGHLIGHTED_EDGE_Z_INDEX_def DEFAULT_EDGE_Z_INDEX_def split: option.splits if_splits)
qed

lemma highlightEdge_same:
  "\<not> fst (highlightEdge ts rs p) \<Longrightarrow> snd (highlightEdge ts rs p) = p"
  by (auto simp: highlightEdge_def Let_def split: if_splits)

lemma highlight_after:
  "filter (\<lambda>e. edge_type e \<noteq> temp_floating_edge)
      (resulting prevEdges (setEdges_highlight ts rs prevEdges))
   = map (\<lambda>p. snd (highlightEdge ts rs p))
       (filter (\<lambda>e. edge_type e \<noteq> temp_floating_edge) prevEdges)"
proof (cases "list_ex fst (map (highlightEdge ts rs)
               (filter (\<lambda>e. edge_type e \<noteq> temp_floating_edge) prevEdges))")
  case True
  then have "resulting prevEdges (setEdges_highlight ts rs prevEdges)
      = map (\<lambda>p. snd (highlightEdge ts rs p))
          (filter (\<lambda>e. edge_type e \<noteq> temp_floating_edge) prevEdges)"
    by (simp add: setEdges_highlight_def Let_def comp_def)
  then show ?thesis
    by (simp add: filter_map comp_def highlightEdge_keys)
next
  case False
  then have same: "\<forall>p \<in> set (filter (\<lambda>e. edge_type e \<noteq> temp_floating_edge) prevEdges).
      snd (highlightEdge ts rs p) = p"
    by (auto simp: list_ex_iff intro: highlightEdge_same)
  from False have "resulting prevEdges (setEdges_highlight ts rs prevEdges) = prevEdges"
    by (simp add: setEdges_highlight_def Let_def)
  moreover have "map (\<lambda>p. snd (highlightEdge ts rs p))
       (filter (\<lambda>e. edge_type e \<noteq> temp_floating_edge) prevEdges)
       = filter (\<lambda>e. edge_type e \<noteq> temp_floating_edge) prevEdges"
    by (rule map_idI) (use same in auto)
  ultimately show ?thesis by simp
qed

lemma highlight_same_iff:
  "setEdges_highlight ts rs prevEdges = SameReference \<longleftrightarrow>
     (\<forall>p \<in> set prevEdges. edge_type p \<noteq> temp_floating_edge \<longrightarrow>
          currentHighlighted p = shouldBeHighlighted ts rs p
          \<and> currentAnimated p = shouldBeHighlighted ts rs p
          \<and> currentZIndex p = (if shouldBeHighlighted ts rs p then HIGHLIGHTED_EDGE_Z_INDEX
                                 else DEFAULT_EDGE_Z_INDEX))"
  by (auto simp: setEdges_highlight_def Let_def list_ex_iff highlightEdge_changed_iff)

lemma highlight_new_no_temp:
  "setEdges_highlight ts rs prevEdges = NewValue new \<Longrightarrow>
     list_all (\<lambda>e. edge_type e \<noteq> temp_floating_edge) new"
  by (auto simp: setEdges_highlight_def Let_def list_all_iff highlightEdge_keys split: if_splits)

text \<open>An edge of the temporary floating type is left out of the recomputation: with its
  source table selected it stays as it is, not highlighted, and the array is handed
  back by reference; when another edge changes, the new array does not have it.\<close>

theorem setEdges_highlight_skips_temp_edge:
  "source example_tempEdge = ''t1''
   \<and> setEdges_highlight [''t1''] [] [example_tempEdge] = SameReference
   \<and> map currentHighlighted
       (resulting [example_tempEdge] (setEdges_highlight [''t1''] [] [example_tempEdge])) = [False]
   \<and> map edge_id
       (resulting [example_prevEdge, example_tempEdge]
          (setEdges_highlight [''t1''] [] [example_prevEdge, example_tempEdge])) = [''r1'']"
  by (simp add: setEdges_highlight_def highlightEdge_def shouldBeHighlighted_def
        currentHighlighted_def currentAnimated_def currentZIndex_def example_prevEdge_def
        example_tempEdge_def HIGHLIGHTED_EDGE_Z_INDEX_def DEFAULT_EDGE_Z_INDEX_def spread_data_def)

text \<open>
  C3, amended. The highlight recomputation, for every previous edge that is not the
  temporary floating edge: the edge is still there after it, in the same place, the
  same but for its highlight, animation and z-index; it is highlighted exactly when
  its id is among the selected edge ids or its source or its target is among the
  selected node ids; a highlighted edge has \<^verbatim>\<open>animated = true\<close> and the raised z-index,
  any other edge is not animated and has the base z-index (or none, which reads as the
  base one). The updater hands back the previous array itself exactly when none of
  these edges has a highlight, animation or z-index that differs from the computed
  one; otherwise the new array has no temporary floating edge.
\<close>

theorem setEdges_highlight_propagates:
  fixes ts rs :: "string list" and prevEdges :: "Edge list"
  defines "kept \<equiv> filter (\<lambda>e. edge_type e \<noteq> temp_floating_edge) prevEdges"
    and "after \<equiv> resulting prevEdges (setEdges_highlight ts rs prevEdges)"
  shows
   "list_all2
      (\<lambda>p e. e\<lparr> edge_data := None, animated := None, zIndex := None \<rparr>
                = p\<lparr> edge_data := None, animated := None, zIndex := None \<rparr>
            \<and> Option.bind (edge_data e) payload = Option.bind (edge_data p) payload
            \<and> (currentHighlighted e \<longleftrightarrow>
                 edge_id p \<in> set rs \<or> source p \<in> set ts \<or> target p \<in> set ts)
            \<and> (currentHighlighted e \<longrightarrow>
                 animated e = Some True \<and> zIndex e = Some HIGHLIGHTED_EDGE_Z_INDEX)
            \<and> (\<not> currentHighlighted e \<longrightarrow>
                 animated e \<noteq> Some True \<and> zIndex e \<in> {None, Some DEFAULT_EDGE_Z_INDEX}))
      kept (filter (\<lambda>e. edge_type e \<noteq> temp_floating_edge) after)
    \<and> (setEdges_highlight ts rs prevEdges = SameReference \<longleftrightarrow>
         (\<forall>p \<in> set kept.
            currentHighlighted p = (edge_id p \<in> set rs \<or> source p \<in> set ts \<or> target p \<in> set ts)
            \<and> currentAnimated p = currentHighlighted p
            \<and> currentZIndex p = (if currentHighlighted p then HIGHLIGHTED_EDGE_Z_INDEX
                                  else DEFAULT_EDGE_Z_INDEX)))
    \<and> (setEdges_highlight ts rs prevEdges \<noteq> SameReference \<longrightarrow>
         list_all (\<lambda>e. edge_type e \<noteq> temp_floating_edge) after)"
proof -
  have rel: "list_all2
      (\<lambda>p e. e\<lparr> edge_data := None, animated := None, zIndex := None \<rparr>
                = p\<lparr> edge_data := None, animated := None, zIndex := None \<rparr>
            \<and> Option.bind (edge_data e) payload = Option.bind (edge_data p) payload
            \<and> (currentHighlighted e \<longleftrightarrow>
                 edge_id p \<in> set rs \<or> source p \<in> set ts \<or> target p \<in> set ts)
            \<and> (currentHighlighted e \<longrightarrow>
                 animated e = Some True \<and> zIndex e = Some HIGHLIGHTED_EDGE_Z_INDEX)
            \<and> (\<not> currentHighlighted e \<longrightarrow>
                 animated e \<noteq> Some True \<and> zIndex e \<in> {None, Some DEFAULT_EDGE_Z_INDEX}))
      kept (filter (\<lambda>e. edge_type e \<noteq> temp_floating_edge) after)"
    unfolding after_def highlight_after kept_def[symmetric] list_all2_map2
  proof (rule list_all2_same[THEN iffD2], rule ballI)
    fix p assume "p \<in> set kept"
    let ?e = "snd (highlightEdge ts rs p)"
    from highlightEdge_relates[of ts rs p] highlightEdge_raw[of ts rs p]
      highlightEdge_result(1)[of ts rs p]
    show "?e\<lparr> edge_data := None, animated := None, zIndex := None \<rparr>
                = p\<lparr> edge_data := None, animated := None, zIndex := None \<rparr>
            \<and> Option.bind (edge_data ?e) payload = Option.bind (edge_data p) payload
            \<and> (currentHighlighted ?e \<longleftrightarrow>
                 edge_id p \<in> set rs \<or> source p \<in> set ts \<or> target p \<in> set ts)
            \<and> (currentHighlighted ?e \<longrightarrow>
                 animated ?e = Some True \<and> zIndex ?e = Some HIGHLIGHTED_EDGE_Z_INDEX)
            \<and> (\<not> currentHighlighted ?e \<longrightarrow>
                 animated ?e \<noteq> Some True \<and> zIndex ?e \<in> {None, Some DEFAULT_EDGE_Z_INDEX})"
      by (simp add: shouldBeHighlighted_def)
  qed
  have same: "setEdges_highlight ts rs prevEdges = SameReference \<longleftrightarrow>
         (\<forall>p \<in> set kept.
            currentHighlighted p = (edge_id p \<in> set rs \<or> source p \<in> set ts \<or> target p \<in> set ts)
            \<and> currentAnimated p = currentHighlighted p
            \<and> currentZIndex p = (if currentHighlighted p then HIGHLIGHTED_EDGE_Z_INDEX
                                  else DEFAULT_EDGE_Z_INDEX))"
    unfolding highlight_same_iff kept_def
    by (auto simp: shouldBeHighlighted_def)
  have drop: "setEdges_highlight ts rs prevEdges \<noteq> SameReference \<longrightarrow>
         list_all (\<lambda>e. edge_type e \<noteq> temp_floating_edge) after"
    unfolding after_def
    by (cases "setEdges_highlight ts rs prevEdges") (auto dest: highlight_new_no_temp)
  from rel same drop show ?thesis by blast
qed



lemma setEdges_regenerate_ids:
  "map edge_id (resulting prevEdges (setEdges_regenerate im rels deps sv prevEdges))
     = map rel_id rels @ map dep_id deps"
  by (simp add: setEdges_regenerate_def Let_def relationshipEdges_ids dependencyEdges_ids)

text \<open>Two relationships into the same field, and a dependency: the index in the target
  handle counts the earlier edges into the same target.\<close>

lemma setEdges_regenerate_handles:
  "map targetHandle
     (resulting [] (setEdges_regenerate example_imported
        [example_relationship, example_relationship\<lparr> rel_id := ''r2'' \<rparr>] [example_dependency]
        False []))
   = [Some ''target_rel_0_f2'', Some ''target_rel_1_f2'', Some ''target_dep_0_t2'']"
  by (simp add: setEdges_regenerate_def Let_def targetIndexes_def targetDepIndexes_def
      example_relationship_def example_dependency_def example_imported_def show_nat.simps digit_def)

theorem setEdges_regenerate_carries_flags_witness:
  "distinct (map edge_id [example_prevEdge])
   \<and> map selected (resulting [example_prevEdge]
         (setEdges_regenerate example_imported [example_relationship] [example_dependency] True
            [example_prevEdge])) = [Some True, Some False]
   \<and> map animated (resulting [example_prevEdge]
         (setEdges_regenerate example_imported [example_relationship] [example_dependency] True
            [example_prevEdge])) = [Some False, Some False]"
  using setEdges_regenerate_carries_flags[of "[example_prevEdge]"
      "hd (resulting [example_prevEdge]
         (setEdges_regenerate example_imported [example_relationship] [example_dependency] True
            [example_prevEdge]))" example_imported "[example_relationship]" "[example_dependency]" True]
  by (simp add: setEdges_regenerate_def prevEdgeStates_def targetIndexes_def targetDepIndexes_def
        example_prevEdge_def example_relationship_def example_dependency_def carried_def)

theorem setEdges_highlight_propagates_witness:
  "map (\<lambda>e. (edge_id e, source e, target e, currentHighlighted e, animated e, zIndex e))
     (resulting [example_prevEdge, example_otherEdge, example_depEdge]
        (setEdges_highlight [''t1''] [] [example_prevEdge, example_otherEdge, example_depEdge]))
   = [(''r1'', ''t1'', ''t2'', True, Some True, Some 1),
      (''r2'', ''t3'', ''t4'', False, Some False, Some 0),
      (''d1'', ''t1'', ''t2'', True, Some True, Some 1)]
   \<and> setEdges_highlight [''t3''] [''r2''] [example_otherEdge, example_tempEdge] = SameReference
   \<and> setEdges_highlight [''t9''] [] [example_prevEdge, example_depEdge] = SameReference"
  using setEdges_highlight_propagates[of "[''t1'']" "[]" "[example_prevEdge, example_otherEdge, example_depEdge]"]
    setEdges_highlight_propagates[of "[''t3'']" "[''r2'']" "[example_otherEdge, example_tempEdge]"]
    setEdges_highlight_propagates[of "[''t9'']" "[]" "[example_prevEdge, example_depEdge]"]
  by (simp add: setEdges_highlight_def highlightEdge_def shouldBeHighlighted_def
        currentHighlighted_def currentAnimated_def currentZIndex_def example_prevEdge_def
        example_otherEdge_def example_depEdge_def example_tempEdge_def
        HIGHLIGHTED_EDGE_Z_INDEX_def DEFAULT_EDGE_Z_INDEX_def spread_data_def)

section \<open>The connect gesture: outcomes\<close>

text \<open>A release whose target field does not resolve: the handler returns at once. It
  creates nothing and shows no toast.\<close>

theorem onConnectHandler_missing_field_silent:
  "handleFieldId (conn_sourceHandle (example_connection ''left_rel_f1'' ''target_rel_0_f9'')) = ''f1''
   \<and> handleFieldId (conn_targetHandle (example_connection ''left_rel_f1'' ''target_rel_0_f9'')) = ''f9''
   \<and> getField example_chartdb ''t2'' ''f9'' = None
   \<and> onConnectHandler example_imported example_chartdb
        (example_connection ''left_rel_f1'' ''target_rel_0_f9'') = []"
  by (simp add: onConnectHandler_def handleFieldId_def example_connection_def example_chartdb_def
        example_imported_def startsWith_def)

text \<open>
  C4, amended. For a release whose source handle does not carry a dependency prefix:
  when a resolved endpoint field is missing, the handler makes no call at all (no
  relationship, no dependency and no warning); when both fields resolve and the
  type-compatibility predicate rejects them, the handler makes exactly one call, the
  warning toast; when the predicate accepts them, the handler makes exactly one call,
  which creates the relationship with the resolved table and field ids.
\<close>

theorem onConnectHandler_outcomes:
  assumes "\<not> (case conn_sourceHandle params of None \<Rightarrow> False
             | Some h \<Rightarrow> startsWith h (TOP_SOURCE_HANDLE_ID_PREFIX im)
                         \<or> startsWith h (BOTTOM_SOURCE_HANDLE_ID_PREFIX im))"
  shows "let sf = getField ctx (conn_source params) (handleFieldId (conn_sourceHandle params));
             tf = getField ctx (conn_target params) (handleFieldId (conn_targetHandle params))
         in ((sf = None \<or> tf = None) \<longrightarrow> onConnectHandler im ctx params = [])
          \<and> (\<forall>s t. sf = Some s \<and> tf = Some t
                   \<and> \<not> areFieldTypesCompatible im (field_type s) (field_type t) (databaseType ctx)
                \<longrightarrow> onConnectHandler im ctx params = [Toast ''Field types are not compatible'' ''destructive''
                        ''Relationships can only be created between compatible field types''])
          \<and> (\<forall>s t. sf = Some s \<and> tf = Some t
                   \<and> areFieldTypesCompatible im (field_type s) (field_type t) (databaseType ctx)
                \<longrightarrow> onConnectHandler im ctx params =
                      [CreateRelationship (conn_source params) (conn_target params)
                         (handleFieldId (conn_sourceHandle params))
                         (handleFieldId (conn_targetHandle params))])"
  using assms
  by (auto simp: onConnectHandler_def Let_def split: option.splits)

theorem onConnectHandler_outcomes_witness:
  "onConnectHandler example_imported example_chartdb
        (example_connection ''left_rel_f1'' ''target_rel_0_f9'') = []
   \<and> onConnectHandler example_imported example_chartdb
        (example_connection ''left_rel_f1'' ''target_rel_0_f3'') =
          [Toast ''Field types are not compatible'' ''destructive''
             ''Relationships can only be created between compatible field types'']
   \<and> onConnectHandler example_imported example_chartdb
        (example_connection ''left_rel_f1'' ''target_rel_0_f2'') =
          [CreateRelationship ''t1'' ''t2'' ''f1'' ''f2'']"
  using onConnectHandler_outcomes[where params="example_connection ''left_rel_f1'' ''target_rel_0_f9''"
            and im=example_imported and ctx=example_chartdb]
    onConnectHandler_outcomes[where params="example_connection ''left_rel_f1'' ''target_rel_0_f3''"
            and im=example_imported and ctx=example_chartdb]
    onConnectHandler_outcomes[where params="example_connection ''left_rel_f1'' ''target_rel_0_f2''"
            and im=example_imported and ctx=example_chartdb]
  by (simp add: handleFieldId_def example_connection_def example_chartdb_def
        example_imported_def startsWith_def example_field_def)

text \<open>A source handle with a dependency prefix creates a dependency, whatever the fields are.\<close>

lemma onConnectHandler_dependency:
  "onConnectHandler example_imported example_chartdb (example_connection ''top_dep_t1'' ''target_dep_0_t2'')
     = [CreateDependency ''t2'' ''t1'']"
  by (simp add: onConnectHandler_def example_connection_def example_imported_def startsWith_def)

section \<open>Read-only mode\<close>

lemma no_remove_relevant:
  "\<not> list_ex is_node_remove cs \<Longrightarrow> removeChanges (findRelevantNodesChanges g cs ty) = []"
  by (auto simp: findRelevantNodesChanges_def Let_def list_ex_iff filter_empty_conv)

lemma additional_no_remove:
  "\<not> list_ex is_node_remove (concat (map (areaDragAdditionalChanges ctx) xs))"
  by (auto simp: list_ex_iff areaDragAdditionalChanges_def Let_def
      split: NodeChange.splits option.splits)

lemma changesToApply_readonly:
  "readonly ctx \<Longrightarrow> \<not> list_ex is_node_remove (changesToApply_of ctx getNode changes)"
  using additional_no_remove[of ctx]
  by (auto simp: changesToApply_of_def Let_def list_ex_iff)

lemma syncTablePositions_ids:
  "map update_id (syncTablePositions getNode cur) = map table_id cur"
  by (auto simp: syncTablePositions_def split: option.splits)

lemma handler_unfold:
  "onNodesChangeHandler im ctx getNode changes =
     (let changesToApply = changesToApply_of ctx getNode changes;
          areaChanges = findRelevantNodesChanges getNode changesToApply area_node;
          noteChanges = findRelevantNodesChanges getNode changesToApply note_node;
          tableChanges = findRelevantNodesChanges getNode changesToApply table_node;
          movements =
            (if positionChanges areaChanges \<noteq> [] \<and> sizeChanges areaChanges = []
             then childTableMovements im ctx (positionChanges areaChanges) else [])
      in (if positionChanges tableChanges \<noteq> [] \<or> sizeChanges tableChanges \<noteq> [] \<or> movements \<noteq> []
          then [UpdateTablesState (syncTablePositions getNode)
                  \<lparr> updateHistory = Some False, skipPersist = Some True \<rparr>,
                SetSaveTrigger]
          else [])
         @ (if positionChanges areaChanges \<noteq> [] \<or> sizeChanges areaChanges \<noteq> []
               \<or> positionChanges noteChanges \<noteq> [] \<or> sizeChanges noteChanges \<noteq> []
            then [SetSaveTrigger] else [])
         @ (if removeChanges tableChanges \<noteq> [] \<or> removeChanges areaChanges \<noteq> []
            then [UpdateTablesState
                    (removeTables (removeChanges tableChanges) (removeChanges areaChanges))
                    \<lparr> updateHistory = Some (removeChanges tableChanges \<noteq> []), skipPersist = None \<rparr>]
            else [])
         @ map (\<lambda>c. RemoveArea (node_change_id c)) (removeChanges areaChanges)
         @ map (\<lambda>c. RemoveNote (node_change_id c)) (removeChanges noteChanges)
         @ [UpdateOverlappingGraphOnChangesDebounced
              (positionChanges tableChanges) (sizeChanges tableChanges),
            OnNodesChange changesToApply])"
  unfolding onNodesChangeHandler_def changesToApply_of_def Let_def by (rule refl)

lemma readonly_nodes_no_removal:
  assumes "readonly ctx"
  shows "\<not> list_ex is_removal (onNodesChangeHandler im ctx getNode changes)"
  using no_remove_relevant[OF changesToApply_readonly[OF assms, of getNode changes]]
  by (simp add: handler_unfold Let_def)

lemma readonly_nodes_updates_keep_tables:
  assumes "readonly ctx"
    and "UpdateTablesState f opts \<in> set (onNodesChangeHandler im ctx getNode changes)"
  shows "map update_id (f cur) = map table_id cur"
  using no_remove_relevant[OF changesToApply_readonly[OF assms(1), of getNode changes]] assms(2)
  by (auto simp: handler_unfold Let_def syncTablePositions_ids split: if_splits)

lemma readonly_nodes_as_filtered:
  assumes "readonly ctx"
  shows "onNodesChangeHandler im ctx getNode changes =
         onNodesChangeHandler im (ctx\<lparr> readonly := False \<rparr>) getNode
           (filter (\<lambda>c. \<not> is_node_remove c) changes)"
proof -
  have a: "areaDragAdditionalChanges (ctx\<lparr> readonly := False \<rparr>) = areaDragAdditionalChanges ctx"
    by (rule ext) (simp add: areaDragAdditionalChanges_def split: NodeChange.splits option.splits)
  have c: "changesToApply_of ctx getNode changes =
        changesToApply_of (ctx\<lparr> readonly := False \<rparr>) getNode (filter (\<lambda>c. \<not> is_node_remove c) changes)"
    using assms by (simp add: changesToApply_of_def Let_def a)
  have m: "childTableMovements im (ctx\<lparr> readonly := False \<rparr>) = childTableMovements im ctx"
    by (rule ext) (simp add: childTableMovements_def cong: NodeChange.case_cong option.case_cong)
  show ?thesis
    unfolding handler_unfold c m ..
qed

lemma readonly_nodes_forwarded:
  assumes "readonly ctx"
  shows "\<exists>extra. last (onNodesChangeHandler im ctx getNode changes) =
            OnNodesChange (filter (\<lambda>c. \<not> is_node_remove c) changes @ extra)
          \<and> \<not> list_ex is_node_remove extra"
proof -
  have "\<exists>extra. changesToApply_of ctx getNode changes = filter (\<lambda>c. \<not> is_node_remove c) changes @ extra
          \<and> \<not> list_ex is_node_remove extra"
    using assms additional_no_remove[of ctx]
    by (auto simp: changesToApply_of_def Let_def)
  then show ?thesis
    by (simp add: handler_unfold Let_def)
qed

lemma readonly_edges:
  assumes "readonly ctx"
  shows "onEdgesChangeHandler ctx getEdge changes =
           [OnEdgesChange (filter (\<lambda>c. \<not> is_edge_remove c) changes)]"
  using assms
  by (simp add: onEdgesChangeHandler_def Let_def List.map_filter_def)

text \<open>
  C5. In read-only mode both change handlers drop every change of type \<^verbatim>\<open>remove\<close>
  before they derive anything from the batch: the edge handler only hands the other
  changes on, the node handler makes no removing call and none of its table updates
  drops a table, and it treats the batch as it would treat the batch without its
  \<^verbatim>\<open>remove\<close> changes: the other changes are handed on unchanged and in order.
\<close>

theorem readonly_filters_removals:
  assumes "readonly ctx"
  shows "onEdgesChangeHandler ctx getEdge echanges =
           [OnEdgesChange (filter (\<lambda>c. \<not> is_edge_remove c) echanges)]
       \<and> \<not> list_ex is_removal (onNodesChangeHandler im ctx getNode changes)
       \<and> (\<forall>f opts cur. UpdateTablesState f opts \<in> set (onNodesChangeHandler im ctx getNode changes)
             \<longrightarrow> map update_id (f cur) = map table_id cur)
       \<and> onNodesChangeHandler im ctx getNode changes =
           onNodesChangeHandler im (ctx\<lparr> readonly := False \<rparr>) getNode
             (filter (\<lambda>c. \<not> is_node_remove c) changes)
       \<and> (\<exists>extra. last (onNodesChangeHandler im ctx getNode changes) =
            OnNodesChange (filter (\<lambda>c. \<not> is_node_remove c) changes @ extra)
          \<and> \<not> list_ex is_node_remove extra)"
  using readonly_edges[OF assms] readonly_nodes_no_removal[OF assms]
    readonly_nodes_updates_keep_tables[OF assms] readonly_nodes_as_filtered[OF assms]
    readonly_nodes_forwarded[OF assms]
  by blast

theorem readonly_filters_removals_witness:
  "readonly example_chartdb
   \<and> onEdgesChangeHandler example_chartdb example_getEdge example_edgeChanges =
       [OnEdgesChange [EdgeSelectionChange ''r1'' True]]
   \<and> \<not> list_ex is_removal
         (onNodesChangeHandler example_imported example_chartdb example_getNode example_nodeChanges)
   \<and> last (onNodesChangeHandler example_imported example_chartdb example_getNode example_nodeChanges) =
       OnNodesChange [NodePositionChange ''t1'' (Some \<lparr> pos_x = Num 30, pos_y = Num 40 \<rparr>) (Some False)]"
proof -
  have r: "readonly example_chartdb" by (simp add: example_chartdb_def)
  have c: "changesToApply_of example_chartdb example_getNode example_nodeChanges =
      [NodePositionChange ''t1'' (Some \<lparr> pos_x = Num 30, pos_y = Num 40 \<rparr>) (Some False)]"
    by (simp add: changesToApply_of_def example_nodeChanges_def r example_getNode_def getNode_of_def
        example_tableNode_def example_areaNode_def)
  have l: "last (onNodesChangeHandler example_imported example_chartdb example_getNode
                  example_nodeChanges) =
       OnNodesChange [NodePositionChange ''t1'' (Some \<lparr> pos_x = Num 30, pos_y = Num 40 \<rparr>) (Some False)]"
    unfolding handler_unfold Let_def c by simp
  have f: "filter (\<lambda>c. \<not> is_edge_remove c) example_edgeChanges = [EdgeSelectionChange ''r1'' True]"
    by (simp add: example_edgeChanges_def)
  from readonly_filters_removals[OF r, of example_getEdge example_edgeChanges example_imported
      example_getNode example_nodeChanges]
  have "onEdgesChangeHandler example_chartdb example_getEdge example_edgeChanges =
           [OnEdgesChange (filter (\<lambda>c. \<not> is_edge_remove c) example_edgeChanges)]"
    and "\<not> list_ex is_removal
         (onNodesChangeHandler example_imported example_chartdb example_getNode example_nodeChanges)"
    by blast+
  with r l f show ?thesis by simp
qed

lemma writable_removes:
  "onEdgesChangeHandler (example_chartdb\<lparr> readonly := False \<rparr>) example_getEdge example_edgeChanges =
     [RemoveRelationships [Some ''r1''], OnEdgesChange example_edgeChanges]"
  by (simp add: onEdgesChangeHandler_def example_edgeChanges_def example_getEdge_def
      example_prevEdge_def relationship_id_of_def example_relationship_def edge_change_id_def
      List.map_filter_def dependency_id_of_def)

section \<open>Parent-area reassignment: what the check commits\<close>

lemma map_filter_of_map: "List.map_filter f (map g xs) = List.map_filter (\<lambda>x. f (g x)) xs"
  by (induction xs) (auto split: option.splits)

lemma map_filter_if_empty:
  "List.map_filter (\<lambda>t. if P t then Some (g t) else None) xs = [] \<longleftrightarrow> (\<forall>t \<in> set xs. \<not> P t)"
  by (induction xs) auto

lemma zip_map_self: "zip (map f xs) xs = map (\<lambda>x. (f x, x)) xs"
  by (induction xs) auto

lemma resolved_truthy:
  assumes "\<forall>a \<in> set as. area_id a \<noteq> []"
  shows "truthy_opt (resolveParentArea im as t) \<longleftrightarrow> resolveParentArea im as t \<noteq> None"
proof (cases "find (tableInsideArea im t) as")
  case None then show ?thesis by (simp add: resolveParentArea_def truthy_opt_def)
next
  case (Some a)
  then have "a \<in> set as" by (auto simp: find_Some_iff)
  with assms Some show ?thesis
    by (simp add: resolveParentArea_def truthy_opt_def truthy_str_def)
qed

lemma needsUpdate_resolved:
  assumes "\<forall>a \<in> set (visibleAreas nodes). area_id a \<noteq> []"
    and "\<forall>t \<in> set (visibleTables nodes). parentAreaId t \<noteq> Some []"
  shows "needsUpdate (updateTablesParentAreas im (visibleTables nodes) (visibleAreas nodes))
           (visibleTables nodes) = changed_parents im nodes"
proof -
  have "List.map_filter f xs = List.map_filter g xs" if "\<forall>x \<in> set xs. f x = g x"
    for f g :: "DBTable \<Rightarrow> (string \<times> string option) option" and xs
    using that by (induction xs) (auto split: option.splits)
  note cong = this
  show ?thesis
    unfolding needsUpdate_def updateTablesParentAreas_def changed_parents_def zip_map_self
      map_filter_of_map
  proof (rule cong, rule ballI)
    fix t assume t: "t \<in> set (visibleTables nodes)"
    let ?r = "resolveParentArea im (visibleAreas nodes) t"
    from t assms(2) have old: "truthy_opt (parentAreaId t) \<longleftrightarrow> parentAreaId t \<noteq> None"
      by (auto simp: truthy_opt_def truthy_str_def split: option.splits)
    note new = resolved_truthy[OF assms(1), of im t]
    show "(case (t\<lparr>parentAreaId := ?r\<rparr>, t) of
            (newTable, oldTable) \<Rightarrow>
              if (truthy_opt (parentAreaId newTable) \<or> truthy_opt (parentAreaId oldTable)) \<and>
                 parentAreaId newTable \<noteq> parentAreaId oldTable
              then Some (table_id newTable,
                         if truthy_opt (parentAreaId newTable) then parentAreaId newTable else None)
              else None) =
          (if ?r \<noteq> parentAreaId t then Some (table_id t, ?r) else None)"
      using old new by (cases ?r; cases "parentAreaId t") auto
  qed
qed

lemma find_map_filter_hit:
  assumes "distinct (map table_id xs)" and "t \<in> set xs" and "P t"
  shows "find (\<lambda>u. fst u = table_id t)
           (List.map_filter (\<lambda>t. if P t then Some (table_id t, r t) else None) xs)
         = Some (table_id t, r t)"
  using assms
proof (induction xs)
  case Nil then show ?case by simp
next
  case (Cons x xs)
  show ?case
  proof (cases "x = t")
    case True
    with Cons.prems show ?thesis by simp
  next
    case False
    with Cons.prems have "t \<in> set xs" "table_id x \<noteq> table_id t" by (auto simp: image_iff)
    with Cons show ?thesis by simp
  qed
qed

lemma find_map_filter_miss:
  assumes "\<forall>t \<in> set xs. table_id t = i \<longrightarrow> \<not> P t"
  shows "find (\<lambda>u. fst u = i)
           (List.map_filter (\<lambda>t. if P t then Some (table_id t, r t) else None) xs) = None"
  using assms by (induction xs) auto

lemma changed_parents_empty_iff:
  "changed_parents im nodes = [] \<longleftrightarrow>
     (\<forall>t \<in> set (visibleTables nodes). resolveParentArea im (visibleAreas nodes) t = parentAreaId t)"
  unfolding changed_parents_def map_filter_if_empty by simp

lemma resolveParentArea_contains:
  "(case resolveParentArea im as t of
      None \<Rightarrow> list_all (\<lambda>a. \<not> tableInsideArea im t a) as
    | Some i \<Rightarrow> list_ex (\<lambda>a. area_id a = i \<and> tableInsideArea im t a) as)"
  by (auto simp: resolveParentArea_def find_None_iff find_Some_iff list_all_iff list_ex_iff
      split: option.splits)

text \<open>What the check commits, in terms of the resolved parents of the visible tables.\<close>

lemma checkParentAreas_commits:
  assumes "\<forall>a \<in> set (visibleAreas nodes). area_id a \<noteq> []"
    and "\<forall>t \<in> set (visibleTables nodes). parentAreaId t \<noteq> Some []"
    and "distinct (map table_id (visibleTables nodes))"
  shows "((\<exists>t \<in> set (visibleTables nodes).
             resolveParentArea im (visibleAreas nodes) t \<noteq> parentAreaId t) \<longrightarrow>
          (\<exists>f. checkParentAreas im nodes =
                  [UpdateTablesState f \<lparr> updateHistory = Some False, skipPersist = None \<rparr>]
             \<and> (\<forall>cur. length (f cur) = length cur
                  \<and> (\<forall>i < length cur.
                       (\<forall>t \<in> set (visibleTables nodes).
                          table_id t = table_id (cur ! i)
                          \<and> resolveParentArea im (visibleAreas nodes) t \<noteq> parentAreaId t \<longrightarrow>
                          f cur ! i =
                            Patch \<lparr> patch_id = table_id t, patch_x = None, patch_y = None,
                                    patch_width = None,
                                    patch_parentAreaId =
                                      Some (resolveParentArea im (visibleAreas nodes) t) \<rparr>)
                     \<and> ((\<forall>t \<in> set (visibleTables nodes).
                            table_id t = table_id (cur ! i) \<longrightarrow>
                            resolveParentArea im (visibleAreas nodes) t = parentAreaId t) \<longrightarrow>
                          f cur ! i = WholeTable (cur ! i))))))
       \<and> ((\<forall>t \<in> set (visibleTables nodes).
              resolveParentArea im (visibleAreas nodes) t = parentAreaId t) \<longrightarrow>
            checkParentAreas im nodes = [])"
proof -
  note nu = needsUpdate_resolved[OF assms(1,2), of im]
  have run: "checkParentAreas im nodes =
      (if changed_parents im nodes \<noteq> []
       then [UpdateTablesState (applyParentUpdates (changed_parents im nodes))
               \<lparr> updateHistory = Some False, skipPersist = None \<rparr>]
       else [])"
    by (simp add: checkParentAreas_def Let_def nu)
  have hit: "applyParentUpdates (changed_parents im nodes) cur ! i =
               Patch \<lparr> patch_id = table_id t, patch_x = None, patch_y = None,
                       patch_width = None,
                       patch_parentAreaId = Some (resolveParentArea im (visibleAreas nodes) t) \<rparr>"
    if "i < length cur" "t \<in> set (visibleTables nodes)" "table_id t = table_id (cur ! i)"
       "resolveParentArea im (visibleAreas nodes) t \<noteq> parentAreaId t" for cur i t
    using that find_map_filter_hit[OF assms(3) that(2),
        of "\<lambda>t. resolveParentArea im (visibleAreas nodes) t \<noteq> parentAreaId t"
           "resolveParentArea im (visibleAreas nodes)"]
    by (simp add: applyParentUpdates_def changed_parents_def)
  have miss: "applyParentUpdates (changed_parents im nodes) cur ! i = WholeTable (cur ! i)"
    if "i < length cur"
       "\<forall>t \<in> set (visibleTables nodes). table_id t = table_id (cur ! i) \<longrightarrow>
            resolveParentArea im (visibleAreas nodes) t = parentAreaId t" for cur i
    using that find_map_filter_miss[of "visibleTables nodes" "table_id (cur ! i)"
        "\<lambda>t. resolveParentArea im (visibleAreas nodes) t \<noteq> parentAreaId t"
           "resolveParentArea im (visibleAreas nodes)"]
    by (simp add: applyParentUpdates_def changed_parents_def)
  have len: "length (applyParentUpdates ups cur) = length cur" for ups cur
    by (simp add: applyParentUpdates_def)
  show ?thesis
  proof (intro conjI impI)
    assume "\<exists>t \<in> set (visibleTables nodes).
             resolveParentArea im (visibleAreas nodes) t \<noteq> parentAreaId t"
    then have "changed_parents im nodes \<noteq> []"
      by (simp add: changed_parents_empty_iff)
    with run have "checkParentAreas im nodes =
        [UpdateTablesState (applyParentUpdates (changed_parents im nodes))
               \<lparr> updateHistory = Some False, skipPersist = None \<rparr>]" by simp
    with hit miss len
    show "\<exists>f. checkParentAreas im nodes =
                  [UpdateTablesState f \<lparr> updateHistory = Some False, skipPersist = None \<rparr>]
             \<and> (\<forall>cur. length (f cur) = length cur
                  \<and> (\<forall>i < length cur.
                       (\<forall>t \<in> set (visibleTables nodes).
                          table_id t = table_id (cur ! i)
                          \<and> resolveParentArea im (visibleAreas nodes) t \<noteq> parentAreaId t \<longrightarrow>
                          f cur ! i =
                            Patch \<lparr> patch_id = table_id t, patch_x = None, patch_y = None,
                                    patch_width = None,
                                    patch_parentAreaId =
                                      Some (resolveParentArea im (visibleAreas nodes) t) \<rparr>)
                     \<and> ((\<forall>t \<in> set (visibleTables nodes).
                            table_id t = table_id (cur ! i) \<longrightarrow>
                            resolveParentArea im (visibleAreas nodes) t = parentAreaId t) \<longrightarrow>
                          f cur ! i = WholeTable (cur ! i))))"
      by (intro exI[of _ "applyParentUpdates (changed_parents im nodes)"]) blast
  next
    assume "\<forall>t \<in> set (visibleTables nodes).
              resolveParentArea im (visibleAreas nodes) t = parentAreaId t"
    then have "changed_parents im nodes = []" by (simp add: changed_parents_empty_iff)
    with run show "checkParentAreas im nodes = []" by simp
  qed
qed

text \<open>Nodes that are hidden are left out of the check. A visible table that lies
  inside the area it belongs to, while the node of that area is hidden, has its parent
  set to null; a hidden table that lies inside a visible area it does not belong to
  gets no update.\<close>

theorem checkParentAreas_ignores_hidden:
  "tableInsideArea example_imported example_member example_area
   \<and> area_id example_area = ''a1''
   \<and> parentAreaId example_member = Some ''a1''
   \<and> table_updates
        (checkParentAreas example_imported
           [example_memberNode, example_areaNode\<lparr> hidden := Some True \<rparr>])
        [example_member]
       = [[Patch \<lparr> patch_id = ''t1'', patch_x = None, patch_y = None, patch_width = None,
                   patch_parentAreaId = Some None \<rparr>]]
   \<and> tableInsideArea example_imported example_view example_area
   \<and> parentAreaId example_view = None
   \<and> checkParentAreas example_imported
        [example_tableNode\<lparr> hidden := Some True \<rparr>, example_areaNode] = []"
proof -
  have ins: "tableInsideArea example_imported example_member example_area"
    "tableInsideArea example_imported example_view example_area"
    by (simp_all add: tableInsideArea_def example_imported_def example_member_def
        example_view_def example_area_def)
  have vt: "visibleTables [example_memberNode, example_areaNode\<lparr> hidden := Some True \<rparr>]
              = [example_member]"
    "visibleTables [example_tableNode\<lparr> hidden := Some True \<rparr>, example_areaNode] = []"
    by (simp_all add: visibleTables_def example_memberNode_def example_tableNode_def
        example_areaNode_def)
  have va: "visibleAreas [example_memberNode, example_areaNode\<lparr> hidden := Some True \<rparr>] = []"
    by (simp add: visibleAreas_def example_memberNode_def example_tableNode_def
        example_areaNode_def)
  have old: "parentAreaId example_member = Some ''a1''" "table_id example_member = ''t1''"
    "parentAreaId example_view = None" "area_id example_area = ''a1''"
    by (simp_all add: example_member_def example_view_def example_area_def)
  have nu: "needsUpdate (updateTablesParentAreas example_imported [example_member] [])
              [example_member] = [(''t1'', None)]"
    by (simp add: needsUpdate_def updateTablesParentAreas_def resolveParentArea_def
        truthy_opt_def truthy_str_def old)
  have a: "table_updates
        (checkParentAreas example_imported
           [example_memberNode, example_areaNode\<lparr> hidden := Some True \<rparr>])
        [example_member]
       = [[Patch \<lparr> patch_id = ''t1'', patch_x = None, patch_y = None, patch_width = None,
                   patch_parentAreaId = Some None \<rparr>]]"
    by (simp add: checkParentAreas_def vt va nu Let_def table_updates_def applyParentUpdates_def old)
  have b: "checkParentAreas example_imported
        [example_tableNode\<lparr> hidden := Some True \<rparr>, example_areaNode] = []"
    by (simp add: checkParentAreas_def vt Let_def needsUpdate_def updateTablesParentAreas_def)
  from ins old a b show ?thesis by simp
qed

text \<open>
  C8, amended. The parent-area check, on a node list whose area ids are not empty and
  whose visible tables have distinct ids, looks at the tables and the areas whose node
  is not hidden. When the resolved parent of some visible table differs from the parent
  it has, the check makes one call of \<^verbatim>\<open>updateTablesState\<close> that is kept out of the undo
  history; its updater sets the \<^verbatim>\<open>parentAreaId\<close> of each such table to the resolved
  parent and returns every other table, and every table that has no visible node, as
  it is. When no resolved parent differs, the check makes no call. The resolved parent
  is the id of a visible area that contains the table, or null when no visible area
  contains it.
\<close>

theorem checkParentAreas_reassigns:
  assumes "\<forall>a \<in> set (visibleAreas nodes). area_id a \<noteq> []"
    and "\<forall>t \<in> set (visibleTables nodes). parentAreaId t \<noteq> Some []"
    and "distinct (map table_id (visibleTables nodes))"
  shows "((\<exists>t \<in> set (visibleTables nodes).
             resolveParentArea im (visibleAreas nodes) t \<noteq> parentAreaId t) \<longrightarrow>
          (\<exists>f. checkParentAreas im nodes =
                  [UpdateTablesState f \<lparr> updateHistory = Some False, skipPersist = None \<rparr>]
             \<and> (\<forall>cur. length (f cur) = length cur
                  \<and> (\<forall>i < length cur.
                       (\<forall>t \<in> set (visibleTables nodes).
                          table_id t = table_id (cur ! i)
                          \<and> resolveParentArea im (visibleAreas nodes) t \<noteq> parentAreaId t \<longrightarrow>
                          f cur ! i =
                            Patch \<lparr> patch_id = table_id t, patch_x = None, patch_y = None,
                                    patch_width = None,
                                    patch_parentAreaId =
                                      Some (resolveParentArea im (visibleAreas nodes) t) \<rparr>)
                     \<and> ((\<forall>t \<in> set (visibleTables nodes).
                            table_id t = table_id (cur ! i) \<longrightarrow>
                            resolveParentArea im (visibleAreas nodes) t = parentAreaId t) \<longrightarrow>
                          f cur ! i = WholeTable (cur ! i))
                     \<and> (table_id (cur ! i) \<notin> table_id ` set (visibleTables nodes) \<longrightarrow>
                          f cur ! i = WholeTable (cur ! i))))))
       \<and> ((\<forall>t \<in> set (visibleTables nodes).
              resolveParentArea im (visibleAreas nodes) t = parentAreaId t) \<longrightarrow>
            checkParentAreas im nodes = [])
       \<and> (\<forall>t. case resolveParentArea im (visibleAreas nodes) t of
                 None \<Rightarrow> list_all (\<lambda>a. \<not> tableInsideArea im t a) (visibleAreas nodes)
               | Some i \<Rightarrow> list_ex (\<lambda>a. area_id a = i \<and> tableInsideArea im t a)
                             (visibleAreas nodes))"
proof -
  note c = checkParentAreas_commits[OF assms, of im]
  have first: "(\<exists>f. checkParentAreas im nodes =
                  [UpdateTablesState f \<lparr> updateHistory = Some False, skipPersist = None \<rparr>]
             \<and> (\<forall>cur. length (f cur) = length cur
                  \<and> (\<forall>i < length cur.
                       (\<forall>t \<in> set (visibleTables nodes).
                          table_id t = table_id (cur ! i)
                          \<and> resolveParentArea im (visibleAreas nodes) t \<noteq> parentAreaId t \<longrightarrow>
                          f cur ! i =
                            Patch \<lparr> patch_id = table_id t, patch_x = None, patch_y = None,
                                    patch_width = None,
                                    patch_parentAreaId =
                                      Some (resolveParentArea im (visibleAreas nodes) t) \<rparr>)
                     \<and> ((\<forall>t \<in> set (visibleTables nodes).
                            table_id t = table_id (cur ! i) \<longrightarrow>
                            resolveParentArea im (visibleAreas nodes) t = parentAreaId t) \<longrightarrow>
                          f cur ! i = WholeTable (cur ! i))
                     \<and> (table_id (cur ! i) \<notin> table_id ` set (visibleTables nodes) \<longrightarrow>
                          f cur ! i = WholeTable (cur ! i)))))"
    if "\<exists>t \<in> set (visibleTables nodes).
             resolveParentArea im (visibleAreas nodes) t \<noteq> parentAreaId t"
  proof -
    from c that obtain f where f: "checkParentAreas im nodes =
                  [UpdateTablesState f \<lparr> updateHistory = Some False, skipPersist = None \<rparr>]"
      and g: "\<forall>cur. length (f cur) = length cur
                  \<and> (\<forall>i < length cur.
                       (\<forall>t \<in> set (visibleTables nodes).
                          table_id t = table_id (cur ! i)
                          \<and> resolveParentArea im (visibleAreas nodes) t \<noteq> parentAreaId t \<longrightarrow>
                          f cur ! i =
                            Patch \<lparr> patch_id = table_id t, patch_x = None, patch_y = None,
                                    patch_width = None,
                                    patch_parentAreaId =
                                      Some (resolveParentArea im (visibleAreas nodes) t) \<rparr>)
                     \<and> ((\<forall>t \<in> set (visibleTables nodes).
                            table_id t = table_id (cur ! i) \<longrightarrow>
                            resolveParentArea im (visibleAreas nodes) t = parentAreaId t) \<longrightarrow>
                          f cur ! i = WholeTable (cur ! i)))"
      by blast
    have "f cur ! i = WholeTable (cur ! i)"
      if "i < length cur" "table_id (cur ! i) \<notin> table_id ` set (visibleTables nodes)" for cur i
    proof -
      from that(2) have "\<forall>t \<in> set (visibleTables nodes).
                            table_id t = table_id (cur ! i) \<longrightarrow>
                            resolveParentArea im (visibleAreas nodes) t = parentAreaId t"
        by (metis imageI)
      with g that(1) show ?thesis by blast
    qed
    with f g show ?thesis by (intro exI[of _ f]) blast
  qed
  have last: "\<forall>t. case resolveParentArea im (visibleAreas nodes) t of
                 None \<Rightarrow> list_all (\<lambda>a. \<not> tableInsideArea im t a) (visibleAreas nodes)
               | Some i \<Rightarrow> list_ex (\<lambda>a. area_id a = i \<and> tableInsideArea im t a)
                             (visibleAreas nodes)"
    using resolveParentArea_contains by blast
  from first c last show ?thesis by blast
qed


theorem checkParentAreas_reassigns_witness:
  "distinct (map table_id (visibleTables [example_tableNode, example_areaNode]))
   \<and> visibleAreas [example_tableNode, example_areaNode] = [example_area]
   \<and> parentAreaId example_view = None
   \<and> tableInsideArea example_imported example_view example_area
   \<and> (\<exists>f. checkParentAreas example_imported [example_tableNode, example_areaNode] =
             [UpdateTablesState f \<lparr> updateHistory = Some False, skipPersist = None \<rparr>])
   \<and> table_updates (checkParentAreas example_imported [example_tableNode, example_areaNode])
        [example_view, example_view\<lparr> table_id := ''t2'' \<rparr>]
       = [[Patch \<lparr> patch_id = ''t1'', patch_x = None, patch_y = None, patch_width = None,
                   patch_parentAreaId = Some (Some ''a1'') \<rparr>,
           WholeTable (example_view\<lparr> table_id := ''t2'' \<rparr>)]]
   \<and> checkParentAreas example_imported [example_memberNode, example_areaNode] = []"
proof -
  let ?nodes = "[example_tableNode, example_areaNode]"
  let ?cur = "[example_view, example_view\<lparr> table_id := ''t2'' \<rparr>]"
  have vt: "visibleTables ?nodes = [example_view]"
    "visibleTables [example_memberNode, example_areaNode] = [example_member]"
    by (simp_all add: visibleTables_def example_tableNode_def example_areaNode_def
        example_memberNode_def)
  have va: "visibleAreas ?nodes = [example_area]"
    "visibleAreas [example_memberNode, example_areaNode] = [example_area]"
    by (simp_all add: visibleAreas_def example_tableNode_def example_areaNode_def
        example_memberNode_def)
  have ins: "tableInsideArea example_imported example_view example_area"
    "tableInsideArea example_imported example_member example_area"
    by (simp_all add: tableInsideArea_def example_imported_def example_view_def
        example_member_def example_area_def)
  have res: "resolveParentArea example_imported [example_area] example_view = Some ''a1''"
    "resolveParentArea example_imported [example_area] example_member = Some ''a1''"
    by (simp_all add: resolveParentArea_def ins) (simp_all add: example_area_def)
  have old: "parentAreaId example_view = None" "table_id example_view = ''t1''"
    "parentAreaId example_member = Some ''a1''"
    by (simp_all add: example_view_def example_member_def)
  have h1: "\<forall>a \<in> set (visibleAreas ?nodes). area_id a \<noteq> []"
    by (simp add: va example_area_def)
  have h2: "\<forall>t \<in> set (visibleTables ?nodes). parentAreaId t \<noteq> Some []"
    by (simp add: vt old)
  have h3: "distinct (map table_id (visibleTables ?nodes))"
    by (simp add: vt)
  have k1: "\<forall>a \<in> set (visibleAreas [example_memberNode, example_areaNode]). area_id a \<noteq> []"
    by (simp add: va example_area_def)
  have k2: "\<forall>t \<in> set (visibleTables [example_memberNode, example_areaNode]). parentAreaId t \<noteq> Some []"
    by (simp add: vt old)
  have k3: "distinct (map table_id (visibleTables [example_memberNode, example_areaNode]))"
    by (simp add: vt)
  from checkParentAreas_reassigns[OF k1 k2 k3, of example_imported]
  have none: "checkParentAreas example_imported [example_memberNode, example_areaNode] = []"
    by (simp add: vt va res old)
  from checkParentAreas_reassigns[OF h1 h2 h3, of example_imported]
  obtain f where f: "checkParentAreas example_imported ?nodes =
             [UpdateTablesState f \<lparr> updateHistory = Some False, skipPersist = None \<rparr>]"
     and g: "\<forall>cur. length (f cur) = length cur
                  \<and> (\<forall>i < length cur.
                       (\<forall>t \<in> set (visibleTables ?nodes).
                          table_id t = table_id (cur ! i)
                          \<and> resolveParentArea example_imported (visibleAreas ?nodes) t \<noteq> parentAreaId t \<longrightarrow>
                          f cur ! i =
                            Patch \<lparr> patch_id = table_id t, patch_x = None, patch_y = None,
                                    patch_width = None,
                                    patch_parentAreaId =
                                      Some (resolveParentArea example_imported (visibleAreas ?nodes) t) \<rparr>)
                     \<and> (table_id (cur ! i) \<notin> table_id ` set (visibleTables ?nodes) \<longrightarrow>
                          f cur ! i = WholeTable (cur ! i)))"
    by (auto simp: vt va res old)
  from g[rule_format, of ?cur] have len: "length (f ?cur) = 2" by simp
  from g[rule_format, of ?cur] have
    "f ?cur ! 0 =
              Patch \<lparr> patch_id = ''t1'', patch_x = None, patch_y = None, patch_width = None,
                      patch_parentAreaId = Some (Some ''a1'') \<rparr>"
    "f ?cur ! 1 = WholeTable (example_view\<lparr> table_id := ''t2'' \<rparr>)"
    by (simp_all add: vt va res old)
  with len have "f ?cur = [Patch \<lparr> patch_id = ''t1'', patch_x = None, patch_y = None, patch_width = None,
                      patch_parentAreaId = Some (Some ''a1'') \<rparr>,
                    WholeTable (example_view\<lparr> table_id := ''t2'' \<rparr>)]"
    by (cases "f ?cur"; cases "tl (f ?cur)") auto
  with f have tu: "table_updates (checkParentAreas example_imported ?nodes) ?cur
       = [[Patch \<lparr> patch_id = ''t1'', patch_x = None, patch_y = None, patch_width = None,
                   patch_parentAreaId = Some (Some ''a1'') \<rparr>,
           WholeTable (example_view\<lparr> table_id := ''t2'' \<rparr>)]]"
    by (simp add: table_updates_def)
  from f tu none h3 va(1) old ins show ?thesis by blast
qed

section \<open>Migration: the flag and later calls\<close>

lemma already_migrated:
  assumes "getItem_error w = None" and "localStorage w MIGRATION_FLAG = Some ''true''"
  shows "migrateIndexedDBToAPI w =
           (\<lparr> success = True, message = ''Already migrated'', diagramsCount = 0, errors = [] \<rparr>,
            localStorage w, [])"
  using assms by (simp add: migrateIndexedDBToAPI_def)

lemma flag_set_after_run:
  assumes "getItem_error w = None" and "open_error w = None" and "setItem_error w = None"
    and "diagrams_toArray w = Inr ds"
  shows "fst (snd (migrateIndexedDBToAPI w)) MIGRATION_FLAG = Some ''true''"
  using assms
  by (simp add: migrateIndexedDBToAPI_def Let_def split: prod.splits)

text \<open>
  C10. A run of the migration that does not throw at top level (the local storage can
  be read and written, the local database opens and its diagrams can be listed) leaves
  the migration flag at \<^verbatim>\<open>'true'\<close>, whatever the uploads of the diagrams and of the
  configuration did. Every later call that finds the flag returns success with the
  message \<^verbatim>\<open>Already migrated\<close>, makes no call of the API and leaves the storage as it
  is, so that the call after it does the same.
\<close>

theorem migration_never_retried:
  assumes "getItem_error w = None" and "open_error w = None" and "setItem_error w = None"
    and "diagrams_toArray w = Inr ds"
  shows "fst (snd (migrateIndexedDBToAPI w)) MIGRATION_FLAG = Some ''true''
       \<and> (\<forall>w'. getItem_error w' = None
                \<and> localStorage w' MIGRATION_FLAG = fst (snd (migrateIndexedDBToAPI w)) MIGRATION_FLAG
             \<longrightarrow> migrateIndexedDBToAPI w' =
                   (\<lparr> success = True, message = ''Already migrated'', diagramsCount = 0,
                      errors = [] \<rparr>,
                    localStorage w', [])
                 \<and> isMigrationComplete w')"
  using flag_set_after_run[OF assms]
  by (simp add: isMigrationComplete_def already_migrated)

theorem migration_never_retried_witness:
  "getItem_error example_world = None \<and> open_error example_world = None
   \<and> setItem_error example_world = None \<and> diagrams_toArray example_world = Inr [example_legacy]
   \<and> errors (fst (migrateIndexedDBToAPI example_world)) =
        [''Failed to migrate diagram \"Shop\": Failed to save diagram: 503 - unavailable'']
   \<and> success (fst (migrateIndexedDBToAPI example_world)) = False
   \<and> length (snd (snd (migrateIndexedDBToAPI example_world))) = 1
   \<and> fst (snd (migrateIndexedDBToAPI example_world)) MIGRATION_FLAG = Some ''true''
   \<and> migrateIndexedDBToAPI example_world_later =
        (\<lparr> success = True, message = ''Already migrated'', diagramsCount = 0, errors = [] \<rparr>,
         localStorage example_world_later, [])"
proof -
  have h: "getItem_error example_world = None" "open_error example_world = None"
    "setItem_error example_world = None" "diagrams_toArray example_world = Inr [example_legacy]"
    by (simp_all add: example_world_def)
  have e: "errors (fst (migrateIndexedDBToAPI example_world)) =
        [''Failed to migrate diagram \"Shop\": Failed to save diagram: 503 - unavailable'']"
    "success (fst (migrateIndexedDBToAPI example_world)) = False"
    "length (snd (snd (migrateIndexedDBToAPI example_world))) = 1"
    by (simp_all add: migrateIndexedDBToAPI_def example_world_def migrateDiagram_def
        migrateConfig_def example_legacy_def MIGRATION_FLAG_def)
  have l: "getItem_error example_world_later = None"
    "localStorage example_world_later MIGRATION_FLAG =
       fst (snd (migrateIndexedDBToAPI example_world)) MIGRATION_FLAG"
    by (simp_all add: example_world_later_def h)
  from migration_never_retried[OF h] l
  have "fst (snd (migrateIndexedDBToAPI example_world)) MIGRATION_FLAG = Some ''true''"
    and "migrateIndexedDBToAPI example_world_later =
        (\<lparr> success = True, message = ''Already migrated'', diagramsCount = 0, errors = [] \<rparr>,
         localStorage example_world_later, [])"
    by blast+
  with h e show ?thesis by simp
qed

text \<open>A run that throws at top level after the loop (the flag cannot be written) has
  made its uploads and leaves the flag unset.\<close>

lemma setItem_throws_after_uploads:
  "fst (snd (migrateIndexedDBToAPI (example_world\<lparr> setItem_error := Some ''QuotaExceededError'' \<rparr>)))
     MIGRATION_FLAG = None
   \<and> length (snd (snd (migrateIndexedDBToAPI
        (example_world\<lparr> setItem_error := Some ''QuotaExceededError'' \<rparr>)))) = 1"
  by (simp add: migrateIndexedDBToAPI_def example_world_def migrateDiagram_def
        migrateConfig_def example_legacy_def MIGRATION_FLAG_def)

section \<open>Scheduled tasks: what firing leaves alone\<close>

lemma run_callback_frame:
  "now (run_callback im cb s) = now s"
  "next_handle (run_callback im cb s) = next_handle s"
  "timeouts (run_callback im cb s) = timeouts s"
  "animation_frames (run_callback im cb s) = animation_frames s"
  "saveDiagramTimeoutRef (run_callback im cb s) = saveDiagramTimeoutRef s"
  "saveEffectCleanup (run_callback im cb s) = saveEffectCleanup s"
  "rafIdRef (run_callback im cb s) = rafIdRef s"
  "overlapDebounceTimeout (run_callback im cb s) = overlapDebounceTimeout s"
  "cursorPosition (run_callback im cb s) = cursorPosition s"
  "flow_nodes (run_callback im cb s) = flow_nodes s"
  "mounted (run_callback im cb s) = mounted s"
  by (auto simp: run_callback_def split: callback.splits option.splits)

lemma run_callback_saved:
  "saved (run_callback im cb s) =
     saved s @ (case cb of
                  SaveDiagram ctx \<Rightarrow>
                    (case diagramToSave ctx (getNode_of (flow_nodes s)) (now s) of
                       None \<Rightarrow> [] | Some d \<Rightarrow> [d])
                | _ \<Rightarrow> [])"
  by (auto simp: run_callback_def split: callback.splits option.splits)

lemma fold_callbacks_frame:
  "now (fold (\<lambda>x. run_callback im (snd (snd x))) xs s) = now s"
  "next_handle (fold (\<lambda>x. run_callback im (snd (snd x))) xs s) = next_handle s"
  "timeouts (fold (\<lambda>x. run_callback im (snd (snd x))) xs s) = timeouts s"
  "animation_frames (fold (\<lambda>x. run_callback im (snd (snd x))) xs s) = animation_frames s"
  "saveDiagramTimeoutRef (fold (\<lambda>x. run_callback im (snd (snd x))) xs s) = saveDiagramTimeoutRef s"
  "saveEffectCleanup (fold (\<lambda>x. run_callback im (snd (snd x))) xs s) = saveEffectCleanup s"
  "rafIdRef (fold (\<lambda>x. run_callback im (snd (snd x))) xs s) = rafIdRef s"
  "overlapDebounceTimeout (fold (\<lambda>x. run_callback im (snd (snd x))) xs s) = overlapDebounceTimeout s"
  "cursorPosition (fold (\<lambda>x. run_callback im (snd (snd x))) xs s) = cursorPosition s"
  "flow_nodes (fold (\<lambda>x. run_callback im (snd (snd x))) xs s) = flow_nodes s"
  "mounted (fold (\<lambda>x. run_callback im (snd (snd x))) xs s) = mounted s"
  by (induction xs arbitrary: s; simp add: run_callback_frame)+

lemma fold_callbacks_saved:
  "saved (fold (\<lambda>x. run_callback im (snd (snd x))) xs s) =
     saved s @ concat (map (writes_of (flow_nodes s) (now s)) xs)"
proof (induction xs arbitrary: s)
  case Nil then show ?case by simp
next
  case (Cons x xs)
  show ?case
    by (simp add: Cons.IH run_callback_frame run_callback_saved writes_of_def)
qed

lemma writes_of_not_save: "\<not> is_save (snd (snd x)) \<Longrightarrow> writes_of nodes clock x = []"
  by (cases "snd (snd x)") (auto simp: writes_of_def)

lemma concat_writes_filter:
  "concat (map (writes_of nodes clock) xs)
     = concat (map (writes_of nodes clock) (filter (\<lambda>x. is_save (snd (snd x))) xs))"
  by (induction xs) (auto simp: writes_of_not_save)

lemma elapse_frame:
  "now (elapse im dt s) = now s + dt"
  "next_handle (elapse im dt s) = next_handle s"
  "timeouts (elapse im dt s) = filter (\<lambda>x. \<not> fst (snd x) \<le> now s + dt) (timeouts s)"
  "animation_frames (elapse im dt s) = animation_frames s"
  "saveDiagramTimeoutRef (elapse im dt s) = saveDiagramTimeoutRef s"
  "saveEffectCleanup (elapse im dt s) = saveEffectCleanup s"
  "rafIdRef (elapse im dt s) = rafIdRef s"
  "overlapDebounceTimeout (elapse im dt s) = overlapDebounceTimeout s"
  "cursorPosition (elapse im dt s) = cursorPosition s"
  "flow_nodes (elapse im dt s) = flow_nodes s"
  "mounted (elapse im dt s) = mounted s"
  by (simp_all add: elapse_def Let_def fold_callbacks_frame)

lemma elapse_saved:
  "saved (elapse im dt s) =
     saved s @ concat (map (writes_of (flow_nodes s) (now s + dt))
                 (sort_key (\<lambda>x. fst (snd x))
                    (filter (\<lambda>x. fst (snd x) \<le> now s + dt) (pending_saves s))))"
proof -
  have "concat (map (writes_of (flow_nodes s) (now s + dt))
          (sort_key (\<lambda>x. fst (snd x)) (filter (\<lambda>x. fst (snd x) \<le> now s + dt) (timeouts s))))
      = concat (map (writes_of (flow_nodes s) (now s + dt))
          (sort_key (\<lambda>x. fst (snd x))
             (filter (\<lambda>x. fst (snd x) \<le> now s + dt) (pending_saves s))))"
    by (subst concat_writes_filter) (simp add: filter_sort pending_saves_def conj_commute)
  then show ?thesis
    by (simp add: elapse_def Let_def fold_callbacks_saved)
qed

subsection \<open>The invariant\<close>

lemma pending_saves_elapse:
  "pending_saves (elapse im dt s) = filter (\<lambda>x. \<not> fst (snd x) \<le> now s + dt) (pending_saves s)"
  by (simp add: pending_saves_def elapse_frame conj_commute)

lemma single_save_elapse:
  assumes "single_save s"
  shows "single_save (elapse im dt s)"
  using assms
  unfolding single_save_def pending_saves_elapse elapse_frame
  by (auto simp: list_all_iff)

lemma pending_saves_clear:
  "pending_saves (clearTimeout h s) = filter (\<lambda>x. fst x \<noteq> h) (pending_saves s)"
  by (simp add: pending_saves_def clearTimeout_def conj_commute)

lemma single_save_clear:
  assumes "single_save s"
  shows "single_save (clearTimeout h s)"
  using assms
  unfolding single_save_def pending_saves_clear
  by (auto simp: clearTimeout_def list_all_iff)

lemma pending_saves_setTimeout:
  "pending_saves (snd (setTimeout cb delay s)) =
     pending_saves s @ (if is_save cb then [(next_handle s, now s + delay, cb)] else [])"
  by (simp add: pending_saves_def setTimeout_def)

lemma single_save_setTimeout:
  assumes "single_save s" and "\<not> is_save cb"
  shows "single_save (snd (setTimeout cb delay s))"
  using assms
  unfolding single_save_def pending_saves_setTimeout
  by (cases "saveDiagramTimeoutRef s"; cases "overlapDebounceTimeout s")
     (auto simp: setTimeout_def list_all_iff)

lemma single_save_debounce:
  assumes "single_save s" and "\<not> is_save cb"
  shows "single_save (snd (debounce own cb delay s))"
  using assms
  by (auto simp: debounce_def single_save_clear single_save_setTimeout split: option.splits)

lemma cleaned_frame:
  "now (cleaned s) = now s" "next_handle (cleaned s) = next_handle s"
  "saved (cleaned s) = saved s" "mounted (cleaned s) = mounted s"
  "flow_nodes (cleaned s) = flow_nodes s" "animation_frames (cleaned s) = animation_frames s"
  "rafIdRef (cleaned s) = rafIdRef s" "saveDiagramTimeoutRef (cleaned s) = saveDiagramTimeoutRef s"
  "cursorPosition (cleaned s) = cursorPosition s" "issued (cleaned s) = issued s"
  "overlapGraph (cleaned s) = overlapGraph s"
  by (simp_all add: cleaned_def saveEffect_cleanup_def clearTimeout_def)

lemma single_save_cleaned:
  assumes "single_save s"
  shows "single_save (cleaned s)"
  using assms by (simp add: cleaned_def saveEffect_cleanup_def single_save_clear)

lemma pending_saves_cleaned:
  assumes "single_save s"
  shows "pending_saves (cleaned s) = []"
proof (cases "pending_saves s")
  case Nil
  then show ?thesis
    by (simp add: cleaned_def saveEffect_cleanup_def pending_saves_clear)
next
  case (Cons x xs)
  with assms have all: "\<forall>y \<in> set (pending_saves s).
      saveDiagramTimeoutRef s = Some (fst y) \<and> fst y \<noteq> 0 \<and> saveEffectCleanup s"
    by (auto simp: single_save_def list_all_iff)
  with Cons have x: "saveDiagramTimeoutRef s = Some (fst x)" "fst x \<noteq> 0" "saveEffectCleanup s"
    by auto
  from all x have "filter (\<lambda>y. fst y \<noteq> fst x) (pending_saves s) = []"
    by (auto simp: filter_empty_conv)
  with x show ?thesis
    by (simp add: cleaned_def saveEffect_cleanup_def truthy_handle_def pending_saves_clear)
qed

lemma timeouts_cleaned_others:
  assumes "single_save s"
  shows "filter (\<lambda>x. \<not> is_save (snd (snd x))) (timeouts (cleaned s))
           = filter (\<lambda>x. \<not> is_save (snd (snd x))) (timeouts s)"
proof (cases "saveEffectCleanup s \<and> truthy_handle (saveDiagramTimeoutRef s)")
  case False
  then show ?thesis by (auto simp: cleaned_def saveEffect_cleanup_def)
next
  case True
  then obtain h where h: "saveDiagramTimeoutRef s = Some h" "h \<noteq> 0"
    by (auto simp: truthy_handle_def split: option.splits)
  with assms have "\<forall>x \<in> set (timeouts s). fst x = h \<longrightarrow> is_save (snd (snd x))"
    by (auto simp: single_save_def list_all_iff)
  then have "filter (\<lambda>x. \<not> is_save (snd (snd x))) (filter (\<lambda>t. fst t \<noteq> h) (timeouts s))
      = filter (\<lambda>x. \<not> is_save (snd (snd x))) (timeouts s)"
    by (induction "timeouts s") (auto intro: filter_cong)
  with True h show ?thesis
    by (simp add: cleaned_def saveEffect_cleanup_def clearTimeout_def)
qed

lemma single_save_cong:
  assumes "next_handle s' = next_handle s" "timeouts s' = timeouts s"
    "animation_frames s' = animation_frames s" "saveDiagramTimeoutRef s' = saveDiagramTimeoutRef s"
    "saveEffectCleanup s' = saveEffectCleanup s" "rafIdRef s' = rafIdRef s"
    "overlapDebounceTimeout s' = overlapDebounceTimeout s" "now s' = now s" "mounted s' = mounted s"
  shows "single_save s' = single_save s"
  unfolding single_save_def pending_saves_def assms ..

lemma saveEffect_as_body: "saveEffect ctx s = saveEffect_body ctx (cleaned s)"
  by (simp add: saveEffect_def cleaned_def)

lemma below_mono: "below r n \<Longrightarrow> n \<le> m \<Longrightarrow> below r m"
  by (cases r) auto

lemma below_neq: "below r n \<Longrightarrow> r \<noteq> Some n"
  by (cases r) auto

lemma saveEffect_loaded:
  assumes inv: "single_save s" and m: "mounted s" and l: "loaded ctx"
  shows "single_save (saveEffect ctx s)"
    and "pending_saves (saveEffect ctx s) = [(next_handle s, now s + 500, SaveDiagram ctx)]"
    and "saved (saveEffect ctx s) = saved s"
    and "now (saveEffect ctx s) = now s"
    and "mounted (saveEffect ctx s)"
    and "flow_nodes (saveEffect ctx s) = flow_nodes s"
proof -
  define k where "k = (if truthy_handle (saveDiagramTimeoutRef (cleaned s))
            then clearTimeout (the (saveDiagramTimeoutRef (cleaned s))) (cleaned s) else cleaned s)"
  have ck: "single_save k" "pending_saves k = []"
    unfolding k_def
    using single_save_cleaned[OF inv] pending_saves_cleaned[OF inv]
    by (simp_all add: single_save_clear pending_saves_clear)
  have fk: "next_handle k = next_handle s" "now k = now s" "saved k = saved s" "mounted k"
      "flow_nodes k = flow_nodes s"
    unfolding k_def using m by (simp_all add: cleaned_frame clearTimeout_def)
  define t where "t = (snd (setTimeout (SaveDiagram ctx) 500 k))
        \<lparr> saveDiagramTimeoutRef := Some (next_handle s), saveEffectCleanup := True \<rparr>"
  have eq: "saveEffect ctx s = t"
    unfolding t_def k_def using l fk(1)[unfolded k_def]
    by (auto simp: saveEffect_as_body saveEffect_body_def loaded_def Let_def setTimeout_def
        split: prod.splits)
  have ft: "timeouts t = timeouts k @ [(next_handle s, now s + 500, SaveDiagram ctx)]"
    "next_handle t = Suc (next_handle s)" "saveDiagramTimeoutRef t = Some (next_handle s)"
    "saveEffectCleanup t" "overlapDebounceTimeout t = overlapDebounceTimeout k"
    "animation_frames t = animation_frames k" "rafIdRef t = rafIdRef k" "mounted t"
    "now t = now s" "saved t = saved s" "flow_nodes t = flow_nodes s"
    unfolding t_def using fk by (simp_all add: setTimeout_def)
  have nos: "filter (\<lambda>x. is_save (snd (snd x))) (timeouts k) = []"
    using ck(2) by (simp add: pending_saves_def)
  have pt: "pending_saves t = [(next_handle s, now s + 500, SaveDiagram ctx)]"
    unfolding pending_saves_def ft using nos by simp
  show "pending_saves (saveEffect ctx s) = [(next_handle s, now s + 500, SaveDiagram ctx)]"
    "saved (saveEffect ctx s) = saved s" "now (saveEffect ctx s) = now s"
    "mounted (saveEffect ctx s)" "flow_nodes (saveEffect ctx s) = flow_nodes s"
    unfolding eq using pt ft by simp_all
  from ck(1) have b: "below (overlapDebounceTimeout k) (next_handle s)"
    "list_all (\<lambda>x. fst x < next_handle s) (timeouts k)"
    "list_all (\<lambda>x. rafIdRef k = Some (fst x) \<and> fst x \<noteq> 0 \<and> mounted k) (animation_frames k)"
    "0 < next_handle s"
    unfolding single_save_def fk(1) by simp_all
  have "0 < next_handle t" by (simp add: ft)
  moreover have "list_all (\<lambda>x. fst x < next_handle t) (timeouts t)"
    using b(2) by (auto simp: ft list_all_iff)
  moreover have "below (saveDiagramTimeoutRef t) (next_handle t)" by (simp add: ft)
  moreover have "below (overlapDebounceTimeout t) (next_handle t)"
    using below_mono[OF b(1), of "Suc (next_handle s)"] by (simp add: ft)
  moreover have "list_all (\<lambda>x. saveDiagramTimeoutRef t = Some (fst x) \<and> fst x \<noteq> 0 \<and> saveEffectCleanup t
                       \<and> now t < fst (snd x) \<and> overlapDebounceTimeout t \<noteq> Some (fst x)
                       \<and> mounted t) (pending_saves t)"
    unfolding pt using b(4) below_neq[OF b(1)] by (simp add: ft)
  moreover have "list_all (\<lambda>x. rafIdRef t = Some (fst x) \<and> fst x \<noteq> 0 \<and> mounted t) (animation_frames t)"
    using b(3) by (simp add: ft fk list_all_iff)
  moreover have "list_all (\<lambda>x. saveDiagramTimeoutRef t = Some (fst x) \<longrightarrow> is_save (snd (snd x)))
                 (timeouts t)"
    using b(2) by (auto simp: ft list_all_iff)
  ultimately show "single_save (saveEffect ctx s)"
    unfolding eq single_save_def by blast
qed

lemma saveEffect_not_loaded:
  assumes inv: "single_save s" and l: "\<not> loaded ctx"
  shows "single_save (saveEffect ctx s)"
    and "pending_saves (saveEffect ctx s) = []"
proof -
  have eq: "saveEffect ctx s = (cleaned s)\<lparr> saveEffectCleanup := False \<rparr>"
    using l by (auto simp: saveEffect_as_body saveEffect_body_def loaded_def)
  show "pending_saves (saveEffect ctx s) = []"
    unfolding eq using pending_saves_cleaned[OF inv] by (simp add: pending_saves_def)
  then show "single_save (saveEffect ctx s)"
    unfolding eq using single_save_cleaned[OF inv] pending_saves_cleaned[OF inv]
    by (auto simp: single_save_def pending_saves_def list_all_iff)
qed

lemma single_save_saveEffect:
  assumes "single_save s" and "mounted s"
  shows "single_save (saveEffect ctx s)"
  using assms saveEffect_loaded(1) saveEffect_not_loaded(1) by blast

lemma single_save_handleMouseMove:
  assumes "single_save s" and "mounted s"
  shows "single_save (handleMouseMove b ev s)"
proof (cases "b \<and> \<not> truthy_handle (rafIdRef s)")
  case False
  then show ?thesis using assms by (auto simp: handleMouseMove_def)
next
  case True
  with assms(1) have "animation_frames s = []"
    by (cases "animation_frames s") (auto simp: single_save_def truthy_handle_def)
  with True assms show ?thesis
    by (auto simp: handleMouseMove_def requestAnimationFrame_def single_save_def pending_saves_def
        list_all_iff elim: below.elims)
qed

lemma animationFrame_frame:
  "timeouts (animationFrame im s) = timeouts s"
  "next_handle (animationFrame im s) = next_handle s"
  "animation_frames (animationFrame im s) = []"
  "saveDiagramTimeoutRef (animationFrame im s) = saveDiagramTimeoutRef s"
  "saveEffectCleanup (animationFrame im s) = saveEffectCleanup s"
  "overlapDebounceTimeout (animationFrame im s) = overlapDebounceTimeout s"
  "now (animationFrame im s) = now s"
  "mounted (animationFrame im s) = mounted s"
  "saved (animationFrame im s) = saved s"
  "flow_nodes (animationFrame im s) = flow_nodes s"
proof -
  have f: "timeouts (fold (\<lambda>x s'. s'\<lparr> cursorPosition := Some (screenToFlowPosition im (snd x)), rafIdRef := None \<rparr>) xs s0) = timeouts s0
    \<and> next_handle (fold (\<lambda>x s'. s'\<lparr> cursorPosition := Some (screenToFlowPosition im (snd x)), rafIdRef := None \<rparr>) xs s0) = next_handle s0
    \<and> animation_frames (fold (\<lambda>x s'. s'\<lparr> cursorPosition := Some (screenToFlowPosition im (snd x)), rafIdRef := None \<rparr>) xs s0) = animation_frames s0
    \<and> saveDiagramTimeoutRef (fold (\<lambda>x s'. s'\<lparr> cursorPosition := Some (screenToFlowPosition im (snd x)), rafIdRef := None \<rparr>) xs s0) = saveDiagramTimeoutRef s0
    \<and> saveEffectCleanup (fold (\<lambda>x s'. s'\<lparr> cursorPosition := Some (screenToFlowPosition im (snd x)), rafIdRef := None \<rparr>) xs s0) = saveEffectCleanup s0
    \<and> overlapDebounceTimeout (fold (\<lambda>x s'. s'\<lparr> cursorPosition := Some (screenToFlowPosition im (snd x)), rafIdRef := None \<rparr>) xs s0) = overlapDebounceTimeout s0
    \<and> now (fold (\<lambda>x s'. s'\<lparr> cursorPosition := Some (screenToFlowPosition im (snd x)), rafIdRef := None \<rparr>) xs s0) = now s0
    \<and> mounted (fold (\<lambda>x s'. s'\<lparr> cursorPosition := Some (screenToFlowPosition im (snd x)), rafIdRef := None \<rparr>) xs s0) = mounted s0
    \<and> saved (fold (\<lambda>x s'. s'\<lparr> cursorPosition := Some (screenToFlowPosition im (snd x)), rafIdRef := None \<rparr>) xs s0) = saved s0
    \<and> flow_nodes (fold (\<lambda>x s'. s'\<lparr> cursorPosition := Some (screenToFlowPosition im (snd x)), rafIdRef := None \<rparr>) xs s0) = flow_nodes s0"
    for xs and s0 :: "('a, 'b, 'c, 'd) Canvas"
    by (induction xs arbitrary: s0) auto
  show "timeouts (animationFrame im s) = timeouts s"
  "next_handle (animationFrame im s) = next_handle s"
  "animation_frames (animationFrame im s) = []"
  "saveDiagramTimeoutRef (animationFrame im s) = saveDiagramTimeoutRef s"
  "saveEffectCleanup (animationFrame im s) = saveEffectCleanup s"
  "overlapDebounceTimeout (animationFrame im s) = overlapDebounceTimeout s"
  "now (animationFrame im s) = now s"
  "mounted (animationFrame im s) = mounted s"
  "saved (animationFrame im s) = saved s"
  "flow_nodes (animationFrame im s) = flow_nodes s"
    by (simp_all add: animationFrame_def f)
qed

lemma single_save_animationFrame:
  assumes "single_save s"
  shows "single_save (animationFrame im s)"
  using assms unfolding single_save_def pending_saves_def animationFrame_frame
  by simp

lemma single_save_unmount:
  assumes "single_save s"
  shows "single_save (unmount s)"
    and "pending_saves (unmount s) = []"
    and "animation_frames (unmount s) = []"
proof -
  let ?c = "cleaned s"
  have c: "single_save ?c" "pending_saves ?c = []"
    using single_save_cleaned[OF assms] pending_saves_cleaned[OF assms] by simp_all
  have r: "animation_frames (rafCleanup ?c) = []"
  proof (cases "animation_frames ?c")
    case Nil then show ?thesis by (simp add: rafCleanup_def cancelAnimationFrame_def)
  next
    case (Cons x xs)
    with c(1) have all: "\<forall>y \<in> set (animation_frames ?c). rafIdRef ?c = Some (fst y) \<and> fst y \<noteq> 0"
      by (auto simp: single_save_def list_all_iff)
    with Cons have "rafIdRef ?c = Some (fst x)" "fst x \<noteq> 0" by auto
    moreover from all this have "filter (\<lambda>t. fst t \<noteq> fst x) (animation_frames ?c) = []"
      by (auto simp: filter_empty_conv)
    ultimately show ?thesis
      by (simp add: rafCleanup_def cancelAnimationFrame_def truthy_handle_def)
  qed
  have p: "pending_saves (rafCleanup ?c) = []"
    using c(2) by (simp add: rafCleanup_def cancelAnimationFrame_def pending_saves_def)
  have u: "unmount s = (rafCleanup ?c)\<lparr> mounted := False \<rparr>"
    by (simp add: unmount_def cleaned_def)
  show "pending_saves (unmount s) = []" unfolding u using p by (simp add: pending_saves_def)
  show "animation_frames (unmount s) = []" unfolding u using r by simp
  have fr: "timeouts (unmount s) = timeouts ?c" "next_handle (unmount s) = next_handle ?c"
    "overlapDebounceTimeout (unmount s) = overlapDebounceTimeout ?c"
    "saveDiagramTimeoutRef (unmount s) = saveDiagramTimeoutRef ?c"
    unfolding u by (simp_all add: rafCleanup_def cancelAnimationFrame_def)
  have "pending_saves (unmount s) = []" "animation_frames (unmount s) = []"
    unfolding u using p r by (simp_all add: pending_saves_def)
  with c(1) show "single_save (unmount s)"
    unfolding single_save_def fr by simp
qed

lemma single_save_set_overlap:
  assumes "single_save t" and "h < next_handle t"
    and "\<forall>x \<in> set (pending_saves t). fst x \<noteq> h"
  shows "single_save (t\<lparr> overlapDebounceTimeout := Some h \<rparr>)"
  using assms unfolding single_save_def pending_saves_def
  by (auto simp: list_all_iff)

lemma single_save_overlapDebounced:
  assumes "single_save s"
  shows "single_save (updateOverlappingGraphOnChangesDebounced pcs scs nodes s)"
proof -
  let ?k = "case overlapDebounceTimeout s of None \<Rightarrow> s | Some h \<Rightarrow> clearTimeout h s"
  let ?cb = "UpdateOverlappingGraphOnChanges pcs scs nodes (overlapGraph s)"
  let ?t = "snd (setTimeout ?cb 200 ?k)"
  have k1: "single_save ?k"
    using assms by (auto simp: single_save_clear split: option.splits)
  have eq: "updateOverlappingGraphOnChangesDebounced pcs scs nodes s =
      ?t\<lparr> overlapDebounceTimeout := Some (next_handle ?k) \<rparr>"
    by (simp add: updateOverlappingGraphOnChangesDebounced_def debounce_def setTimeout_def
        split: prod.splits)
  have t: "single_save ?t"
    using k1 by (simp add: single_save_setTimeout)
  have n: "next_handle ?k < next_handle ?t"
    by (simp add: setTimeout_def)
  have "pending_saves ?t = pending_saves ?k"
    by (simp add: pending_saves_setTimeout)
  moreover from k1 have "\<forall>x \<in> set (pending_saves ?k). fst x < next_handle ?k"
    unfolding single_save_def pending_saves_def by (auto simp: list_all_iff)
  ultimately have "\<forall>x \<in> set (pending_saves ?t). fst x \<noteq> next_handle ?k"
    by auto
  from single_save_set_overlap[OF t n this] show ?thesis
    unfolding eq .
qed

lemma single_save_step:
  assumes "single_save s"
  shows "single_save (step im ev s)"
proof (cases ev)
  case (Elapse dt) then show ?thesis using assms by (simp add: step_def single_save_elapse)
next
  case AnimationFrame then show ?thesis using assms by (simp add: step_def single_save_animationFrame)
next
  case (SaveEffect ctx) then show ?thesis using assms by (simp add: step_def single_save_saveEffect)
next
  case (NodesEffect nodes)
  then show ?thesis using assms
    by (simp add: step_def checkParentAreasEffect_def single_save_debounce)
next
  case (LoadedEffect b)
  then show ?thesis using assms
    by (simp add: step_def fitViewEffect_def single_save_debounce)
next
  case (FilterEffect ts fl db sv)
  then show ?thesis using assms
    by (simp add: step_def filterEffect_def single_save_debounce)
next
  case Render
  then show ?thesis using assms
    by (auto simp: step_def render_def single_save_def pending_saves_def list_all_iff)
next
  case (NodesChange pcs scs nodes)
  then show ?thesis using assms by (simp add: step_def single_save_overlapDebounced)
next
  case (MouseMove b ev')
  then show ?thesis using assms by (simp add: step_def single_save_handleMouseMove)
next
  case Pulse
  have "single_save (s\<lparr> highlightOverlapping := True \<rparr>)"
    using assms single_save_cong[of "s\<lparr> highlightOverlapping := True \<rparr>" s] by simp
  with Pulse show ?thesis using assms
    by (simp add: step_def pulseOverlappingTables_def single_save_setTimeout)
next
  case (StoreUpdate nodes)
  then show ?thesis
    using assms single_save_cong[of "s\<lparr> flow_nodes := nodes \<rparr>" s] by (simp add: step_def)
next
  case Unmount
  then show ?thesis using assms by (simp add: step_def single_save_unmount)
qed

subsection \<open>Events that leave the pending write alone\<close>

lemma debounce_fresh_frame:
  "pending_saves (snd (debounce None cb delay s)) =
     pending_saves s @ (if is_save cb then [(next_handle s, now s + delay, cb)] else [])"
  "saved (snd (debounce None cb delay s)) = saved s"
  "now (snd (debounce None cb delay s)) = now s"
  "mounted (snd (debounce None cb delay s)) = mounted s"
  by (simp_all add: debounce_def pending_saves_setTimeout) (simp_all add: setTimeout_def)

lemma quiet_step:
  assumes inv: "single_save s" and q: "quiet_event ev"
    and p: "pending_saves s = [(h, d, cb)]" and t: "now s + elapsed [ev] < d"
  shows "pending_saves (step im ev s) = [(h, d, cb)]"
    and "saved (step im ev s) = saved s"
    and "now (step im ev s) = now s + elapsed [ev]"
    and "mounted (step im ev s) = mounted s"
proof -
  from inv p have m: "mounted s" and o: "overlapDebounceTimeout s \<noteq> Some h"
    unfolding single_save_def by simp_all
  have "pending_saves (step im ev s) = [(h, d, cb)] \<and> saved (step im ev s) = saved s
      \<and> now (step im ev s) = now s + elapsed [ev] \<and> mounted (step im ev s) = mounted s"
  proof (cases ev)
    case (Elapse dt)
    with p t show ?thesis
      by (simp add: step_def pending_saves_elapse elapse_saved elapse_frame)
  next
    case AnimationFrame
    with p show ?thesis
      by (simp add: step_def pending_saves_def animationFrame_frame)
  next
    case (SaveEffect ctx) with q show ?thesis by simp
  next
    case Unmount with q show ?thesis by simp
  next
    case (NodesEffect nodes)
    with p m show ?thesis
      by (simp add: step_def checkParentAreasEffect_def debounce_fresh_frame)
  next
    case (LoadedEffect b)
    with p m show ?thesis
      by (simp add: step_def fitViewEffect_def debounce_fresh_frame)
  next
    case (FilterEffect ts fl db sv)
    with p m show ?thesis
      by (simp add: step_def filterEffect_def debounce_fresh_frame)
  next
    case Render
    with p m show ?thesis by (simp add: step_def render_def pending_saves_def)
  next
    case (NodesChange pcs scs nodes)
    let ?k = "case overlapDebounceTimeout s of None \<Rightarrow> s | Some h' \<Rightarrow> clearTimeout h' s"
    have k1: "pending_saves ?k = [(h, d, cb)]"
      using p o by (cases "overlapDebounceTimeout s") (auto simp: pending_saves_clear)
    have k2: "saved ?k = saved s" "now ?k = now s" "mounted ?k = mounted s"
      by (auto simp: clearTimeout_def split: option.splits)
    note k = k1 k2
    have "pending_saves (updateOverlappingGraphOnChangesDebounced pcs scs nodes s) = pending_saves ?k"
      "saved (updateOverlappingGraphOnChangesDebounced pcs scs nodes s) = saved ?k"
      "now (updateOverlappingGraphOnChangesDebounced pcs scs nodes s) = now ?k"
      "mounted (updateOverlappingGraphOnChangesDebounced pcs scs nodes s) = mounted ?k"
      by (simp_all add: updateOverlappingGraphOnChangesDebounced_def debounce_def setTimeout_def
          pending_saves_def split: prod.splits)
    with k NodesChange m show ?thesis by (simp add: step_def)
  next
    case (MouseMove b ev')
    with p m show ?thesis
      by (auto simp: step_def handleMouseMove_def requestAnimationFrame_def pending_saves_def)
  next
    case Pulse
    with p m show ?thesis
      by (simp add: step_def pulseOverlappingTables_def pending_saves_setTimeout)
         (simp add: setTimeout_def pending_saves_def)
  next
    case (StoreUpdate nodes)
    with p m show ?thesis by (simp add: step_def pending_saves_def)
  qed
  then show "pending_saves (step im ev s) = [(h, d, cb)]"
    and "saved (step im ev s) = saved s"
    and "now (step im ev s) = now s + elapsed [ev]"
    and "mounted (step im ev s) = mounted s"
    by simp_all
qed

lemma elapsed_Cons: "elapsed (ev # evs) = elapsed [ev] + elapsed evs"
  by (cases ev) simp_all

lemma quiet_run:
  assumes "single_save s" and "list_all quiet_event evs"
    and "pending_saves s = [(h, d, cb)]" and "now s + elapsed evs < d"
  shows "single_save (run im evs s) \<and> pending_saves (run im evs s) = [(h, d, cb)]
       \<and> saved (run im evs s) = saved s \<and> now (run im evs s) = now s + elapsed evs
       \<and> mounted (run im evs s) = mounted s"
  using assms
proof (induction evs arbitrary: s)
  case Nil
  then show ?case by (simp add: run_def)
next
  case (Cons ev evs)
  from Cons.prems have q: "quiet_event ev" "list_all quiet_event evs"
    and t1: "now s + elapsed [ev] < d" and t2: "now s + elapsed [ev] + elapsed evs < d"
    using elapsed_Cons[of ev evs] by simp_all
  note st = quiet_step[OF Cons.prems(1) q(1) Cons.prems(3) t1, of im]
  have "single_save (step im ev s)" by (rule single_save_step[OF Cons.prems(1)])
  from Cons.IH[OF this q(2) st(1)] t2 st
  have "single_save (run im evs (step im ev s)) \<and>
    pending_saves (run im evs (step im ev s)) = [(h, d, cb)] \<and>
    saved (run im evs (step im ev s)) = saved (step im ev s) \<and>
    now (run im evs (step im ev s)) = now (step im ev s) + elapsed evs \<and>
    mounted (run im evs (step im ev s)) = mounted (step im ev s)"
    by simp
  with st elapsed_Cons[of ev evs] show ?case
    by (simp add: run_def)
qed

lemma single_save_initial: "single_save (initial g nodes)"
  by (simp add: single_save_def initial_def pending_saves_def)

lemma single_save_run:
  assumes "single_save s"
  shows "single_save (run im evs s)"
  using assms by (induction evs arbitrary: s) (simp_all add: run_def single_save_step)

lemma window_coalesces:
  assumes "single_save s" and "mounted s" and "ms \<noteq> []"
    and "\<forall>m \<in> set ms. loaded (fst m) \<and> list_all quiet_event (snd m) \<and> elapsed (snd m) < 500"
  shows "single_save (window im ms s) \<and> saved (window im ms s) = saved s
       \<and> (\<exists>h due. pending_saves (window im ms s) = [(h, due, SaveDiagram (fst (last ms)))]
                   \<and> due + elapsed (snd (last ms)) = now (window im ms s) + 500)"
  using assms
proof (induction ms arbitrary: s)
  case Nil then show ?case by simp
next
  case (Cons m ms)
  from Cons.prems have lm: "loaded (fst m)" "list_all quiet_event (snd m)" "elapsed (snd m) < 500"
    by simp_all
  note se = saveEffect_loaded[OF Cons.prems(1,2) lm(1)]
  let ?s1 = "saveEffect (fst m) s"
  let ?s2 = "run im (snd m) ?s1"
  have "now ?s1 + elapsed (snd m) < now s + 500" using se(4) lm(3) by simp
  from quiet_run[OF se(1) lm(2) se(2) this, of im]
  have r: "single_save ?s2" "pending_saves ?s2 = [(next_handle s, now s + 500, SaveDiagram (fst m))]"
    "saved ?s2 = saved s" "now ?s2 = now s + elapsed (snd m)" "mounted ?s2"
    using se by simp_all
  show ?case
  proof (cases ms)
    case Nil
    with r show ?thesis by simp
  next
    case (Cons m' ms')
    with Cons.prems have "\<forall>m \<in> set ms. loaded (fst m) \<and> list_all quiet_event (snd m) \<and> elapsed (snd m) < 500"
      and "ms \<noteq> []" by simp_all
    from Cons.IH[OF r(1) r(5) this(2) this(1)] r(3) Cons
    show ?thesis by simp
  qed
qed

lemma fire_single:
  assumes "pending_saves s = [(h, d, SaveDiagram ctx)]" and "d \<le> now s + dt"
  shows "saved (elapse im dt s) =
     saved s @ (case diagramToSave ctx (getNode_of (flow_nodes s)) (now s + dt) of
                  None \<Rightarrow> [] | Some x \<Rightarrow> [x])"
  using assms by (simp add: elapse_saved writes_of_def)

lemma pullTable_props:
  "table_id (pullTable g t) = table_id t"
  "table_fields (pullTable g t) = table_fields t"
  "parentAreaId (pullTable g t) = parentAreaId t"
  "g (table_id t) = None \<Longrightarrow> pullTable g t = t"
  "g (table_id t) = Some n \<Longrightarrow>
     table_x (pullTable g t) = pos_x (position n) \<and> table_y (pullTable g t) = pos_y (position n)
     \<and> table_width (pullTable g t) = (case measuredWidth n of Some w \<Rightarrow> Some w | None \<Rightarrow> table_width t)"
  by (auto simp: pullTable_def split: option.splits)

lemma pullArea_props:
  "area_id (pullArea g a) = area_id a"
  "g (area_id a) = None \<Longrightarrow> pullArea g a = a"
  "g (area_id a) = Some n \<Longrightarrow>
     area_x (pullArea g a) = pos_x (position n) \<and> area_y (pullArea g a) = pos_y (position n)
     \<and> (case (measuredWidth n, measuredHeight n) of
           (Some w, Some h) \<Rightarrow> area_width (pullArea g a) = w \<and> area_height (pullArea g a) = h
         | _ \<Rightarrow> area_width (pullArea g a) = area_width a \<and> area_height (pullArea g a) = area_height a)"
  by (auto simp: pullArea_def split: option.splits)

lemma pullNote_props:
  "note_id (pullNote g x) = note_id x"
  "g (note_id x) = None \<Longrightarrow> pullNote g x = x"
  "g (note_id x) = Some n \<Longrightarrow>
     note_x (pullNote g x) = pos_x (position n) \<and> note_y (pullNote g x) = pos_y (position n)
     \<and> (case (measuredWidth n, measuredHeight n) of
           (Some w, Some h) \<Rightarrow> note_width (pullNote g x) = w \<and> note_height (pullNote g x) = h
         | _ \<Rightarrow> note_width (pullNote g x) = note_width x \<and> note_height (pullNote g x) = note_height x)"
  by (auto simp: pullNote_def split: option.splits)

lemma diagramToSave_dated:
  assumes "dated ctx"
  shows "\<exists>d. diagramToSave ctx g clock = Some d
     \<and> vd_id d = diagramId ctx \<and> vd_name d = diagramName ctx \<and> updated_at d = clock
     \<and> content_relationships (vd_content d) = relationships ctx
     \<and> content_dependencies (vd_content d) = dependencies ctx
     \<and> content_customTypes (vd_content d) = customTypes ctx
     \<and> content_databaseType (vd_content d) = databaseType ctx
     \<and> content_tables (vd_content d) = map (pullTable g) (tables ctx)
     \<and> content_areas (vd_content d) = map (pullArea g) (areas ctx)
     \<and> content_notes (vd_content d) = map (pullNote g) (diagram_notes ctx)"
  using assms by (auto simp: dated_def diagramToSave_def Let_def split: option.splits)

lemma diagramToSave_undated:
  "\<not> dated ctx \<Longrightarrow> diagramToSave ctx g clock = None"
  by (auto simp: dated_def diagramToSave_def Let_def split: option.splits)

text \<open>A loaded diagram whose creation date is the invalid date: the save effect sets
  its timer, the timer fires after 500ms, and nothing is written, since the payload
  cannot be assembled (\<^verbatim>\<open>toISOString\<close> throws inside the \<^verbatim>\<open>try\<close> block).\<close>

theorem save_invalid_date_writes_nothing:
  "loaded example_undated
   \<and> pending_saves (window example_imported [(example_undated, [])] example_canvas)
       = [(1, 500, SaveDiagram example_undated)]
   \<and> timeouts (elapse example_imported 500
        (window example_imported [(example_undated, [])] example_canvas)) = []
   \<and> saved (elapse example_imported 500
        (window example_imported [(example_undated, [])] example_canvas)) = []"
  by (simp add: loaded_def example_undated_def example_canvas_def initial_def run_def
      saveEffect_def saveEffect_body_def truthy_str_def truthy_handle_def setTimeout_def
      pending_saves_def elapse_def run_callback_def diagramToSave_def Let_def
      example_chartdb_def)

text \<open>
  C6, amended. In any state the mounted canvas can reach, a window of N \<ge> 1 mutations,
  each a run of the save effect on a loaded diagram, with less than 500ms of other
  events after each: no write is issued during the window; after the last mutation
  exactly one save timer is pending, due 500ms after that mutation, the earlier ones
  having been cleared. Once that time has passed, exactly one write is issued if the
  creation date of the diagram is a valid date, and none if it is not. The payload of
  the write has the id, name, relationships, dependencies and custom types of the last
  mutation, and its tables, areas and notes are those of the last mutation, each
  pulled from its node in the store at the time of the write: an entity that has no
  node is written as it is; one that has a node is written with the position of the
  node, a table with the measured width of the node when that is a number other than
  0, an area or a note with the measured width and height when both are; every other
  field is that of the entity.
\<close>

theorem save_coalesces:
  fixes im :: "('f, 'd) imported" and before :: "('f, 'd, 'c, 'e) event list"
    and g :: Graph and nodes :: "Node list" and s :: "('f, 'd, 'c, 'e) Canvas"
  defines "s \<equiv> run im before (initial g nodes)"
  assumes "mounted s" and "ms \<noteq> []"
    and "\<forall>m \<in> set ms. loaded (fst m) \<and> list_all quiet_event (snd m) \<and> elapsed (snd m) < 500"
    and "500 \<le> elapsed (snd (last ms)) + dt"
  shows "saved (window im ms s) = saved s
       \<and> (\<exists>h due. pending_saves (window im ms s) = [(h, due, SaveDiagram (fst (last ms)))]
                   \<and> due + elapsed (snd (last ms)) = now (window im ms s) + 500)
       \<and> (dated (fst (last ms)) \<longrightarrow>
           (\<exists>d. saved (elapse im dt (window im ms s)) = saved s @ [d]
             \<and> vd_id d = diagramId (fst (last ms))
             \<and> vd_name d = diagramName (fst (last ms))
             \<and> content_relationships (vd_content d) = relationships (fst (last ms))
             \<and> content_dependencies (vd_content d) = dependencies (fst (last ms))
             \<and> content_customTypes (vd_content d) = customTypes (fst (last ms))
             \<and> content_tables (vd_content d) =
                 map (pullTable (getNode_of (flow_nodes (window im ms s)))) (tables (fst (last ms)))
             \<and> content_areas (vd_content d) =
                 map (pullArea (getNode_of (flow_nodes (window im ms s)))) (areas (fst (last ms)))
             \<and> content_notes (vd_content d) =
                 map (pullNote (getNode_of (flow_nodes (window im ms s))))
                   (diagram_notes (fst (last ms)))))
       \<and> (\<not> dated (fst (last ms)) \<longrightarrow> saved (elapse im dt (window im ms s)) = saved s)
       \<and> (\<forall>g t. (g (table_id t) = None \<longrightarrow> pullTable g t = t)
             \<and> (\<forall>n. g (table_id t) = Some n \<longrightarrow>
                  (pullTable g t)\<lparr> table_x := table_x t, table_y := table_y t,
                                   table_width := table_width t \<rparr> = t
                  \<and> table_x (pullTable g t) = pos_x (position n)
                  \<and> table_y (pullTable g t) = pos_y (position n)
                  \<and> (\<forall>m w. measured n = Some m \<and> measured_width m = Some (Num w) \<and> w \<noteq> 0 \<longrightarrow>
                        table_width (pullTable g t) = Some (Num w))
                  \<and> (measured n = None \<longrightarrow> table_width (pullTable g t) = table_width t)
                  \<and> (\<forall>m. measured n = Some m
                          \<and> measured_width m \<in> {None, Some NaN, Some (Num 0)} \<longrightarrow>
                        table_width (pullTable g t) = table_width t)))
       \<and> (\<forall>g a. (g (area_id a) = None \<longrightarrow> pullArea g a = a)
             \<and> (\<forall>n. g (area_id a) = Some n \<longrightarrow>
                  (pullArea g a)\<lparr> area_x := area_x a, area_y := area_y a,
                                  area_width := area_width a, area_height := area_height a \<rparr> = a
                  \<and> area_x (pullArea g a) = pos_x (position n)
                  \<and> area_y (pullArea g a) = pos_y (position n)
                  \<and> (\<forall>m w h. measured n = Some m \<and> measured_width m = Some (Num w) \<and> w \<noteq> 0
                            \<and> measured_height m = Some (Num h) \<and> h \<noteq> 0 \<longrightarrow>
                        area_width (pullArea g a) = Num w \<and> area_height (pullArea g a) = Num h)
                  \<and> (measured n = None \<longrightarrow>
                        area_width (pullArea g a) = area_width a
                        \<and> area_height (pullArea g a) = area_height a)
                  \<and> (\<forall>m. measured n = Some m
                          \<and> (measured_width m \<in> {None, Some NaN, Some (Num 0)}
                             \<or> measured_height m \<in> {None, Some NaN, Some (Num 0)}) \<longrightarrow>
                        area_width (pullArea g a) = area_width a
                        \<and> area_height (pullArea g a) = area_height a)))
       \<and> (\<forall>g x. (g (note_id x) = None \<longrightarrow> pullNote g x = x)
             \<and> (\<forall>n. g (note_id x) = Some n \<longrightarrow>
                  (pullNote g x)\<lparr> note_x := note_x x, note_y := note_y x,
                                  note_width := note_width x, note_height := note_height x \<rparr> = x
                  \<and> note_x (pullNote g x) = pos_x (position n)
                  \<and> note_y (pullNote g x) = pos_y (position n)
                  \<and> (\<forall>m w h. measured n = Some m \<and> measured_width m = Some (Num w) \<and> w \<noteq> 0
                            \<and> measured_height m = Some (Num h) \<and> h \<noteq> 0 \<longrightarrow>
                        note_width (pullNote g x) = Num w \<and> note_height (pullNote g x) = Num h)
                  \<and> (measured n = None \<longrightarrow>
                        note_width (pullNote g x) = note_width x
                        \<and> note_height (pullNote g x) = note_height x)
                  \<and> (\<forall>m. measured n = Some m
                          \<and> (measured_width m \<in> {None, Some NaN, Some (Num 0)}
                             \<or> measured_height m \<in> {None, Some NaN, Some (Num 0)}) \<longrightarrow>
                        note_width (pullNote g x) = note_width x
                        \<and> note_height (pullNote g x) = note_height x)))"
proof -
  let ?s = "window im ms s" and ?ctx = "fst (last ms)"
  have inv: "single_save s"
    unfolding s_def by (rule single_save_run[OF single_save_initial])
  from window_coalesces[OF inv assms(2-4), of im]
  obtain h due where w: "saved ?s = saved s" "pending_saves ?s = [(h, due, SaveDiagram ?ctx)]"
    "due + elapsed (snd (last ms)) = now ?s + 500"
    by blast
  from w(3) assms(5) have "due \<le> now ?s + dt" by simp
  note f = fire_single[OF w(2) this, of im]
  have one: "\<exists>d. saved (elapse im dt ?s) = saved s @ [d]
             \<and> vd_id d = diagramId ?ctx
             \<and> vd_name d = diagramName ?ctx
             \<and> content_relationships (vd_content d) = relationships ?ctx
             \<and> content_dependencies (vd_content d) = dependencies ?ctx
             \<and> content_customTypes (vd_content d) = customTypes ?ctx
             \<and> content_tables (vd_content d) =
                 map (pullTable (getNode_of (flow_nodes ?s))) (tables ?ctx)
             \<and> content_areas (vd_content d) =
                 map (pullArea (getNode_of (flow_nodes ?s))) (areas ?ctx)
             \<and> content_notes (vd_content d) =
                 map (pullNote (getNode_of (flow_nodes ?s))) (diagram_notes ?ctx)"
    if "dated ?ctx"
  proof -
    from diagramToSave_dated[OF that, of "getNode_of (flow_nodes ?s)" "now ?s + dt"]
    obtain d where d: "diagramToSave ?ctx (getNode_of (flow_nodes ?s)) (now ?s + dt) = Some d"
       "vd_id d = diagramId ?ctx" "vd_name d = diagramName ?ctx"
       "content_relationships (vd_content d) = relationships ?ctx"
       "content_dependencies (vd_content d) = dependencies ?ctx"
       "content_customTypes (vd_content d) = customTypes ?ctx"
       "content_tables (vd_content d) = map (pullTable (getNode_of (flow_nodes ?s))) (tables ?ctx)"
       "content_areas (vd_content d) = map (pullArea (getNode_of (flow_nodes ?s))) (areas ?ctx)"
       "content_notes (vd_content d) = map (pullNote (getNode_of (flow_nodes ?s))) (diagram_notes ?ctx)"
      by blast
    have "saved (elapse im dt ?s) = saved s @ [d]"
      using f d(1) w(1) by simp
    with d(2-9) show ?thesis by blast
  qed
  have none: "saved (elapse im dt ?s) = saved s" if "\<not> dated ?ctx"
    using f w(1) diagramToSave_undated[OF that] by simp
  have pt: "(\<forall>g t. (g (table_id t) = None \<longrightarrow> pullTable g t = t)
             \<and> (\<forall>n. g (table_id t) = Some n \<longrightarrow>
                  (pullTable g t)\<lparr> table_x := table_x t, table_y := table_y t,
                                   table_width := table_width t \<rparr> = t
                  \<and> table_x (pullTable g t) = pos_x (position n)
                  \<and> table_y (pullTable g t) = pos_y (position n)
                  \<and> (\<forall>m w. measured n = Some m \<and> measured_width m = Some (Num w) \<and> w \<noteq> 0 \<longrightarrow>
                        table_width (pullTable g t) = Some (Num w))
                  \<and> (measured n = None \<longrightarrow> table_width (pullTable g t) = table_width t)
                  \<and> (\<forall>m. measured n = Some m
                          \<and> measured_width m \<in> {None, Some NaN, Some (Num 0)} \<longrightarrow>
                        table_width (pullTable g t) = table_width t)))"
    by (auto simp: pullTable_def measuredWidth_def split: option.splits)
  have pa: "(\<forall>g a. (g (area_id a) = None \<longrightarrow> pullArea g a = a)
             \<and> (\<forall>n. g (area_id a) = Some n \<longrightarrow>
                  (pullArea g a)\<lparr> area_x := area_x a, area_y := area_y a,
                                  area_width := area_width a, area_height := area_height a \<rparr> = a
                  \<and> area_x (pullArea g a) = pos_x (position n)
                  \<and> area_y (pullArea g a) = pos_y (position n)
                  \<and> (\<forall>m w h. measured n = Some m \<and> measured_width m = Some (Num w) \<and> w \<noteq> 0
                            \<and> measured_height m = Some (Num h) \<and> h \<noteq> 0 \<longrightarrow>
                        area_width (pullArea g a) = Num w \<and> area_height (pullArea g a) = Num h)
                  \<and> (measured n = None \<longrightarrow>
                        area_width (pullArea g a) = area_width a
                        \<and> area_height (pullArea g a) = area_height a)
                  \<and> (\<forall>m. measured n = Some m
                          \<and> (measured_width m \<in> {None, Some NaN, Some (Num 0)}
                             \<or> measured_height m \<in> {None, Some NaN, Some (Num 0)}) \<longrightarrow>
                        area_width (pullArea g a) = area_width a
                        \<and> area_height (pullArea g a) = area_height a)))"
    by (auto simp: pullArea_def measuredWidth_def measuredHeight_def split: option.splits)
  have pn: "(\<forall>g x. (g (note_id x) = None \<longrightarrow> pullNote g x = x)
             \<and> (\<forall>n. g (note_id x) = Some n \<longrightarrow>
                  (pullNote g x)\<lparr> note_x := note_x x, note_y := note_y x,
                                  note_width := note_width x, note_height := note_height x \<rparr> = x
                  \<and> note_x (pullNote g x) = pos_x (position n)
                  \<and> note_y (pullNote g x) = pos_y (position n)
                  \<and> (\<forall>m w h. measured n = Some m \<and> measured_width m = Some (Num w) \<and> w \<noteq> 0
                            \<and> measured_height m = Some (Num h) \<and> h \<noteq> 0 \<longrightarrow>
                        note_width (pullNote g x) = Num w \<and> note_height (pullNote g x) = Num h)
                  \<and> (measured n = None \<longrightarrow>
                        note_width (pullNote g x) = note_width x
                        \<and> note_height (pullNote g x) = note_height x)
                  \<and> (\<forall>m. measured n = Some m
                          \<and> (measured_width m \<in> {None, Some NaN, Some (Num 0)}
                             \<or> measured_height m \<in> {None, Some NaN, Some (Num 0)}) \<longrightarrow>
                        note_width (pullNote g x) = note_width x
                        \<and> note_height (pullNote g x) = note_height x)))"
    by (auto simp: pullNote_def measuredWidth_def measuredHeight_def split: option.splits)
  from w one none pt pa pn show ?thesis by blast
qed


theorem save_coalesces_witness:
  "mounted (run example_imported [] example_canvas)
   \<and> list_all (\<lambda>m. loaded (fst m)) example_mutations
   \<and> map (\<lambda>m. elapsed (snd m)) example_mutations = [100, 200]
   \<and> dated (fst (last example_mutations))
   \<and> saved (window example_imported example_mutations example_canvas) = []
   \<and> map (\<lambda>d. (vd_name d,
               map (\<lambda>t. (table_id t, table_x t, table_y t, table_width t))
                 (content_tables (vd_content d)),
               map (\<lambda>a. (area_id a, area_x a, area_y a, area_width a, area_height a))
                 (content_areas (vd_content d)),
               map (\<lambda>x. (note_id x, note_x x, note_y x, note_width x, note_height x))
                 (content_notes (vd_content d))))
       (saved (elapse example_imported 300
          (window example_imported example_mutations example_canvas)))
     = [(''Shop 2'',
         [(''t1'', Num 70, Num 80, Some (Num 300))],
         [(''a1'', Num 5, Num 6, Num 520, Num 410)],
         [(''n1'', Num 11, Num 12, Num 150, Num 90)])]"
proof -
  have e: "run example_imported [] example_canvas = example_canvas"
    by (simp add: run_def)
  have i: "mounted (run example_imported [] (initial example_graph [example_tableNode, example_areaNode])
             :: (unit, unit, unit, unit) Canvas)"
    "saved example_canvas = []"
    by (simp_all add: run_def initial_def example_canvas_def)
  have l: "loaded example_chartdb" "dated example_chartdb"
    by (simp_all add: loaded_def dated_def example_chartdb_def truthy_str_def)
  then have l2: "loaded (example_chartdb\<lparr> diagramName := ''Shop 2'', areas := [example_area],
                        diagram_notes := [example_note] \<rparr>)"
    "dated (example_chartdb\<lparr> diagramName := ''Shop 2'', areas := [example_area],
                        diagram_notes := [example_note] \<rparr>)"
    by (simp_all add: loaded_def dated_def)
  have h: "example_mutations \<noteq> []"
    "\<forall>m \<in> set example_mutations. loaded (fst m) \<and> list_all quiet_event (snd m) \<and> elapsed (snd m) < 500"
    "500 \<le> elapsed (snd (last example_mutations)) + 300"
    using l l2 by (simp_all add: example_mutations_def)
  have d: "dated (fst (last example_mutations))"
    using l2 by (simp add: example_mutations_def)
  have c: "map (\<lambda>d. (vd_name d,
               map (\<lambda>t. (table_id t, table_x t, table_y t, table_width t))
                 (content_tables (vd_content d)),
               map (\<lambda>a. (area_id a, area_x a, area_y a, area_width a, area_height a))
                 (content_areas (vd_content d)),
               map (\<lambda>x. (note_id x, note_x x, note_y x, note_width x, note_height x))
                 (content_notes (vd_content d))))
       (saved (elapse example_imported 300
          (window example_imported example_mutations example_canvas)))
     = [(''Shop 2'',
         [(''t1'', Num 70, Num 80, Some (Num 300))],
         [(''a1'', Num 5, Num 6, Num 520, Num 410)],
         [(''n1'', Num 11, Num 12, Num 150, Num 90)])]"
    by (simp add: example_mutations_def example_canvas_def initial_def run_def step_def
        saveEffect_def saveEffect_body_def saveEffect_cleanup_def truthy_handle_def truthy_str_def
        setTimeout_def clearTimeout_def elapse_def run_callback_def diagramToSave_def
        pullTable_def pullArea_def pullNote_def pulseOverlappingTables_def getNode_of_def
        example_chartdb_def example_tableNode_def example_areaNode_def example_view_def
        example_area_def example_note_def example_store_def measuredWidth_def
        measuredHeight_def Let_def)
  from save_coalesces[OF i(1) h]
  have "saved (window example_imported example_mutations example_canvas) = saved example_canvas"
    unfolding e[unfolded example_canvas_def] example_canvas_def[symmetric]
    by (auto simp: run_def example_canvas_def)
  with i l l2 e d c show ?thesis
    by (simp add: example_mutations_def example_canvas_def run_def)
qed

subsection \<open>The overlap query and the pulse\<close>

lemma run_callback_highlight:
  "highlightOverlapping (run_callback im cb s) =
     (if cb = ClearHighlight then False else highlightOverlapping s)"
  by (cases cb) (auto simp: run_callback_def split: option.splits)

lemma fold_callbacks_highlight:
  "highlightOverlapping (fold (\<lambda>x. run_callback im (snd (snd x))) xs s) =
     (if list_ex (\<lambda>x. snd (snd x) = ClearHighlight) xs then False else highlightOverlapping s)"
  by (induction xs arbitrary: s) (auto simp: run_callback_highlight)

lemma elapse_highlight:
  "highlightOverlapping (elapse im dt s) =
     (if list_ex (\<lambda>x. snd (snd x) = ClearHighlight \<and> fst (snd x) \<le> now s + dt) (timeouts s)
      then False else highlightOverlapping s)"
  by (auto simp: elapse_def Let_def fold_callbacks_highlight list_ex_iff)

lemma run_callback_clear:
  "overlapGraph (run_callback im ClearHighlight s) = overlapGraph s"
  "saved (run_callback im ClearHighlight s) = saved s"
  "issued (run_callback im ClearHighlight s) = issued s"
  by (simp_all add: run_callback_def)

text \<open>
  C7. The exposed boolean is true exactly when some vertex of the overlap graph has a
  non-empty adjacency list. The pulse sets the highlight flag and schedules its
  clearing 600ms later: the flag is still set before that (when no earlier pulse is
  pending) and is cleared once 600ms have passed; neither the pulse nor the clearing
  touches the graph, the writes to the API or the calls into the diagram context.
\<close>

theorem overlap_query_and_pulse:
  "(hasOverlappingTables g \<longleftrightarrow> (\<exists>kv \<in> set (graph g). snd kv \<noteq> []))
   \<and> highlightOverlapping (pulseOverlappingTables s)
   \<and> overlapGraph (pulseOverlappingTables s) = overlapGraph s
   \<and> saved (pulseOverlappingTables s) = saved s
   \<and> issued (pulseOverlappingTables s) = issued s
   \<and> (\<forall>dt. 600 \<le> dt \<longrightarrow> \<not> highlightOverlapping (elapse im dt (pulseOverlappingTables s)))
   \<and> (\<forall>dt. dt < 600 \<and> list_all (\<lambda>x. snd (snd x) \<noteq> ClearHighlight) (timeouts s) \<longrightarrow>
            highlightOverlapping (elapse im dt (pulseOverlappingTables s)))
   \<and> overlapGraph (run_callback im ClearHighlight s) = overlapGraph s
   \<and> saved (run_callback im ClearHighlight s) = saved s
   \<and> issued (run_callback im ClearHighlight s) = issued s"
proof -
  have q: "hasOverlappingTables g \<longleftrightarrow> (\<exists>kv \<in> set (graph g). snd kv \<noteq> [])"
    by (simp add: hasOverlappingTables_def list_ex_iff case_prod_unfold)
  have p: "highlightOverlapping (pulseOverlappingTables s)"
    "overlapGraph (pulseOverlappingTables s) = overlapGraph s"
    "saved (pulseOverlappingTables s) = saved s"
    "issued (pulseOverlappingTables s) = issued s"
    "timeouts (pulseOverlappingTables s) = timeouts s @ [(next_handle s, now s + 600, ClearHighlight)]"
    "now (pulseOverlappingTables s) = now s"
    by (simp_all add: pulseOverlappingTables_def setTimeout_def)
  have c: "\<forall>dt. 600 \<le> dt \<longrightarrow> \<not> highlightOverlapping (elapse im dt (pulseOverlappingTables s))"
    by (simp add: elapse_highlight p)
  have k: "\<forall>dt. dt < 600 \<and> list_all (\<lambda>x. snd (snd x) \<noteq> ClearHighlight) (timeouts s) \<longrightarrow>
            highlightOverlapping (elapse im dt (pulseOverlappingTables s))"
    by (auto simp: elapse_highlight p list_all_iff list_ex_iff)
  from q p(1-4) c k run_callback_clear[of im s] show ?thesis by blast
qed

theorem overlap_query_and_pulse_witness:
  "hasOverlappingTables example_graph
   \<and> highlightOverlapping (pulseOverlappingTables example_canvas)
   \<and> highlightOverlapping (elapse example_imported 599 (pulseOverlappingTables example_canvas))
   \<and> highlightOverlapping (elapse example_imported 600 (pulseOverlappingTables example_canvas)) = False
   \<and> overlapGraph (elapse example_imported 600 (pulseOverlappingTables example_canvas)) = example_graph"
proof -
  have t: "timeouts example_canvas = []" by (simp add: example_canvas_def initial_def)
  have g: "overlapGraph (elapse example_imported 600 (pulseOverlappingTables example_canvas)) = example_graph"
    by (simp add: elapse_def example_canvas_def initial_def pulseOverlappingTables_def setTimeout_def
        run_callback_def)
  from overlap_query_and_pulse[of example_graph example_canvas example_imported] t g
  show ?thesis
    by (simp add: example_graph_def)
qed

subsection \<open>Unmount\<close>

lemma unmounted_quiet:
  assumes "single_save u" and "\<not> mounted u"
  shows "pending_saves u = []" and "animation_frames u = []"
proof -
  from assms show "pending_saves u = []"
    unfolding single_save_def by (cases "pending_saves u") auto
  from assms show "animation_frames u = []"
    unfolding single_save_def by (cases "animation_frames u") auto
qed

lemma after_unmount_step:
  assumes "single_save u" and "\<not> mounted u"
  shows "single_save (step im ev u)" and "\<not> mounted (step im ev u)"
    and "saved (step im ev u) = saved u" and "cursorPosition (step im ev u) = cursorPosition u"
proof -
  note e = unmounted_quiet[OF assms]
  show "single_save (step im ev u)" by (rule single_save_step[OF assms(1)])
  have "\<not> mounted (step im ev u) \<and> saved (step im ev u) = saved u
        \<and> cursorPosition (step im ev u) = cursorPosition u"
  proof (cases ev)
    case (Elapse dt)
    with assms e show ?thesis by (simp add: step_def elapse_frame elapse_saved)
  next
    case AnimationFrame
    with assms e show ?thesis by (simp add: step_def animationFrame_def)
  qed (use assms in \<open>simp_all add: step_def\<close>)
  then show "\<not> mounted (step im ev u)" "saved (step im ev u) = saved u"
    "cursorPosition (step im ev u) = cursorPosition u" by simp_all
qed

lemma after_unmount_run:
  assumes "single_save u" and "\<not> mounted u"
  shows "saved (run im evs u) = saved u \<and> cursorPosition (run im evs u) = cursorPosition u"
  using assms
proof (induction evs arbitrary: u)
  case Nil then show ?case by (simp add: run_def)
next
  case (Cons ev evs)
  note st = after_unmount_step[OF Cons.prems, of im ev]
  from Cons.IH[OF st(1,2)] st(3,4) show ?case by (simp add: run_def)
qed

lemma unmount_frame:
  "saved (unmount s) = saved s" "cursorPosition (unmount s) = cursorPosition s"
  "\<not> mounted (unmount s)" "timeouts (unmount s) = timeouts (cleaned s)"
  by (simp_all add: unmount_def rafCleanup_def cancelAnimationFrame_def cleaned_def
      saveEffect_cleanup_def clearTimeout_def)

text \<open>
  C9, amended. In every state the canvas can reach, unmounting cancels the pending
  save timer and the pending animation frame of the pointer tracking: afterwards no
  write to the API is pending and none is ever issued, and the cursor position is not
  set again. The timers of the debounced recomputations (parent-area check, fit-view,
  overlap-graph update) and of the pulse are not cancelled: every one of them that was
  pending before the unmount is still pending after it.
\<close>

theorem unmount_cancels_save_and_frame:
  "pending_saves (step im Unmount (run im evs (initial g nodes))) = []
   \<and> animation_frames (step im Unmount (run im evs (initial g nodes))) = []
   \<and> filter (\<lambda>x. \<not> is_save (snd (snd x)))
        (timeouts (step im Unmount (run im evs (initial g nodes))))
      = filter (\<lambda>x. \<not> is_save (snd (snd x))) (timeouts (run im evs (initial g nodes)))
   \<and> (\<forall>later. saved (run im later (step im Unmount (run im evs (initial g nodes))))
                  = saved (run im evs (initial g nodes))
              \<and> cursorPosition (run im later (step im Unmount (run im evs (initial g nodes))))
                  = cursorPosition (run im evs (initial g nodes)))"
proof -
  define s where "s = run im evs (initial g nodes)"
  have inv: "single_save s"
    unfolding s_def by (rule single_save_run[OF single_save_initial])
  have "pending_saves (step im Unmount s) = []
   \<and> animation_frames (step im Unmount s) = []
   \<and> filter (\<lambda>x. \<not> is_save (snd (snd x))) (timeouts (step im Unmount s))
      = filter (\<lambda>x. \<not> is_save (snd (snd x))) (timeouts s)
   \<and> (\<forall>later. saved (run im later (step im Unmount s)) = saved s
              \<and> cursorPosition (run im later (step im Unmount s)) = cursorPosition s)"
  proof (cases "mounted s")
    case False
    then have "step im Unmount s = s" by (simp add: step_def)
    with unmounted_quiet[OF inv False] after_unmount_run[OF inv False, of im]
    show ?thesis by simp
  next
    case True
    then have u: "step im Unmount s = unmount s" by (simp add: step_def)
    note su = single_save_unmount[OF inv]
    from after_unmount_run[OF su(1) unmount_frame(3), of im]
    have "\<forall>later. saved (run im later (unmount s)) = saved s
              \<and> cursorPosition (run im later (unmount s)) = cursorPosition s"
      by (simp add: unmount_frame)
    with su(2,3) timeouts_cleaned_others[OF inv] show ?thesis
      unfolding u by (simp add: unmount_frame)
  qed
  then show ?thesis unfolding s_def .
qed

theorem unmount_cancels_save_and_frame_witness:
  "length (pending_saves (run example_imported example_session example_canvas)) = 1
   \<and> length (animation_frames (run example_imported example_session example_canvas)) = 1
   \<and> pending_saves (step example_imported Unmount
        (run example_imported example_session example_canvas)) = []
   \<and> animation_frames (step example_imported Unmount
        (run example_imported example_session example_canvas)) = []
   \<and> saved (run example_imported [Elapse 500, AnimationFrame]
        (step example_imported Unmount (run example_imported example_session example_canvas))) = []"
proof -
  have r: "length (pending_saves (run example_imported example_session example_canvas)) = 1"
    "length (animation_frames (run example_imported example_session example_canvas)) = 1"
    "saved (run example_imported example_session example_canvas) = []"
    by (simp_all add: example_session_def example_canvas_def initial_def run_def step_def
        saveEffect_def saveEffect_body_def truthy_str_def truthy_handle_def setTimeout_def
        handleMouseMove_def requestAnimationFrame_def checkParentAreasEffect_def debounce_def
        pending_saves_def example_chartdb_def Let_def)
  from unmount_cancels_save_and_frame[of example_imported example_session example_graph
      "[example_tableNode, example_areaNode]"] r
  show ?thesis
    unfolding example_canvas_def by simp
qed

text \<open>The parent-area check that is scheduled when the canvas unmounts stays scheduled,
  fires 300ms later and calls \<^verbatim>\<open>updateTablesState\<close> of the diagram context.\<close>

theorem unmount_leaves_parent_area_check:
  "timeouts (run example_imported [NodesEffect [example_tableNode, example_areaNode], Unmount]
              example_canvas)
     = [(1, 300, CheckParentAreas [example_tableNode, example_areaNode])]
   \<and> mounted (run example_imported [NodesEffect [example_tableNode, example_areaNode], Unmount]
              example_canvas) = False
   \<and> length (issued (run example_imported
        [NodesEffect [example_tableNode, example_areaNode], Unmount, Elapse 300] example_canvas)) = 1"
proof -
  have vt: "visibleTables [example_tableNode, example_areaNode] = [example_view]"
    by (simp add: visibleTables_def example_tableNode_def example_areaNode_def)
  have va: "visibleAreas [example_tableNode, example_areaNode] = [example_area]"
    by (simp add: visibleAreas_def example_tableNode_def example_areaNode_def)
  have "tableInsideArea example_imported example_view example_area"
    by (simp add: tableInsideArea_def example_imported_def example_view_def example_area_def)
  then have "needsUpdate (updateTablesParentAreas example_imported [example_view] [example_area])
               [example_view] = [(''t1'', Some ''a1'')]"
    by (simp add: needsUpdate_def updateTablesParentAreas_def resolveParentArea_def
        truthy_opt_def truthy_str_def)
       (simp add: example_view_def example_area_def)
  then have c: "length (checkParentAreas example_imported [example_tableNode, example_areaNode]) = 1"
    by (simp add: checkParentAreas_def vt va Let_def)
  show ?thesis
    by (simp add: example_canvas_def initial_def run_def step_def checkParentAreasEffect_def
        debounce_def setTimeout_def unmount_def rafCleanup_def truthy_handle_def elapse_def
        run_callback_def c)
qed

end
